theory Spec2Isabelle
  imports Main
begin

section \<open>The C preprocessor's macro expansion\<close>

text \<open>
  The repository is one header, \<^verbatim>\<open>va_opt.h\<close>, whose program is a set of
  \<^verbatim>\<open>#define\<close> directives. Each directive is a value of type \<open>macro\<close> below, with the
  replacement list copied token by token, and the directives in force under one strategy
  form a \<open>table\<close>. What the header computes is what the preprocessor makes of an
  invocation, so the expansion algorithm of C99 6.10.3 is part of the embedding: arguments
  are found by matching parentheses and split at top-level commas, an argument is fully
  expanded before it replaces a parameter unless the parameter is an operand of
  \<^verbatim>\<open>##\<close>, and the result is rescanned together with the tokens that follow. A macro is
  not expanded again inside its own expansion: every token carries the set of macro names
  hidden from it (its hide set), as in Prosser's algorithm for X3J11.

  Comments and white space are not tokens (translation phase 3 removes them before any
  macro is expanded), so a token list is what is left of the source text:
  \<^verbatim>\<open>X(1, /*comment*/)\<close> and \<^verbatim>\<open>X(1, )\<close> are the same list.
\<close>

datatype tok =
    Ident string
  | Number string
  | StrLit string
  | Punct string
  | LParen
  | RParen
  | Comma

type_synonym hideset = "string list"
type_synonym ptoken = "tok \<times> hideset"

datatype macro =
    ObjectLike "tok list"
  | FunctionLike "string list" bool "tok list"

text \<open>
  A preprocessor has no run-time errors; an invocation it cannot expand is a diagnostic of
  the build. \<open>OutOfFuel\<close> is not one of them: it is the bound of the recursion below.
\<close>

datatype error = OutOfFuel | Unterminated string | WrongArgCount string | InvalidPaste

type_synonym table = "(string \<times> macro) list"

definition plain :: "tok \<Rightarrow> ptoken" where
  "plain t = (t, [])"

definition hsinter :: "hideset \<Rightarrow> hideset \<Rightarrow> hideset" where
  "hsinter a b = filter (\<lambda>s. s \<in> set b) a"

definition hsadd :: "hideset \<Rightarrow> ptoken list \<Rightarrow> ptoken list" where
  "hsadd H ts = map (\<lambda>(t, h). (t, H @ h)) ts"

subsection \<open>The arguments of an invocation\<close>

definition nest :: "tok \<Rightarrow> nat \<Rightarrow> nat" where
  "nest t d = (if t = LParen then Suc d else if t = RParen then d - 1 else d)"

text \<open>The tokens up to the parenthesis that closes the invocation, its hide set, and the
  tokens after it.\<close>

fun close_paren :: "nat \<Rightarrow> ptoken list \<Rightarrow> (ptoken list \<times> hideset \<times> ptoken list) option" where
  "close_paren d [] = None"
| "close_paren d ((t, h) # ts) =
     (if t = RParen \<and> d = 0 then Some ([], h, ts)
      else map_option (\<lambda>(inside, h', rest). ((t, h) # inside, h', rest))
             (close_paren (nest t d) ts))"

text \<open>The arguments: the tokens between the parentheses, split at the commas that are not
  inside inner parentheses. No token at all is one empty argument.\<close>

fun split_args :: "nat \<Rightarrow> ptoken list \<Rightarrow> ptoken list list" where
  "split_args d [] = [[]]"
| "split_args d ((t, h) # ts) =
     (if t = Comma \<and> d = 0 then [] # split_args 0 ts
      else (case split_args (nest t d) ts of
              [] \<Rightarrow> [[(t, h)]]
            | a # as \<Rightarrow> ((t, h) # a) # as))"

text \<open>The variable argument: what follows the first \<open>k\<close> arguments, commas included.\<close>

fun drop_args :: "nat \<Rightarrow> nat \<Rightarrow> ptoken list \<Rightarrow> ptoken list" where
  "drop_args 0 d ts = ts"
| "drop_args (Suc k) d [] = []"
| "drop_args (Suc k) d ((t, h) # ts) =
     (if t = Comma \<and> d = 0 then drop_args k 0 ts else drop_args (Suc k) (nest t d) ts)"

definition paste_op :: tok where
  "paste_op = Punct ''##''"

definition va_args :: string where
  "va_args = ''__VA_ARGS__''"

definition va_opt :: string where
  "va_opt = ''__VA_OPT__''"

text \<open>
  The arguments bound to the parameter names. A macro with \<open>k\<close> named parameters and
  \<^verbatim>\<open>...\<close> takes \<open>k\<close> arguments or more (the variable argument may be left out, as
  the header itself does in \<^verbatim>\<open>NTRNLVA_SEL3_I(x, NTRNLVA_SENTINEL_, 0)\<close>); a macro without
  \<^verbatim>\<open>...\<close> takes exactly \<open>k\<close>, where empty parentheses are no argument for \<open>k = 0\<close>
  and one empty argument for \<open>k = 1\<close>. The flag says that the variable argument is left
  out or is the only, empty argument: the case in which \<^verbatim>\<open>, ## __VA_ARGS__\<close>
  drops its comma.
\<close>

definition bind_args ::
  "string \<Rightarrow> string list \<Rightarrow> bool \<Rightarrow> ptoken list
     \<Rightarrow> error + ((string \<times> ptoken list) list \<times> bool)" where
  "bind_args name ps variadic inside =
     (let as = split_args 0 inside; k = length ps in
      if variadic then
        (if length as < k then Inl (WrongArgCount name)
         else Inr (zip ps (take k as) @ [(va_args, drop_args k 0 inside)],
                   length as \<le> k \<or> inside = []))
      else if k = 0 then (if inside = [] then Inr ([], False) else Inl (WrongArgCount name))
      else if length as = k then Inr (zip ps as, False)
      else Inl (WrongArgCount name))"

subsection \<open>Substitution into the replacement list\<close>

text \<open>A parameter is replaced by the expanded argument where it is not an operand of
  \<^verbatim>\<open>##\<close>; \<open>needs_expansion\<close> says whether that happens at all, so that an argument
  nobody uses is not expanded (\<^verbatim>\<open>NTRNLVA_AND_0(y) 0\<close> never looks at \<open>y\<close>).\<close>

fun needs_exp :: "string \<Rightarrow> bool \<Rightarrow> tok list \<Rightarrow> bool" where
  "needs_exp p b [] = False"
| "needs_exp p b (t # ts) =
     (if t = paste_op then needs_exp p True ts
      else (t = Ident p \<and> \<not> b \<and> \<not> (case ts of [] \<Rightarrow> False | u # _ \<Rightarrow> u = paste_op))
           \<or> needs_exp p False ts)"

definition needs_expansion :: "tok list \<Rightarrow> string \<Rightarrow> bool" where
  "needs_expansion body p =
     (needs_exp p False body \<or> (p = va_args \<and> Ident va_opt \<in> set body))"

text \<open>\<^verbatim>\<open>__VA_OPT__ ( content )\<close> stands for its content when the variable argument
  has a token, and for nothing otherwise.\<close>

fun resolve_va_opt :: "bool \<Rightarrow> nat option \<Rightarrow> tok list \<Rightarrow> tok list" where
  "resolve_va_opt keep st [] = []"
| "resolve_va_opt keep None (t # ts) =
     (if t = Ident va_opt then
        (case ts of LParen # ts' \<Rightarrow> resolve_va_opt keep (Some 0) ts'
                  | _ \<Rightarrow> t # resolve_va_opt keep None ts)
      else t # resolve_va_opt keep None ts)"
| "resolve_va_opt keep (Some d) (t # ts) =
     (if t = RParen \<and> d = 0 then resolve_va_opt keep None ts
      else (if keep then [t] else []) @ resolve_va_opt keep (Some (nest t d)) ts)"

definition ident_chars :: "string \<Rightarrow> bool" where
  "ident_chars s =
     list_all (\<lambda>c. c \<in> set ''abcdefghijklmnopqrstuvwxyzABCDEFGHIJKLMNOPQRSTUVWXYZ0123456789_'') s"

text \<open>Token pasting. An identifier followed by letters and digits is an identifier, a
  number followed by either is a number; no other pair that occurs with this header forms
  one token (a string literal never does), and the compiler rejects the paste.\<close>

fun paste_tok :: "tok \<Rightarrow> tok \<Rightarrow> error + tok" where
  "paste_tok (Ident a) (Ident b) = Inr (Ident (a @ b))"
| "paste_tok (Ident a) (Number b) = (if ident_chars b then Inr (Ident (a @ b)) else Inl InvalidPaste)"
| "paste_tok (Number a) (Ident b) = Inr (Number (a @ b))"
| "paste_tok (Number a) (Number b) = Inr (Number (a @ b))"
| "paste_tok _ _ = Inl InvalidPaste"

fun glue :: "ptoken list \<Rightarrow> ptoken list \<Rightarrow> error + ptoken list" where
  "glue os [] = Inr os"
| "glue [] ts = Inr ts"
| "glue os ((t, h) # ts) =
     (case paste_tok (fst (last os)) t of
        Inl e \<Rightarrow> Inl e
      | Inr u \<Rightarrow> Inr (butlast os @ (u, hsinter (snd (last os)) h) # ts))"

type_synonym env = "(string \<times> ptoken list \<times> ptoken list) list"

definition param :: "env \<Rightarrow> tok \<Rightarrow> (ptoken list \<times> ptoken list) option" where
  "param env t = (case t of Ident p \<Rightarrow> map_of env p | _ \<Rightarrow> None)"

text \<open>The comma of \<^verbatim>\<open>, ## __VA_ARGS__\<close> (the GNU extension the GNU strategy is
  written for).\<close>

definition gnu_comma :: "env \<Rightarrow> tok \<Rightarrow> ptoken list \<Rightarrow> bool" where
  "gnu_comma env t ts =
     (t = Comma \<and> map_of env va_args \<noteq> None \<and>
      (case ts of (p, _) # (v, _) # _ \<Rightarrow> p = paste_op \<and> v = Ident va_args | _ \<Rightarrow> False))"

text \<open>\<open>subst env sw is os\<close>: the replacement list \<open>is\<close> read from the left, the output
  \<open>os\<close> grown at the right; \<open>env\<close> gives every parameter its argument as written and
  as expanded.\<close>

fun subst :: "env \<Rightarrow> bool \<Rightarrow> ptoken list \<Rightarrow> ptoken list \<Rightarrow> error + ptoken list" where
  "subst env sw [] os = Inr os"
| "subst env sw [(t, h)] os =
     (if t = paste_op then Inl InvalidPaste
      else case param env t of
             Some (raw, ex) \<Rightarrow> Inr (os @ ex)
           | None \<Rightarrow> Inr (os @ [(t, h)]))"
| "subst env sw ((t, h) # (u, hu) # is) os =
     (if t = paste_op then
        (case glue os (case param env u of Some (raw, ex) \<Rightarrow> raw | None \<Rightarrow> [(u, hu)]) of
           Inl e \<Rightarrow> Inl e
         | Inr os' \<Rightarrow> subst env sw is os')
      else if gnu_comma env t ((u, hu) # is) then
        (if sw then subst env sw (tl is) os
         else subst env sw (tl is)
                (os @ (t, h) # (case map_of env va_args of Some (raw, ex) \<Rightarrow> raw | None \<Rightarrow> [])))
      else case param env t of
             Some (raw, ex) \<Rightarrow>
               (if u = paste_op then
                  (if raw = [] then
                     (case is of
                        [] \<Rightarrow> Inl InvalidPaste
                      | (v, hv) # is' \<Rightarrow>
                          (case param env v of
                             Some (raw', ex') \<Rightarrow> subst env sw is' (os @ raw')
                           | None \<Rightarrow> subst env sw is os))
                   else subst env sw ((u, hu) # is) (os @ raw))
                else subst env sw ((u, hu) # is) (os @ ex))
           | None \<Rightarrow> subst env sw ((u, hu) # is) (os @ [(t, h)]))"

fun sequence :: "(error + 'a) list \<Rightarrow> error + 'a list" where
  "sequence [] = Inr []"
| "sequence (x # xs) =
     (case x of Inl e \<Rightarrow> Inl e
      | Inr a \<Rightarrow> (case sequence xs of Inl e \<Rightarrow> Inl e | Inr as \<Rightarrow> Inr (a # as)))"

definition cons_res :: "ptoken \<Rightarrow> error + ptoken list \<Rightarrow> error + ptoken list" where
  "cons_res t r = (case r of Inl e \<Rightarrow> Inl e | Inr ts \<Rightarrow> Inr (t # ts))"

definition va_nonempty :: "env \<Rightarrow> bool" where
  "va_nonempty env = (case map_of env va_args of Some (raw, ex) \<Rightarrow> ex \<noteq> [] | None \<Rightarrow> False)"

definition replace :: "tok list \<Rightarrow> env \<Rightarrow> bool \<Rightarrow> error + ptoken list" where
  "replace body env sw = subst env sw (map plain (resolve_va_opt (va_nonempty env) None body)) []"

subsection \<open>Rescanning\<close>

datatype call =
    NoCall
  | Failed error
  | Call "tok list" "(string \<times> ptoken list) list" bool hideset "ptoken list"

text \<open>The name of a function-like macro is an invocation only when a left parenthesis
  follows it.\<close>

definition function_call ::
  "string \<Rightarrow> hideset \<Rightarrow> string list \<Rightarrow> bool \<Rightarrow> tok list \<Rightarrow> ptoken list \<Rightarrow> call" where
  "function_call s hs ps variadic body ts =
     (case ts of
        [] \<Rightarrow> NoCall
      | (p, hp) # ts' \<Rightarrow>
          (if p \<noteq> LParen then NoCall
           else (case close_paren 0 ts' of
                   None \<Rightarrow> Failed (Unterminated s)
                 | Some (inside, hs', rest) \<Rightarrow>
                     (case bind_args s ps variadic inside of
                        Inl e \<Rightarrow> Failed e
                      | Inr (actuals, omitted) \<Rightarrow>
                          Call body actuals omitted (s # hsinter hs hs') rest))))"

definition macro_call :: "table \<Rightarrow> ptoken \<Rightarrow> ptoken list \<Rightarrow> call" where
  "macro_call tbl t ts =
     (case fst t of
        Ident s \<Rightarrow>
          (case map_of tbl s of
             None \<Rightarrow> NoCall
           | Some m \<Rightarrow>
               (if s \<in> set (snd t) then NoCall
                else (case m of
                        ObjectLike body \<Rightarrow> Call body [] False (s # snd t) ts
                      | FunctionLike ps variadic body \<Rightarrow>
                          function_call s (snd t) ps variadic body ts)))
      | _ \<Rightarrow> NoCall)"

text \<open>
  \<open>expand tbl n ts\<close> is the token list \<open>ts\<close> after macro replacement. Every replacement
  costs one unit of the fuel \<open>n\<close>; the theorems below hold for every \<open>n\<close> from a bound on,
  so the expansion they talk about ends.
\<close>

function expand :: "table \<Rightarrow> nat \<Rightarrow> ptoken list \<Rightarrow> error + ptoken list" where
  "expand tbl n [] = Inr []"
| "expand tbl n (t # ts) =
     (case macro_call tbl t ts of
        NoCall \<Rightarrow> cons_res t (expand tbl n ts)
      | Failed e \<Rightarrow> Inl e
      | Call body actuals omitted hs rest \<Rightarrow>
          (case n of
             0 \<Rightarrow> Inl OutOfFuel
           | Suc m \<Rightarrow>
               (case sequence
                       (map (\<lambda>(q, a). if needs_expansion body q then expand tbl m a else Inr [])
                            actuals) of
                  Inl e \<Rightarrow> Inl e
                | Inr exs \<Rightarrow>
                    (case replace body (zip (map fst actuals) (zip (map snd actuals) exs))
                            omitted of
                       Inl e \<Rightarrow> Inl e
                     | Inr os \<Rightarrow> expand tbl m (hsadd hs os @ rest)))))"
  by pat_completeness auto
termination
  by (relation "measures [\<lambda>(tbl, n, ts). n, \<lambda>(tbl, n, ts). length ts]") auto


section \<open>The macros of va_opt.h\<close>

subsection \<open>Macros defined for every strategy\<close>

text \<open>\<^verbatim>\<open>#define VA_OPT_H\<close>\<close>
definition VA_OPT_H :: macro where
  "VA_OPT_H = ObjectLike []"

text \<open>\<^verbatim>\<open>#define VA_OPT_H_VERSION 20251227\<close>\<close>
definition VA_OPT_H_VERSION :: macro where
  "VA_OPT_H_VERSION = ObjectLike [Number ''20251227'']"

text \<open>\<^verbatim>\<open>#define NTRNLVA_IMPL_NATIVE 1\<close>\<close>
definition NTRNLVA_IMPL_NATIVE :: macro where
  "NTRNLVA_IMPL_NATIVE = ObjectLike [Number ''1'']"

text \<open>\<^verbatim>\<open>#define NTRNLVA_IMPL_GNU    2\<close>\<close>
definition NTRNLVA_IMPL_GNU :: macro where
  "NTRNLVA_IMPL_GNU = ObjectLike [Number ''2'']"

text \<open>\<^verbatim>\<open>#define NTRNLVA_IMPL_MSVC   3\<close>\<close>
definition NTRNLVA_IMPL_MSVC :: macro where
  "NTRNLVA_IMPL_MSVC = ObjectLike [Number ''3'']"

text \<open>\<^verbatim>\<open>#define NTRNLVA_IMPL_C99    4\<close>\<close>
definition NTRNLVA_IMPL_C99 :: macro where
  "NTRNLVA_IMPL_C99 = ObjectLike [Number ''4'']"

text \<open>\<^verbatim>\<open>#define NTRNLVA_EXPAND(...) __VA_ARGS__\<close>\<close>
definition NTRNLVA_EXPAND :: macro where
  "NTRNLVA_EXPAND =
   FunctionLike [] True
     [Ident ''__VA_ARGS__'']"

text \<open>\<^verbatim>\<open>#define NTRNLVA_OPT_SUPPORTED_I(...) NTRNLVA_SEL3(__VA_OPT__(, ), 1, 0, )\<close>\<close>
definition NTRNLVA_OPT_SUPPORTED_I :: macro where
  "NTRNLVA_OPT_SUPPORTED_I =
   FunctionLike [] True
     [Ident ''NTRNLVA_SEL3'', LParen, Ident ''__VA_OPT__'', LParen, Comma, RParen, Comma,
      Number ''1'', Comma, Number ''0'', Comma, RParen]"

text \<open>\<^verbatim>\<open>#define VA_OPT_SUPPORTED NTRNLVA_OPT_SUPPORTED_I(?)\<close>\<close>
definition VA_OPT_SUPPORTED :: macro where
  "VA_OPT_SUPPORTED =
   ObjectLike
     [Ident ''NTRNLVA_OPT_SUPPORTED_I'', LParen, Punct ''?'', RParen]"

text \<open>\<^verbatim>\<open>#define NTRNLVA_MSVC_TRADITIONAL 0\<close>\<close>
definition NTRNLVA_MSVC_TRADITIONAL :: macro where
  "NTRNLVA_MSVC_TRADITIONAL = ObjectLike [Number ''0'']"

text \<open>\<^verbatim>\<open>#define NTRNLVA_SEL1_I(a, ...) a\<close>\<close>
definition NTRNLVA_SEL1_I :: macro where
  "NTRNLVA_SEL1_I =
   FunctionLike [''a''] True
     [Ident ''a'']"

text \<open>\<^verbatim>\<open>#define NTRNLVA_SEL2_I(a, b, ...) b\<close>\<close>
definition NTRNLVA_SEL2_I :: macro where
  "NTRNLVA_SEL2_I =
   FunctionLike [''a'', ''b''] True
     [Ident ''b'']"

text \<open>\<^verbatim>\<open>#define NTRNLVA_SEL3_I(a, b, c, ...) c\<close>\<close>
definition NTRNLVA_SEL3_I :: macro where
  "NTRNLVA_SEL3_I =
   FunctionLike [''a'', ''b'', ''c''] True
     [Ident ''c'']"

text \<open>\<^verbatim>\<open>#define NTRNLVA_SEL1(...) NTRNLVA_SEL1_I(__VA_ARGS__)\<close>\<close>
definition NTRNLVA_SEL1 :: macro where
  "NTRNLVA_SEL1 =
   FunctionLike [] True
     [Ident ''NTRNLVA_SEL1_I'', LParen, Ident ''__VA_ARGS__'', RParen]"

text \<open>\<^verbatim>\<open>#define NTRNLVA_SEL2(...) NTRNLVA_SEL2_I(__VA_ARGS__)\<close>\<close>
definition NTRNLVA_SEL2 :: macro where
  "NTRNLVA_SEL2 =
   FunctionLike [] True
     [Ident ''NTRNLVA_SEL2_I'', LParen, Ident ''__VA_ARGS__'', RParen]"

text \<open>\<^verbatim>\<open>#define NTRNLVA_SEL3(...) NTRNLVA_SEL3_I(__VA_ARGS__)\<close>\<close>
definition NTRNLVA_SEL3 :: macro where
  "NTRNLVA_SEL3 =
   FunctionLike [] True
     [Ident ''NTRNLVA_SEL3_I'', LParen, Ident ''__VA_ARGS__'', RParen]"

text \<open>\<^verbatim>\<open>#define NTRNLVA_EMPTY(...)\<close>\<close>
definition NTRNLVA_EMPTY :: macro where
  "NTRNLVA_EMPTY =
   FunctionLike [] True
     []"

text \<open>\<^verbatim>\<open>#define NTRNLVA_CAT(a, ...) NTRNLVA_PRIMITIVE_CAT(a, __VA_ARGS__)\<close>\<close>
definition NTRNLVA_CAT :: macro where
  "NTRNLVA_CAT =
   FunctionLike [''a''] True
     [Ident ''NTRNLVA_PRIMITIVE_CAT'', LParen, Ident ''a'', Comma, Ident ''__VA_ARGS__'', RParen]"

text \<open>\<^verbatim>\<open>#define NTRNLVA_PRIMITIVE_CAT(a, ...) a##__VA_ARGS__\<close>\<close>
definition NTRNLVA_PRIMITIVE_CAT :: macro where
  "NTRNLVA_PRIMITIVE_CAT =
   FunctionLike [''a''] True
     [Ident ''a'', Punct ''##'', Ident ''__VA_ARGS__'']"

text \<open>\<^verbatim>\<open>#define NTRNLVA_AND(x) NTRNLVA_PRIMITIVE_CAT(NTRNLVA_AND_, x)\<close>\<close>
definition NTRNLVA_AND :: macro where
  "NTRNLVA_AND =
   FunctionLike [''x''] False
     [Ident ''NTRNLVA_PRIMITIVE_CAT'', LParen, Ident ''NTRNLVA_AND_'', Comma, Ident ''x'',
      RParen]"

text \<open>\<^verbatim>\<open>#define NTRNLVA_AND_0(y) 0\<close>\<close>
definition NTRNLVA_AND_0 :: macro where
  "NTRNLVA_AND_0 =
   FunctionLike [''y''] False
     [Number ''0'']"

text \<open>\<^verbatim>\<open>#define NTRNLVA_AND_1(y) y\<close>\<close>
definition NTRNLVA_AND_1 :: macro where
  "NTRNLVA_AND_1 =
   FunctionLike [''y''] False
     [Ident ''y'']"

text \<open>\<^verbatim>\<open>#define NTRNLVA_CHECK_N(x, n, ...) n\<close>\<close>
definition NTRNLVA_CHECK_N :: macro where
  "NTRNLVA_CHECK_N =
   FunctionLike [''x'', ''n''] True
     [Ident ''n'']"

text \<open>\<^verbatim>\<open>#define NTRNLVA_CHECK(...) NTRNLVA_CHECK_N(__VA_ARGS__, 0, )\<close>\<close>
definition NTRNLVA_CHECK :: macro where
  "NTRNLVA_CHECK =
   FunctionLike [] True
     [Ident ''NTRNLVA_CHECK_N'', LParen, Ident ''__VA_ARGS__'', Comma, Number ''0'', Comma,
      RParen]"

text \<open>\<^verbatim>\<open>#define NTRNLVA_PROBE(x) x, 1,\<close>\<close>
definition NTRNLVA_PROBE :: macro where
  "NTRNLVA_PROBE =
   FunctionLike [''x''] False
     [Ident ''x'', Comma, Number ''1'', Comma]"

text \<open>\<^verbatim>\<open>#define NTRNLVA_IS_PAREN(x) NTRNLVA_CHECK(NTRNLVA_IS_PAREN_PROBE x)\<close>\<close>
definition NTRNLVA_IS_PAREN :: macro where
  "NTRNLVA_IS_PAREN =
   FunctionLike [''x''] False
     [Ident ''NTRNLVA_CHECK'', LParen, Ident ''NTRNLVA_IS_PAREN_PROBE'', Ident ''x'', RParen]"

text \<open>\<^verbatim>\<open>#define NTRNLVA_IS_PAREN_PROBE(...) NTRNLVA_PROBE(~)\<close>\<close>
definition NTRNLVA_IS_PAREN_PROBE :: macro where
  "NTRNLVA_IS_PAREN_PROBE =
   FunctionLike [] True
     [Ident ''NTRNLVA_PROBE'', LParen, Punct ''~'', RParen]"

text \<open>\<^verbatim>\<open>#define NTRNLVA_COMPL(b) NTRNLVA_PRIMITIVE_CAT(NTRNLVA_COMPL_, b)\<close>\<close>
definition NTRNLVA_COMPL :: macro where
  "NTRNLVA_COMPL =
   FunctionLike [''b''] False
     [Ident ''NTRNLVA_PRIMITIVE_CAT'', LParen, Ident ''NTRNLVA_COMPL_'', Comma, Ident ''b'',
      RParen]"

text \<open>\<^verbatim>\<open>#define NTRNLVA_COMPL_0 1\<close>\<close>
definition NTRNLVA_COMPL_0 :: macro where
  "NTRNLVA_COMPL_0 = ObjectLike [Number ''1'']"

text \<open>\<^verbatim>\<open>#define NTRNLVA_COMPL_1 0\<close>\<close>
definition NTRNLVA_COMPL_1 :: macro where
  "NTRNLVA_COMPL_1 = ObjectLike [Number ''0'']"

text \<open>\<^verbatim>\<open>#define NTRNLVA_UP_I(...) __VA_ARGS__\<close>\<close>
definition NTRNLVA_UP_I :: macro where
  "NTRNLVA_UP_I =
   FunctionLike [] True
     [Ident ''__VA_ARGS__'']"

text \<open>\<^verbatim>\<open>#define NTRNLVA_UP(x) NTRNLVA_UP_I x\<close>\<close>
definition NTRNLVA_UP :: macro where
  "NTRNLVA_UP =
   FunctionLike [''x''] False
     [Ident ''NTRNLVA_UP_I'', Ident ''x'']"

text \<open>\<^verbatim>\<open>#define NTRNLVA_SENTINEL_ ()()()\<close>\<close>
definition NTRNLVA_SENTINEL_' :: macro where
  "NTRNLVA_SENTINEL_' = ObjectLike [LParen, RParen, LParen, RParen, LParen, RParen]"

text \<open>\<^verbatim>\<open>#define NTRNLVA_IS_SENTINEL2(...) ()\<close>\<close>
definition NTRNLVA_IS_SENTINEL2 :: macro where
  "NTRNLVA_IS_SENTINEL2 =
   FunctionLike [] True
     [LParen, RParen]"

text \<open>\<^verbatim>\<open>#define NTRNLVA_IS_SENTINEL1(...) NTRNLVA_IS_SENTINEL2\<close>\<close>
definition NTRNLVA_IS_SENTINEL1 :: macro where
  "NTRNLVA_IS_SENTINEL1 =
   FunctionLike [] True
     [Ident ''NTRNLVA_IS_SENTINEL2'']"

text \<open>\<^verbatim>\<open>#define NTRNLVA_IS_SENTINEL(...) NTRNLVA_IS_SENTINEL1\<close>\<close>
definition NTRNLVA_IS_SENTINEL :: macro where
  "NTRNLVA_IS_SENTINEL =
   FunctionLike [] True
     [Ident ''NTRNLVA_IS_SENTINEL1'']"

text \<open>\<^verbatim>\<open>#define NTRNLVA_CHECK_SENTINEL(x) NTRNLVA_IS_PAREN(NTRNLVA_EXPAND(NTRNLVA_IS_SENTINEL x))\<close>\<close>
definition NTRNLVA_CHECK_SENTINEL :: macro where
  "NTRNLVA_CHECK_SENTINEL =
   FunctionLike [''x''] False
     [Ident ''NTRNLVA_IS_PAREN'', LParen, Ident ''NTRNLVA_EXPAND'', LParen,
      Ident ''NTRNLVA_IS_SENTINEL'', Ident ''x'', RParen, RParen]"

text \<open>\<^verbatim>\<open>#define NTRNLVA_OPT_IMPL(opt, ...) NTRNLVA_CAT(NTRNLVA_OPT_IMPL_, opt)(__VA_ARGS__)\<close>\<close>
definition NTRNLVA_OPT_IMPL :: macro where
  "NTRNLVA_OPT_IMPL =
   FunctionLike [''opt''] True
     [Ident ''NTRNLVA_CAT'', LParen, Ident ''NTRNLVA_OPT_IMPL_'', Comma, Ident ''opt'', RParen,
      LParen, Ident ''__VA_ARGS__'', RParen]"

text \<open>\<^verbatim>\<open>#define NTRNLVA_OPT_IMPL_0(...) __VA_ARGS__\<close>\<close>
definition NTRNLVA_OPT_IMPL_0 :: macro where
  "NTRNLVA_OPT_IMPL_0 =
   FunctionLike [] True
     [Ident ''__VA_ARGS__'']"

text \<open>\<^verbatim>\<open>#define NTRNLVA_OPT_IMPL_1(...)\<close>\<close>
definition NTRNLVA_OPT_IMPL_1 :: macro where
  "NTRNLVA_OPT_IMPL_1 =
   FunctionLike [] True
     []"

text \<open>\<^verbatim>\<open>#define VA_NOPT(args, ...) NTRNLVA_OPT_IMPL(VA_NOTEMPTY(NTRNLVA_UP(args)), __VA_ARGS__)\<close>\<close>
definition VA_NOPT :: macro where
  "VA_NOPT =
   FunctionLike [''args''] True
     [Ident ''NTRNLVA_OPT_IMPL'', LParen, Ident ''VA_NOTEMPTY'', LParen, Ident ''NTRNLVA_UP'',
      LParen, Ident ''args'', RParen, RParen, Comma, Ident ''__VA_ARGS__'', RParen]"

definition common_macros :: table where
  "common_macros =
    [(''VA_OPT_H'', VA_OPT_H), (''VA_OPT_H_VERSION'', VA_OPT_H_VERSION),
     (''NTRNLVA_IMPL_NATIVE'', NTRNLVA_IMPL_NATIVE), (''NTRNLVA_IMPL_GNU'', NTRNLVA_IMPL_GNU),
     (''NTRNLVA_IMPL_MSVC'', NTRNLVA_IMPL_MSVC), (''NTRNLVA_IMPL_C99'', NTRNLVA_IMPL_C99),
     (''NTRNLVA_EXPAND'', NTRNLVA_EXPAND),
     (''NTRNLVA_OPT_SUPPORTED_I'', NTRNLVA_OPT_SUPPORTED_I),
     (''VA_OPT_SUPPORTED'', VA_OPT_SUPPORTED),
     (''NTRNLVA_MSVC_TRADITIONAL'', NTRNLVA_MSVC_TRADITIONAL),
     (''NTRNLVA_SEL1_I'', NTRNLVA_SEL1_I), (''NTRNLVA_SEL2_I'', NTRNLVA_SEL2_I),
     (''NTRNLVA_SEL3_I'', NTRNLVA_SEL3_I), (''NTRNLVA_SEL1'', NTRNLVA_SEL1),
     (''NTRNLVA_SEL2'', NTRNLVA_SEL2), (''NTRNLVA_SEL3'', NTRNLVA_SEL3),
     (''NTRNLVA_EMPTY'', NTRNLVA_EMPTY), (''NTRNLVA_CAT'', NTRNLVA_CAT),
     (''NTRNLVA_PRIMITIVE_CAT'', NTRNLVA_PRIMITIVE_CAT), (''NTRNLVA_AND'', NTRNLVA_AND),
     (''NTRNLVA_AND_0'', NTRNLVA_AND_0), (''NTRNLVA_AND_1'', NTRNLVA_AND_1),
     (''NTRNLVA_CHECK_N'', NTRNLVA_CHECK_N), (''NTRNLVA_CHECK'', NTRNLVA_CHECK),
     (''NTRNLVA_PROBE'', NTRNLVA_PROBE), (''NTRNLVA_IS_PAREN'', NTRNLVA_IS_PAREN),
     (''NTRNLVA_IS_PAREN_PROBE'', NTRNLVA_IS_PAREN_PROBE), (''NTRNLVA_COMPL'', NTRNLVA_COMPL),
     (''NTRNLVA_COMPL_0'', NTRNLVA_COMPL_0), (''NTRNLVA_COMPL_1'', NTRNLVA_COMPL_1),
     (''NTRNLVA_UP_I'', NTRNLVA_UP_I), (''NTRNLVA_UP'', NTRNLVA_UP),
     (''NTRNLVA_SENTINEL_'', NTRNLVA_SENTINEL_'),
     (''NTRNLVA_IS_SENTINEL2'', NTRNLVA_IS_SENTINEL2),
     (''NTRNLVA_IS_SENTINEL1'', NTRNLVA_IS_SENTINEL1),
     (''NTRNLVA_IS_SENTINEL'', NTRNLVA_IS_SENTINEL),
     (''NTRNLVA_CHECK_SENTINEL'', NTRNLVA_CHECK_SENTINEL),
     (''NTRNLVA_OPT_IMPL'', NTRNLVA_OPT_IMPL), (''NTRNLVA_OPT_IMPL_0'', NTRNLVA_OPT_IMPL_0),
     (''NTRNLVA_OPT_IMPL_1'', NTRNLVA_OPT_IMPL_1), (''VA_NOPT'', VA_NOPT)]"

subsection \<open>Helper macros of the self-test (TEST_VA_OPT)\<close>

text \<open>\<^verbatim>\<open>#define EATER0(...)\<close>\<close>
definition EATER0 :: macro where
  "EATER0 =
   FunctionLike [] True
     []"

text \<open>\<^verbatim>\<open>#define EATER1(...) ,\<close>\<close>
definition EATER1 :: macro where
  "EATER1 =
   FunctionLike [] True
     [Comma]"

text \<open>\<^verbatim>\<open>#define EATER2(...) (/*empty*/)\<close>\<close>
definition EATER2 :: macro where
  "EATER2 =
   FunctionLike [] True
     [LParen, RParen]"

text \<open>\<^verbatim>\<open>#define EATER3(...) (/*empty*/),\<close>\<close>
definition EATER3 :: macro where
  "EATER3 =
   FunctionLike [] True
     [LParen, RParen, Comma]"

text \<open>\<^verbatim>\<open>#define EATER4(...) EATER1\<close>\<close>
definition EATER4 :: macro where
  "EATER4 =
   FunctionLike [] True
     [Ident ''EATER1'']"

text \<open>\<^verbatim>\<open>#define EATER5(...) EATER2\<close>\<close>
definition EATER5 :: macro where
  "EATER5 =
   FunctionLike [] True
     [Ident ''EATER2'']"

text \<open>\<^verbatim>\<open>#define MAC0() ()\<close>\<close>
definition MAC0 :: macro where
  "MAC0 =
   FunctionLike [] False
     [LParen, RParen]"

text \<open>\<^verbatim>\<open>#define MAC1(x) ()\<close>\<close>
definition MAC1 :: macro where
  "MAC1 =
   FunctionLike [''x''] False
     [LParen, RParen]"

text \<open>\<^verbatim>\<open>#define MACV(...) ()\<close>\<close>
definition MACV :: macro where
  "MACV =
   FunctionLike [] True
     [LParen, RParen]"

text \<open>\<^verbatim>\<open>#define MACMANYPLUS(...) +, +, +, +, +, +, +, +, +, +, +, +, +, +, +, +, +, +, +\<close>\<close>
definition MACMANYPLUS :: macro where
  "MACMANYPLUS =
   FunctionLike [] True
     [Punct ''+'', Comma, Punct ''+'', Comma, Punct ''+'', Comma, Punct ''+'', Comma,
      Punct ''+'', Comma, Punct ''+'', Comma, Punct ''+'', Comma, Punct ''+'', Comma,
      Punct ''+'', Comma, Punct ''+'', Comma, Punct ''+'', Comma, Punct ''+'', Comma,
      Punct ''+'', Comma, Punct ''+'', Comma, Punct ''+'', Comma, Punct ''+'', Comma,
      Punct ''+'', Comma, Punct ''+'', Comma, Punct ''+'']"

text \<open>\<^verbatim>\<open>#define MAC2(x, y) whatever\<close>\<close>
definition MAC2 :: macro where
  "MAC2 =
   FunctionLike [''x'', ''y''] False
     [Ident ''whatever'']"

definition test_macros :: table where
  "test_macros =
    [(''EATER0'', EATER0), (''EATER1'', EATER1), (''EATER2'', EATER2), (''EATER3'', EATER3),
     (''EATER4'', EATER4), (''EATER5'', EATER5), (''MAC0'', MAC0), (''MAC1'', MAC1),
     (''MACV'', MACV), (''MACMANYPLUS'', MACMANYPLUS), (''MAC2'', MAC2)]"

subsection \<open>Native strategy (NTRNLVA_IMPL_NATIVE)\<close>

text \<open>\<^verbatim>\<open>#define NTRNLVA_IMPL NTRNLVA_IMPL_NATIVE\<close>\<close>
definition NTRNLVA_IMPL_native :: macro where
  "NTRNLVA_IMPL_native = ObjectLike [Ident ''NTRNLVA_IMPL_NATIVE'']"

text \<open>\<^verbatim>\<open>#define NTRNLVA_ISEMPTY_I0 1\<close>\<close>
definition NTRNLVA_ISEMPTY_I0_native :: macro where
  "NTRNLVA_ISEMPTY_I0_native = ObjectLike [Number ''1'']"

text \<open>\<^verbatim>\<open>#define NTRNLVA_ISEMPTY_I01 0\<close>\<close>
definition NTRNLVA_ISEMPTY_I01_native :: macro where
  "NTRNLVA_ISEMPTY_I01_native = ObjectLike [Number ''0'']"

text \<open>\<^verbatim>\<open>#define NTRNLVA_ISEMPTY_I(x) NTRNLVA_PRIMITIVE_CAT(NTRNLVA_ISEMPTY_I0, x)\<close>\<close>
definition NTRNLVA_ISEMPTY_I_native :: macro where
  "NTRNLVA_ISEMPTY_I_native =
   FunctionLike [''x''] False
     [Ident ''NTRNLVA_PRIMITIVE_CAT'', LParen, Ident ''NTRNLVA_ISEMPTY_I0'', Comma,
      Ident ''x'', RParen]"

text \<open>\<^verbatim>\<open>#define VA_ISEMPTY(...) NTRNLVA_ISEMPTY_I(__VA_OPT__(1))\<close>\<close>
definition VA_ISEMPTY_native :: macro where
  "VA_ISEMPTY_native =
   FunctionLike [] True
     [Ident ''NTRNLVA_ISEMPTY_I'', LParen, Ident ''__VA_OPT__'', LParen, Number ''1'', RParen,
      RParen]"

text \<open>\<^verbatim>\<open>#define NTRNLVA_NOTEMPTY_I0 0\<close>\<close>
definition NTRNLVA_NOTEMPTY_I0_native :: macro where
  "NTRNLVA_NOTEMPTY_I0_native = ObjectLike [Number ''0'']"

text \<open>\<^verbatim>\<open>#define NTRNLVA_NOTEMPTY_I01 1\<close>\<close>
definition NTRNLVA_NOTEMPTY_I01_native :: macro where
  "NTRNLVA_NOTEMPTY_I01_native = ObjectLike [Number ''1'']"

text \<open>\<^verbatim>\<open>#define NTRNLVA_NOTEMPTY_I(x) NTRNLVA_PRIMITIVE_CAT(NTRNLVA_NOTEMPTY_I0, x)\<close>\<close>
definition NTRNLVA_NOTEMPTY_I_native :: macro where
  "NTRNLVA_NOTEMPTY_I_native =
   FunctionLike [''x''] False
     [Ident ''NTRNLVA_PRIMITIVE_CAT'', LParen, Ident ''NTRNLVA_NOTEMPTY_I0'', Comma,
      Ident ''x'', RParen]"

text \<open>\<^verbatim>\<open>#define VA_NOTEMPTY(...) NTRNLVA_NOTEMPTY_I(__VA_OPT__(1))\<close>\<close>
definition VA_NOTEMPTY_native :: macro where
  "VA_NOTEMPTY_native =
   FunctionLike [] True
     [Ident ''NTRNLVA_NOTEMPTY_I'', LParen, Ident ''__VA_OPT__'', LParen, Number ''1'', RParen,
      RParen]"

text \<open>\<^verbatim>\<open>#define NTRNLVA_OPT_I(opt, ...) __VA_OPT__(NTRNLVA_UP(opt))\<close>\<close>
definition NTRNLVA_OPT_I_native :: macro where
  "NTRNLVA_OPT_I_native =
   FunctionLike [''opt''] True
     [Ident ''__VA_OPT__'', LParen, Ident ''NTRNLVA_UP'', LParen, Ident ''opt'', RParen, RParen]"

text \<open>\<^verbatim>\<open>#define VA_OPT(args, ...) NTRNLVA_OPT_I((__VA_ARGS__), NTRNLVA_UP(args))\<close>\<close>
definition VA_OPT_native :: macro where
  "VA_OPT_native =
   FunctionLike [''args''] True
     [Ident ''NTRNLVA_OPT_I'', LParen, LParen, Ident ''__VA_ARGS__'', RParen, Comma,
      Ident ''NTRNLVA_UP'', LParen, Ident ''args'', RParen, RParen]"

definition native_macros :: table where
  "native_macros =
    [(''NTRNLVA_IMPL'', NTRNLVA_IMPL_native),
     (''NTRNLVA_ISEMPTY_I0'', NTRNLVA_ISEMPTY_I0_native),
     (''NTRNLVA_ISEMPTY_I01'', NTRNLVA_ISEMPTY_I01_native),
     (''NTRNLVA_ISEMPTY_I'', NTRNLVA_ISEMPTY_I_native), (''VA_ISEMPTY'', VA_ISEMPTY_native),
     (''NTRNLVA_NOTEMPTY_I0'', NTRNLVA_NOTEMPTY_I0_native),
     (''NTRNLVA_NOTEMPTY_I01'', NTRNLVA_NOTEMPTY_I01_native),
     (''NTRNLVA_NOTEMPTY_I'', NTRNLVA_NOTEMPTY_I_native),
     (''VA_NOTEMPTY'', VA_NOTEMPTY_native), (''NTRNLVA_OPT_I'', NTRNLVA_OPT_I_native),
     (''VA_OPT'', VA_OPT_native)]"

subsection \<open>GNU strategy (NTRNLVA_IMPL_GNU)\<close>

text \<open>\<^verbatim>\<open>#define NTRNLVA_IMPL NTRNLVA_IMPL_GNU\<close>\<close>
definition NTRNLVA_IMPL_gnu :: macro where
  "NTRNLVA_IMPL_gnu = ObjectLike [Ident ''NTRNLVA_IMPL_GNU'']"

text \<open>\<^verbatim>\<open>#define NTRNLVA_ISEMPTY_I(_0, _1, _2, ...) NTRNLVA_CHECK_SENTINEL(_2)\<close>\<close>
definition NTRNLVA_ISEMPTY_I_gnu :: macro where
  "NTRNLVA_ISEMPTY_I_gnu =
   FunctionLike [''_0'', ''_1'', ''_2''] True
     [Ident ''NTRNLVA_CHECK_SENTINEL'', LParen, Ident ''_2'', RParen]"

text \<open>\<^verbatim>\<open>#define NTRNLVA_ISEMPTY_INDIRECT(...) NTRNLVA_ISEMPTY_I(,##__VA_ARGS__, 0, NTRNLVA_SENTINEL_)\<close>\<close>
definition NTRNLVA_ISEMPTY_INDIRECT_gnu :: macro where
  "NTRNLVA_ISEMPTY_INDIRECT_gnu =
   FunctionLike [] True
     [Ident ''NTRNLVA_ISEMPTY_I'', LParen, Comma, Punct ''##'', Ident ''__VA_ARGS__'', Comma,
      Number ''0'', Comma, Ident ''NTRNLVA_SENTINEL_'', RParen]"

text \<open>\<^verbatim>\<open>#define VA_ISEMPTY(...) NTRNLVA_ISEMPTY_INDIRECT(__VA_ARGS__)\<close>\<close>
definition VA_ISEMPTY_gnu :: macro where
  "VA_ISEMPTY_gnu =
   FunctionLike [] True
     [Ident ''NTRNLVA_ISEMPTY_INDIRECT'', LParen, Ident ''__VA_ARGS__'', RParen]"

text \<open>\<^verbatim>\<open>#define VA_NOTEMPTY(...) NTRNLVA_COMPL(VA_ISEMPTY(__VA_ARGS__))\<close>\<close>
definition VA_NOTEMPTY_gnu :: macro where
  "VA_NOTEMPTY_gnu =
   FunctionLike [] True
     [Ident ''NTRNLVA_COMPL'', LParen, Ident ''VA_ISEMPTY'', LParen, Ident ''__VA_ARGS__'',
      RParen, RParen]"

text \<open>\<^verbatim>\<open>#define VA_OPT(args, ...) NTRNLVA_OPT_IMPL(VA_ISEMPTY(NTRNLVA_UP(args)), __VA_ARGS__)\<close>\<close>
definition VA_OPT_gnu :: macro where
  "VA_OPT_gnu =
   FunctionLike [''args''] True
     [Ident ''NTRNLVA_OPT_IMPL'', LParen, Ident ''VA_ISEMPTY'', LParen, Ident ''NTRNLVA_UP'',
      LParen, Ident ''args'', RParen, RParen, Comma, Ident ''__VA_ARGS__'', RParen]"

definition gnu_macros :: table where
  "gnu_macros =
    [(''NTRNLVA_IMPL'', NTRNLVA_IMPL_gnu), (''NTRNLVA_ISEMPTY_I'', NTRNLVA_ISEMPTY_I_gnu),
     (''NTRNLVA_ISEMPTY_INDIRECT'', NTRNLVA_ISEMPTY_INDIRECT_gnu),
     (''VA_ISEMPTY'', VA_ISEMPTY_gnu), (''VA_NOTEMPTY'', VA_NOTEMPTY_gnu),
     (''VA_OPT'', VA_OPT_gnu)]"

subsection \<open>MSVC strategy (NTRNLVA_IMPL_MSVC)\<close>

text \<open>\<^verbatim>\<open>#define NTRNLVA_IMPL NTRNLVA_IMPL_MSVC\<close>\<close>
definition NTRNLVA_IMPL_msvc :: macro where
  "NTRNLVA_IMPL_msvc = ObjectLike [Ident ''NTRNLVA_IMPL_MSVC'']"

text \<open>\<^verbatim>\<open>#define NTRNLVA_ISEMPTY_I(_0, _1, _2, ...) NTRNLVA_CHECK_SENTINEL(_2)\<close>\<close>
definition NTRNLVA_ISEMPTY_I_msvc :: macro where
  "NTRNLVA_ISEMPTY_I_msvc =
   FunctionLike [''_0'', ''_1'', ''_2''] True
     [Ident ''NTRNLVA_CHECK_SENTINEL'', LParen, Ident ''_2'', RParen]"

text \<open>\<^verbatim>\<open>#define NTRNLVA_ISEMPTY_INDIRECT(...) NTRNLVA_ISEMPTY_I NTRNLVA_EMPTY()(,__VA_ARGS__, 0, NTRNLVA_SENTINEL_)\<close>\<close>
definition NTRNLVA_ISEMPTY_INDIRECT_msvc :: macro where
  "NTRNLVA_ISEMPTY_INDIRECT_msvc =
   FunctionLike [] True
     [Ident ''NTRNLVA_ISEMPTY_I'', Ident ''NTRNLVA_EMPTY'', LParen, RParen, LParen, Comma,
      Ident ''__VA_ARGS__'', Comma, Number ''0'', Comma, Ident ''NTRNLVA_SENTINEL_'', RParen]"

text \<open>\<^verbatim>\<open>#define VA_ISEMPTY(...) NTRNLVA_ISEMPTY_INDIRECT(__VA_ARGS__)\<close>\<close>
definition VA_ISEMPTY_msvc :: macro where
  "VA_ISEMPTY_msvc =
   FunctionLike [] True
     [Ident ''NTRNLVA_ISEMPTY_INDIRECT'', LParen, Ident ''__VA_ARGS__'', RParen]"

text \<open>\<^verbatim>\<open>#define VA_NOTEMPTY(...) NTRNLVA_COMPL(VA_ISEMPTY(__VA_ARGS__))\<close>\<close>
definition VA_NOTEMPTY_msvc :: macro where
  "VA_NOTEMPTY_msvc =
   FunctionLike [] True
     [Ident ''NTRNLVA_COMPL'', LParen, Ident ''VA_ISEMPTY'', LParen, Ident ''__VA_ARGS__'',
      RParen, RParen]"

text \<open>\<^verbatim>\<open>#define VA_OPT(args, ...) NTRNLVA_OPT_IMPL(VA_ISEMPTY(NTRNLVA_UP(args)), __VA_ARGS__)\<close>\<close>
definition VA_OPT_msvc :: macro where
  "VA_OPT_msvc =
   FunctionLike [''args''] True
     [Ident ''NTRNLVA_OPT_IMPL'', LParen, Ident ''VA_ISEMPTY'', LParen, Ident ''NTRNLVA_UP'',
      LParen, Ident ''args'', RParen, RParen, Comma, Ident ''__VA_ARGS__'', RParen]"

definition msvc_macros :: table where
  "msvc_macros =
    [(''NTRNLVA_IMPL'', NTRNLVA_IMPL_msvc), (''NTRNLVA_ISEMPTY_I'', NTRNLVA_ISEMPTY_I_msvc),
     (''NTRNLVA_ISEMPTY_INDIRECT'', NTRNLVA_ISEMPTY_INDIRECT_msvc),
     (''VA_ISEMPTY'', VA_ISEMPTY_msvc), (''VA_NOTEMPTY'', VA_NOTEMPTY_msvc),
     (''VA_OPT'', VA_OPT_msvc)]"

subsection \<open>Portable strategy (NTRNLVA_IMPL_C99)\<close>

text \<open>\<^verbatim>\<open>#define NTRNLVA_IMPL NTRNLVA_IMPL_C99\<close>\<close>
definition NTRNLVA_IMPL_c99 :: macro where
  "NTRNLVA_IMPL_c99 = ObjectLike [Ident ''NTRNLVA_IMPL_C99'']"

text \<open>\<^verbatim>\<open>#define NTRNLVA_ISEMPTY_I(...) NTRNLVA_AND(NTRNLVA_ISEMPTY_BASE(NTRNLVA_SEL1(__VA_ARGS__))) (NTRNLVA_CHECK_SENTINEL(NTRNLVA_SEL2(__VA_ARGS__)))\<close>\<close>
definition NTRNLVA_ISEMPTY_I_c99 :: macro where
  "NTRNLVA_ISEMPTY_I_c99 =
   FunctionLike [] True
     [Ident ''NTRNLVA_AND'', LParen, Ident ''NTRNLVA_ISEMPTY_BASE'', LParen,
      Ident ''NTRNLVA_SEL1'', LParen, Ident ''__VA_ARGS__'', RParen, RParen, RParen, LParen,
      Ident ''NTRNLVA_CHECK_SENTINEL'', LParen, Ident ''NTRNLVA_SEL2'', LParen,
      Ident ''__VA_ARGS__'', RParen, RParen, RParen]"

text \<open>\<^verbatim>\<open>#define VA_ISEMPTY(...) NTRNLVA_ISEMPTY_I(__VA_ARGS__, NTRNLVA_SENTINEL_)\<close>\<close>
definition VA_ISEMPTY_c99 :: macro where
  "VA_ISEMPTY_c99 =
   FunctionLike [] True
     [Ident ''NTRNLVA_ISEMPTY_I'', LParen, Ident ''__VA_ARGS__'', Comma,
      Ident ''NTRNLVA_SENTINEL_'', RParen]"

text \<open>\<^verbatim>\<open>#define VA_NOTEMPTY(...) NTRNLVA_COMPL(VA_ISEMPTY(__VA_ARGS__))\<close>\<close>
definition VA_NOTEMPTY_c99 :: macro where
  "VA_NOTEMPTY_c99 =
   FunctionLike [] True
     [Ident ''NTRNLVA_COMPL'', LParen, Ident ''VA_ISEMPTY'', LParen, Ident ''__VA_ARGS__'',
      RParen, RParen]"

text \<open>\<^verbatim>\<open>#define NTRNLVA_HAS_COMMA(...) NTRNLVA_CHECK_SENTINEL(NTRNLVA_SEL3_I(__VA_ARGS__, NTRNLVA_SENTINEL_, 0))\<close>\<close>
definition NTRNLVA_HAS_COMMA_c99 :: macro where
  "NTRNLVA_HAS_COMMA_c99 =
   FunctionLike [] True
     [Ident ''NTRNLVA_CHECK_SENTINEL'', LParen, Ident ''NTRNLVA_SEL3_I'', LParen,
      Ident ''__VA_ARGS__'', Comma, Ident ''NTRNLVA_SENTINEL_'', Comma, Number ''0'', RParen,
      RParen]"

text \<open>\<^verbatim>\<open>#define NTRNLVA_TRIGGER_PARENTHESIS_(...) ,\<close>\<close>
definition NTRNLVA_TRIGGER_PARENTHESIS__c99 :: macro where
  "NTRNLVA_TRIGGER_PARENTHESIS__c99 =
   FunctionLike [] True
     [Comma]"

text \<open>\<^verbatim>\<open>#define NTRNLVA_ISEMPTY_BASE(...) NTRNLVA_ISEMPTY_BASE_I(NTRNLVA_HAS_COMMA(__VA_ARGS__), NTRNLVA_HAS_COMMA(NTRNLVA_TRIGGER_PARENTHESIS_ __VA_ARGS__), NTRNLVA_HAS_COMMA(__VA_ARGS__(/*empty*/)), NTRNLVA_HAS_COMMA(NTRNLVA_TRIGGER_PARENTHESIS_ __VA_ARGS__(/*empty*/)))\<close>\<close>
definition NTRNLVA_ISEMPTY_BASE_c99 :: macro where
  "NTRNLVA_ISEMPTY_BASE_c99 =
   FunctionLike [] True
     [Ident ''NTRNLVA_ISEMPTY_BASE_I'', LParen, Ident ''NTRNLVA_HAS_COMMA'', LParen,
      Ident ''__VA_ARGS__'', RParen, Comma, Ident ''NTRNLVA_HAS_COMMA'', LParen,
      Ident ''NTRNLVA_TRIGGER_PARENTHESIS_'', Ident ''__VA_ARGS__'', RParen, Comma,
      Ident ''NTRNLVA_HAS_COMMA'', LParen, Ident ''__VA_ARGS__'', LParen, RParen, RParen,
      Comma, Ident ''NTRNLVA_HAS_COMMA'', LParen, Ident ''NTRNLVA_TRIGGER_PARENTHESIS_'',
      Ident ''__VA_ARGS__'', LParen, RParen, RParen, RParen]"

text \<open>\<^verbatim>\<open>#define NTRNLVA_PASTE5(_0, _1, _2, _3, _4) _0##_1##_2##_3##_4\<close>\<close>
definition NTRNLVA_PASTE5_c99 :: macro where
  "NTRNLVA_PASTE5_c99 =
   FunctionLike [''_0'', ''_1'', ''_2'', ''_3'', ''_4''] False
     [Ident ''_0'', Punct ''##'', Ident ''_1'', Punct ''##'', Ident ''_2'', Punct ''##'',
      Ident ''_3'', Punct ''##'', Ident ''_4'']"

text \<open>\<^verbatim>\<open>#define NTRNLVA_ISEMPTY_BASE_I(_0, _1, _2, _3) NTRNLVA_HAS_COMMA(NTRNLVA_PASTE5(NTRNLVA_IS_EMPTY_CASE_, _0, _1, _2, _3))\<close>\<close>
definition NTRNLVA_ISEMPTY_BASE_I_c99 :: macro where
  "NTRNLVA_ISEMPTY_BASE_I_c99 =
   FunctionLike [''_0'', ''_1'', ''_2'', ''_3''] False
     [Ident ''NTRNLVA_HAS_COMMA'', LParen, Ident ''NTRNLVA_PASTE5'', LParen,
      Ident ''NTRNLVA_IS_EMPTY_CASE_'', Comma, Ident ''_0'', Comma, Ident ''_1'', Comma,
      Ident ''_2'', Comma, Ident ''_3'', RParen, RParen]"

text \<open>\<^verbatim>\<open>#define NTRNLVA_IS_EMPTY_CASE_0001 ,\<close>\<close>
definition NTRNLVA_IS_EMPTY_CASE_0001_c99 :: macro where
  "NTRNLVA_IS_EMPTY_CASE_0001_c99 = ObjectLike [Comma]"

text \<open>\<^verbatim>\<open>#define VA_OPT(args, ...) NTRNLVA_OPT_IMPL(VA_ISEMPTY(NTRNLVA_UP(args)), __VA_ARGS__)\<close>\<close>
definition VA_OPT_c99 :: macro where
  "VA_OPT_c99 =
   FunctionLike [''args''] True
     [Ident ''NTRNLVA_OPT_IMPL'', LParen, Ident ''VA_ISEMPTY'', LParen, Ident ''NTRNLVA_UP'',
      LParen, Ident ''args'', RParen, RParen, Comma, Ident ''__VA_ARGS__'', RParen]"

definition c99_macros :: table where
  "c99_macros =
    [(''NTRNLVA_IMPL'', NTRNLVA_IMPL_c99), (''NTRNLVA_ISEMPTY_I'', NTRNLVA_ISEMPTY_I_c99),
     (''VA_ISEMPTY'', VA_ISEMPTY_c99), (''VA_NOTEMPTY'', VA_NOTEMPTY_c99),
     (''NTRNLVA_HAS_COMMA'', NTRNLVA_HAS_COMMA_c99),
     (''NTRNLVA_TRIGGER_PARENTHESIS_'', NTRNLVA_TRIGGER_PARENTHESIS__c99),
     (''NTRNLVA_ISEMPTY_BASE'', NTRNLVA_ISEMPTY_BASE_c99),
     (''NTRNLVA_PASTE5'', NTRNLVA_PASTE5_c99),
     (''NTRNLVA_ISEMPTY_BASE_I'', NTRNLVA_ISEMPTY_BASE_I_c99),
     (''NTRNLVA_IS_EMPTY_CASE_0001'', NTRNLVA_IS_EMPTY_CASE_0001_c99), (''VA_OPT'', VA_OPT_c99)]"

section \<open>Strategies and the public operations\<close>

text \<open>
  The header selects one implementation per translation unit (\<^verbatim>\<open>NTRNLVA_IMPL\<close>), by
  detection or by one of \<^verbatim>\<open>VA_OPT_USE_NATIVE\<close>, \<^verbatim>\<open>VA_OPT_USE_GNU\<close>,
  \<^verbatim>\<open>VA_OPT_USE_MSVC\<close>, \<^verbatim>\<open>VA_OPT_USE_C99\<close>. All four are expanded here by the
  preprocessor of the standard, with \<^verbatim>\<open>__VA_OPT__\<close> for the native one and
  \<^verbatim>\<open>, ## __VA_ARGS__\<close> for the GNU one, and with \<^verbatim>\<open>NTRNLVA_MSVC_TRADITIONAL\<close>
  equal to \<open>0\<close>, the value the header gives it unless the compiler defines
  \<^verbatim>\<open>_MSVC_TRADITIONAL\<close>. The MSVC implementation is written for the traditional
  preprocessor of that compiler, which is no part of the header: what that preprocessor
  makes of it is not modelled, only what the standard's expansion does.
\<close>

datatype strategy = Native | GNU | MSVC | C99

definition table_of :: "strategy \<Rightarrow> table" where
  "table_of s =
     (case s of Native \<Rightarrow> native_macros | GNU \<Rightarrow> gnu_macros | MSVC \<Rightarrow> msvc_macros
      | C99 \<Rightarrow> c99_macros)
     @ common_macros @ test_macros"

text \<open>\<open>invoke name args\<close> is the source text \<^verbatim>\<open>name(args)\<close>; \<open>run s n name args\<close> is
  what strategy \<open>s\<close> makes of it, as the tokens the compiler proper sees.\<close>

definition invoke :: "string \<Rightarrow> tok list \<Rightarrow> ptoken list" where
  "invoke name args = map plain (Ident name # LParen # args @ [RParen])"

definition spelling :: "error + ptoken list \<Rightarrow> error + tok list" where
  "spelling r = (case r of Inl e \<Rightarrow> Inl e | Inr ts \<Rightarrow> Inr (map fst ts))"

definition run :: "strategy \<Rightarrow> nat \<Rightarrow> string \<Rightarrow> tok list \<Rightarrow> error + tok list" where
  "run s n name args = spelling (expand (table_of s) n (invoke name args))"

definition VA_ISEMPTY_of :: "strategy \<Rightarrow> nat \<Rightarrow> tok list \<Rightarrow> error + tok list" where
  "VA_ISEMPTY_of s n L = run s n ''VA_ISEMPTY'' L"


text \<open>\<^verbatim>\<open>VA_NOPT((L), X)\<close> and \<^verbatim>\<open>VA_OPT((L), X)\<close>: the guard list is passed in
  parentheses.\<close>

definition VA_NOPT_of :: "strategy \<Rightarrow> nat \<Rightarrow> tok list \<Rightarrow> tok list \<Rightarrow> error + tok list" where
  "VA_NOPT_of s n L X = run s n ''VA_NOPT'' (LParen # L @ RParen # Comma # X)"

definition VA_OPT_of :: "strategy \<Rightarrow> nat \<Rightarrow> tok list \<Rightarrow> tok list \<Rightarrow> error + tok list" where
  "VA_OPT_of s n L X = run s n ''VA_OPT'' (LParen # L @ RParen # Comma # X)"

definition zero :: "tok list" where
  "zero = [Number ''0'']"

definition one :: "tok list" where
  "one = [Number ''1'']"

subsection \<open>The argument lists of the self-test\<close>

text \<open>\<^verbatim>\<open>SINGLE_TEST_CASES\<close> and \<^verbatim>\<open>VARIADIC_TEST_CASES\<close>: the expected value and the
  arguments of every \<^verbatim>\<open>X(expected, ...)\<close>.\<close>

definition SINGLE_TEST_CASES :: "(nat \<times> tok list) list" where
  "SINGLE_TEST_CASES =
    [(1, []),
     (1, []),
     (0, [Ident ''a'']),
     (0, [LParen, Ident ''void'', RParen]),
     (0, [Ident ''NTRNLVA_TRIGGER_PARENTHESIS_'']),
     (0, [Ident ''EATER0'']),
     (0, [Ident ''EATER1'']),
     (0, [Ident ''EATER2'']),
     (0, [Ident ''EATER3'']),
     (0, [Ident ''EATER4'']),
     (0, [Ident ''MAC0'']),
     (0, [Ident ''MAC1'']),
     (0, [Ident ''MACV'']),
     (0, [Ident ''MACMANYPLUS'']),
     (0, [StrLit ''unpastable''])]"

definition VARIADIC_TEST_CASES :: "(nat \<times> tok list) list" where
  "VARIADIC_TEST_CASES =
    [(0, [Punct ''+'', Comma, StrLit ''many'', Comma, StrLit ''unpastable'', Comma,
          StrLit ''tokens'', Comma, Punct ''+'', Comma, Punct ''+'', Comma, Punct ''+'', Comma,
          Punct ''+'', Comma, Punct ''+'', Comma, Punct ''+'', Comma, Punct ''+'', Comma,
          Punct ''+'', Comma, Punct ''+'', Comma, Punct ''+'', Comma, Punct ''+'', Comma,
          Punct ''+'']),
     (0, [Ident ''a'', Comma, Ident ''b'']),
     (0, [Ident ''a'', Comma, Ident ''b'', Comma, Ident ''c'']),
     (0, [Ident ''a'', Comma, Ident ''b'', Comma, Ident ''c'', Comma, Ident ''d'']),
     (0, [Ident ''a'', Comma, Ident ''b'', Comma, Ident ''c'', Comma, Ident ''d'', Comma,
          Ident ''e'']),
     (0, [LParen, Ident ''void'', RParen, Comma, Ident ''b'', Comma, Ident ''c'', Comma,
          Ident ''d''])]"


subsection \<open>Notions the properties are stated with\<close>

text \<open>The result of a probe, \<^verbatim>\<open>0\<close> or \<^verbatim>\<open>1\<close>, as the token it is.\<close>

definition digit :: "bool \<Rightarrow> tok" where
  "digit b = Number (if b then ''1'' else ''0'')"

text \<open>
  The tokens a caller can write. The parentheses and the comma are tokens of their own, so
  a punctuator is one of the others of C99 6.4.6; an identifier is a letter followed by
  letters, digits and underscores (the names that begin with an underscore are reserved:
  \<^verbatim>\<open>__VA_ARGS__\<close>, \<^verbatim>\<open>__LINE__\<close> and the other macros a compiler predefines are among
  them); a number begins with a digit; a string literal holds no quote, no backslash and
  no question mark.
\<close>

definition punctuators :: "string list" where
  "punctuators =
     [''['', '']'', ''{'', ''}'', ''.'', ''->'', ''++'', ''--'', ''&'', ''*'', ''+'', ''-'',
      ''~'', ''!'', ''/'', ''%'', ''<<'', ''>>'', ''<'', ''>'', ''<='', ''>='', ''=='', ''!='',
      ''^'', ''|'', ''&&'', ''||'', ''?'', '':'', '';'', ''...'', ''='', ''*='', ''/='', ''%='',
      ''+='', ''-='', ''<<='', ''>>='', ''&='', ''^='', ''|='', ''#'', ''##'']"

fun lexical :: "tok \<Rightarrow> bool" where
  "lexical (Ident s) = (s \<noteq> [] \<and> ident_chars s \<and> hd s \<notin> set ''0123456789_'')"
| "lexical (Number s) = (s \<noteq> [] \<and> ident_chars s \<and> hd s \<in> set ''0123456789'')"
| "lexical (StrLit s) =
     list_all (\<lambda>c. ident_chars [c] \<or> c \<in> set '' !#%&()*+,-./:;<=>[]^{|}~'') s"
| "lexical (Punct p) = (p \<in> set punctuators)"
| "lexical LParen = True"
| "lexical RParen = True"
| "lexical Comma = True"

text \<open>
  An argument list a caller can write has its parentheses matched: \<open>depth_after d ts\<close> is
  the nesting depth after \<open>ts\<close>, read at depth \<open>d\<close>, and is undefined when a right
  parenthesis closes more than was opened. One argument is a balanced list with no comma
  outside parentheses.
\<close>

fun depth_after :: "nat \<Rightarrow> tok list \<Rightarrow> nat option" where
  "depth_after d [] = Some d"
| "depth_after d (t # ts) = (if t = RParen \<and> d = 0 then None else depth_after (nest t d) ts)"

definition balanced :: "tok list \<Rightarrow> bool" where
  "balanced ts = (depth_after 0 ts = Some 0)"

fun comma_free :: "nat \<Rightarrow> tok list \<Rightarrow> bool" where
  "comma_free d [] = True"
| "comma_free d (t # ts) = (\<not> (t = Comma \<and> d = 0) \<and> comma_free (nest t d) ts)"

definition argument :: "tok list \<Rightarrow> bool" where
  "argument ts = (balanced ts \<and> comma_free 0 ts)"

text \<open>No identifier of the list is the name of a macro.\<close>

definition macro_free :: "table \<Rightarrow> tok list \<Rightarrow> bool" where
  "macro_free tbl ts =
     list_all (\<lambda>t. case t of Ident s \<Rightarrow> map_of tbl s = None | _ \<Rightarrow> True) ts"

text \<open>The arguments of a list, as the preprocessor splits them.\<close>

definition slots :: "tok list \<Rightarrow> tok list list" where
  "slots ts = map (map fst) (split_args 0 (map plain ts))"

text \<open>
  The shape \<^verbatim>\<open>NTRNLVA_CHECK_SENTINEL\<close> looks for: three parenthesised groups at the
  front. \<open>closing d ts\<close> is what follows the parenthesis that closes depth \<open>d\<close>.
\<close>

fun closing :: "nat \<Rightarrow> tok list \<Rightarrow> tok list option" where
  "closing d [] = None"
| "closing d (t # ts) = (if t = RParen \<and> d = 0 then Some ts else closing (nest t d) ts)"

definition after_group :: "tok list \<Rightarrow> tok list option" where
  "after_group ts =
     (case ts of [] \<Rightarrow> None | t # ts' \<Rightarrow> if t = LParen then closing 0 ts' else None)"

definition three_groups :: "tok list \<Rightarrow> bool" where
  "three_groups ts =
     (Option.bind (Option.bind (after_group ts) after_group) after_group \<noteq> None)"

text \<open>
  The non-empty lists a strategy takes for the empty one: the second argument begins with
  three parenthesised groups, as the sentinel \<^verbatim>\<open>()()()\<close> does, and, for the portable
  strategy, the first argument is empty. The native strategy has no sentinel.
\<close>

definition second_sentinel :: "tok list \<Rightarrow> bool" where
  "second_sentinel ts = (case slots ts of a # b # _ \<Rightarrow> three_groups b | _ \<Rightarrow> False)"

definition taken_for_empty :: "strategy \<Rightarrow> tok list \<Rightarrow> bool" where
  "taken_for_empty s ts =
     (case s of
        Native \<Rightarrow> False
      | GNU \<Rightarrow> second_sentinel ts
      | MSVC \<Rightarrow> False
      | C99 \<Rightarrow> second_sentinel ts \<and> hd (slots ts) = [])"

text \<open>
  A translation unit that includes the header defines macros of its own. \<open>table_with\<close> puts
  them in front of the header's; \<open>user_name\<close> says that a name is free for them: it is an
  identifier that the header does not define, and it is not in the name space
  \<^verbatim>\<open>NTRNLVA_\<close> of its internals.
\<close>

definition table_with :: "table \<Rightarrow> strategy \<Rightarrow> table" where
  "table_with user s = user @ table_of s"

definition user_name :: "strategy \<Rightarrow> string \<Rightarrow> bool" where
  "user_name s m =
     (lexical (Ident m) \<and> map_of (table_of s) m = None \<and> take 8 m \<noteq> ''NTRNLVA_'')"

text \<open>
  A definition \<^verbatim>\<open>#define m(ps) body\<close> or \<^verbatim>\<open>#define m(ps, ...) body\<close> the compiler
  accepts, without the operators \<^verbatim>\<open>#\<close> and \<^verbatim>\<open>##\<close>: distinct parameter names, and in
  the replacement list \<^verbatim>\<open>__VA_ARGS__\<close> only after \<^verbatim>\<open>...\<close> and no \<^verbatim>\<open>__VA_OPT__\<close>.
\<close>

definition plain_macro :: "string list \<Rightarrow> bool \<Rightarrow> tok list \<Rightarrow> bool" where
  "plain_macro ps variadic body =
     (distinct ps \<and> list_all (\<lambda>p. lexical (Ident p)) ps \<and> va_args \<notin> set ps \<and>
      va_opt \<notin> set ps \<and> list_all lexical body \<and> Punct ''#'' \<notin> set body \<and>
      Punct ''##'' \<notin> set body \<and> Ident va_opt \<notin> set body \<and>
      (Ident va_args \<in> set body \<longrightarrow> variadic))"

definition VA_ISEMPTY_with :: "table \<Rightarrow> strategy \<Rightarrow> nat \<Rightarrow> tok list \<Rightarrow> error + tok list" where
  "VA_ISEMPTY_with user s n L =
     spelling (expand (table_with user s) n (invoke ''VA_ISEMPTY'' L))"


section \<open>Names, and one replacement at a time\<close>

text \<open>The names of the macros, as constants: the proofs below compare names by a
  checksum instead of character by character.\<close>

definition nm_VA_OPT_H :: string where "nm_VA_OPT_H = ''VA_OPT_H''"
definition nm_VA_OPT_H_VERSION :: string where "nm_VA_OPT_H_VERSION = ''VA_OPT_H_VERSION''"
definition nm_NTRNLVA_IMPL_NATIVE :: string where "nm_NTRNLVA_IMPL_NATIVE = ''NTRNLVA_IMPL_NATIVE''"
definition nm_NTRNLVA_IMPL_GNU :: string where "nm_NTRNLVA_IMPL_GNU = ''NTRNLVA_IMPL_GNU''"
definition nm_NTRNLVA_IMPL_MSVC :: string where "nm_NTRNLVA_IMPL_MSVC = ''NTRNLVA_IMPL_MSVC''"
definition nm_NTRNLVA_IMPL_C99 :: string where "nm_NTRNLVA_IMPL_C99 = ''NTRNLVA_IMPL_C99''"
definition nm_NTRNLVA_EXPAND :: string where "nm_NTRNLVA_EXPAND = ''NTRNLVA_EXPAND''"
definition nm_NTRNLVA_OPT_SUPPORTED_I :: string where "nm_NTRNLVA_OPT_SUPPORTED_I = ''NTRNLVA_OPT_SUPPORTED_I''"
definition nm_VA_OPT_SUPPORTED :: string where "nm_VA_OPT_SUPPORTED = ''VA_OPT_SUPPORTED''"
definition nm_NTRNLVA_MSVC_TRADITIONAL :: string where "nm_NTRNLVA_MSVC_TRADITIONAL = ''NTRNLVA_MSVC_TRADITIONAL''"
definition nm_NTRNLVA_SEL1_I :: string where "nm_NTRNLVA_SEL1_I = ''NTRNLVA_SEL1_I''"
definition nm_NTRNLVA_SEL2_I :: string where "nm_NTRNLVA_SEL2_I = ''NTRNLVA_SEL2_I''"
definition nm_NTRNLVA_SEL3_I :: string where "nm_NTRNLVA_SEL3_I = ''NTRNLVA_SEL3_I''"
definition nm_NTRNLVA_SEL1 :: string where "nm_NTRNLVA_SEL1 = ''NTRNLVA_SEL1''"
definition nm_NTRNLVA_SEL2 :: string where "nm_NTRNLVA_SEL2 = ''NTRNLVA_SEL2''"
definition nm_NTRNLVA_SEL3 :: string where "nm_NTRNLVA_SEL3 = ''NTRNLVA_SEL3''"
definition nm_NTRNLVA_EMPTY :: string where "nm_NTRNLVA_EMPTY = ''NTRNLVA_EMPTY''"
definition nm_NTRNLVA_CAT :: string where "nm_NTRNLVA_CAT = ''NTRNLVA_CAT''"
definition nm_NTRNLVA_PRIMITIVE_CAT :: string where "nm_NTRNLVA_PRIMITIVE_CAT = ''NTRNLVA_PRIMITIVE_CAT''"
definition nm_NTRNLVA_AND :: string where "nm_NTRNLVA_AND = ''NTRNLVA_AND''"
definition nm_NTRNLVA_AND_0 :: string where "nm_NTRNLVA_AND_0 = ''NTRNLVA_AND_0''"
definition nm_NTRNLVA_AND_1 :: string where "nm_NTRNLVA_AND_1 = ''NTRNLVA_AND_1''"
definition nm_NTRNLVA_CHECK_N :: string where "nm_NTRNLVA_CHECK_N = ''NTRNLVA_CHECK_N''"
definition nm_NTRNLVA_CHECK :: string where "nm_NTRNLVA_CHECK = ''NTRNLVA_CHECK''"
definition nm_NTRNLVA_PROBE :: string where "nm_NTRNLVA_PROBE = ''NTRNLVA_PROBE''"
definition nm_NTRNLVA_IS_PAREN :: string where "nm_NTRNLVA_IS_PAREN = ''NTRNLVA_IS_PAREN''"
definition nm_NTRNLVA_IS_PAREN_PROBE :: string where "nm_NTRNLVA_IS_PAREN_PROBE = ''NTRNLVA_IS_PAREN_PROBE''"
definition nm_NTRNLVA_COMPL :: string where "nm_NTRNLVA_COMPL = ''NTRNLVA_COMPL''"
definition nm_NTRNLVA_COMPL_0 :: string where "nm_NTRNLVA_COMPL_0 = ''NTRNLVA_COMPL_0''"
definition nm_NTRNLVA_COMPL_1 :: string where "nm_NTRNLVA_COMPL_1 = ''NTRNLVA_COMPL_1''"
definition nm_NTRNLVA_UP_I :: string where "nm_NTRNLVA_UP_I = ''NTRNLVA_UP_I''"
definition nm_NTRNLVA_UP :: string where "nm_NTRNLVA_UP = ''NTRNLVA_UP''"
definition nm_NTRNLVA_SENTINEL_' :: string where "nm_NTRNLVA_SENTINEL_' = ''NTRNLVA_SENTINEL_''"
definition nm_NTRNLVA_IS_SENTINEL2 :: string where "nm_NTRNLVA_IS_SENTINEL2 = ''NTRNLVA_IS_SENTINEL2''"
definition nm_NTRNLVA_IS_SENTINEL1 :: string where "nm_NTRNLVA_IS_SENTINEL1 = ''NTRNLVA_IS_SENTINEL1''"
definition nm_NTRNLVA_IS_SENTINEL :: string where "nm_NTRNLVA_IS_SENTINEL = ''NTRNLVA_IS_SENTINEL''"
definition nm_NTRNLVA_CHECK_SENTINEL :: string where "nm_NTRNLVA_CHECK_SENTINEL = ''NTRNLVA_CHECK_SENTINEL''"
definition nm_NTRNLVA_OPT_IMPL :: string where "nm_NTRNLVA_OPT_IMPL = ''NTRNLVA_OPT_IMPL''"
definition nm_NTRNLVA_OPT_IMPL_0 :: string where "nm_NTRNLVA_OPT_IMPL_0 = ''NTRNLVA_OPT_IMPL_0''"
definition nm_NTRNLVA_OPT_IMPL_1 :: string where "nm_NTRNLVA_OPT_IMPL_1 = ''NTRNLVA_OPT_IMPL_1''"
definition nm_VA_NOPT :: string where "nm_VA_NOPT = ''VA_NOPT''"
definition nm_EATER0 :: string where "nm_EATER0 = ''EATER0''"
definition nm_EATER1 :: string where "nm_EATER1 = ''EATER1''"
definition nm_EATER2 :: string where "nm_EATER2 = ''EATER2''"
definition nm_EATER3 :: string where "nm_EATER3 = ''EATER3''"
definition nm_EATER4 :: string where "nm_EATER4 = ''EATER4''"
definition nm_EATER5 :: string where "nm_EATER5 = ''EATER5''"
definition nm_MAC0 :: string where "nm_MAC0 = ''MAC0''"
definition nm_MAC1 :: string where "nm_MAC1 = ''MAC1''"
definition nm_MACV :: string where "nm_MACV = ''MACV''"
definition nm_MACMANYPLUS :: string where "nm_MACMANYPLUS = ''MACMANYPLUS''"
definition nm_MAC2 :: string where "nm_MAC2 = ''MAC2''"
definition nm_NTRNLVA_IMPL :: string where "nm_NTRNLVA_IMPL = ''NTRNLVA_IMPL''"
definition nm_NTRNLVA_ISEMPTY_I0 :: string where "nm_NTRNLVA_ISEMPTY_I0 = ''NTRNLVA_ISEMPTY_I0''"
definition nm_NTRNLVA_ISEMPTY_I01 :: string where "nm_NTRNLVA_ISEMPTY_I01 = ''NTRNLVA_ISEMPTY_I01''"
definition nm_NTRNLVA_ISEMPTY_I :: string where "nm_NTRNLVA_ISEMPTY_I = ''NTRNLVA_ISEMPTY_I''"
definition nm_VA_ISEMPTY :: string where "nm_VA_ISEMPTY = ''VA_ISEMPTY''"
definition nm_NTRNLVA_NOTEMPTY_I0 :: string where "nm_NTRNLVA_NOTEMPTY_I0 = ''NTRNLVA_NOTEMPTY_I0''"
definition nm_NTRNLVA_NOTEMPTY_I01 :: string where "nm_NTRNLVA_NOTEMPTY_I01 = ''NTRNLVA_NOTEMPTY_I01''"
definition nm_NTRNLVA_NOTEMPTY_I :: string where "nm_NTRNLVA_NOTEMPTY_I = ''NTRNLVA_NOTEMPTY_I''"
definition nm_VA_NOTEMPTY :: string where "nm_VA_NOTEMPTY = ''VA_NOTEMPTY''"
definition nm_NTRNLVA_OPT_I :: string where "nm_NTRNLVA_OPT_I = ''NTRNLVA_OPT_I''"
definition nm_VA_OPT :: string where "nm_VA_OPT = ''VA_OPT''"
definition nm_NTRNLVA_ISEMPTY_INDIRECT :: string where "nm_NTRNLVA_ISEMPTY_INDIRECT = ''NTRNLVA_ISEMPTY_INDIRECT''"
definition nm_NTRNLVA_HAS_COMMA :: string where "nm_NTRNLVA_HAS_COMMA = ''NTRNLVA_HAS_COMMA''"
definition nm_NTRNLVA_TRIGGER_PARENTHESIS_' :: string where "nm_NTRNLVA_TRIGGER_PARENTHESIS_' = ''NTRNLVA_TRIGGER_PARENTHESIS_''"
definition nm_NTRNLVA_ISEMPTY_BASE :: string where "nm_NTRNLVA_ISEMPTY_BASE = ''NTRNLVA_ISEMPTY_BASE''"
definition nm_NTRNLVA_PASTE5 :: string where "nm_NTRNLVA_PASTE5 = ''NTRNLVA_PASTE5''"
definition nm_NTRNLVA_ISEMPTY_BASE_I :: string where "nm_NTRNLVA_ISEMPTY_BASE_I = ''NTRNLVA_ISEMPTY_BASE_I''"
definition nm_NTRNLVA_IS_EMPTY_CASE_0001 :: string where "nm_NTRNLVA_IS_EMPTY_CASE_0001 = ''NTRNLVA_IS_EMPTY_CASE_0001''"
definition nm_NTRNLVA_AND_' :: string where "nm_NTRNLVA_AND_' = ''NTRNLVA_AND_''"
definition nm_NTRNLVA_COMPL_' :: string where "nm_NTRNLVA_COMPL_' = ''NTRNLVA_COMPL_''"
definition nm_NTRNLVA_OPT_IMPL_' :: string where "nm_NTRNLVA_OPT_IMPL_' = ''NTRNLVA_OPT_IMPL_''"
definition nm_NTRNLVA_IS_EMPTY_CASE_' :: string where "nm_NTRNLVA_IS_EMPTY_CASE_' = ''NTRNLVA_IS_EMPTY_CASE_''"

definition name_code :: "string \<Rightarrow> nat" where
  "name_code s = fold (\<lambda>c h. (h * 7 + of_char c) mod 647) s 0"

definition starts_lparen :: "ptoken list \<Rightarrow> bool" where
  "starts_lparen ts = (case ts of [] \<Rightarrow> False | (t, h) # _ \<Rightarrow> t = LParen)"

text \<open>What \<open>expand\<close> does at an identifier that names the macro \<open>M\<close>.\<close>

definition call_macro ::
  "table \<Rightarrow> nat \<Rightarrow> string \<Rightarrow> hideset \<Rightarrow> macro \<Rightarrow> ptoken list \<Rightarrow> error + ptoken list" where
  "call_macro tbl n nm hs M ts =
     (case (if nm \<in> set hs then NoCall
            else case M of
                   ObjectLike body \<Rightarrow> Call body [] False (nm # hs) ts
                 | FunctionLike ps variadic body \<Rightarrow> function_call nm hs ps variadic body ts) of
        NoCall \<Rightarrow> cons_res (Ident nm, hs) (expand tbl n ts)
      | Failed e \<Rightarrow> Inl e
      | Call body actuals omitted hs' rest \<Rightarrow>
          (case n of
             0 \<Rightarrow> Inl OutOfFuel
           | Suc m \<Rightarrow>
               (case sequence
                       (map (\<lambda>(q, a). if needs_expansion body q then expand tbl m a else Inr [])
                            actuals) of
                  Inl e \<Rightarrow> Inl e
                | Inr exs \<Rightarrow>
                    (case replace body (zip (map fst actuals) (zip (map snd actuals) exs))
                            omitted of
                       Inl e \<Rightarrow> Inl e
                     | Inr os \<Rightarrow> expand tbl m (hsadd hs' os @ rest)))))"


text \<open>
  A list of the caller's tokens inside an expansion: the tokens \<open>ts\<close>, all with the hide
  set \<open>H\<close>. The rules of the next section move such a list through the expansion as a whole.
\<close>

definition paint :: "hideset \<Rightarrow> tok list \<Rightarrow> ptoken list" where
  "paint H ts = map (\<lambda>t. (t, H)) ts"

definition prepend :: "ptoken list \<Rightarrow> error + ptoken list \<Rightarrow> error + ptoken list" where
  "prepend x r = (case r of Inl e \<Rightarrow> Inl e | Inr ts \<Rightarrow> Inr (x @ ts))"

definition lparen_first :: "tok list \<Rightarrow> bool" where
  "lparen_first ts = (case ts of [] \<Rightarrow> False | t # _ \<Rightarrow> t = LParen)"

section \<open>Evaluation\<close>

lemmas name_defs =
  nm_VA_OPT_H_def nm_VA_OPT_H_VERSION_def nm_NTRNLVA_IMPL_NATIVE_def
  nm_NTRNLVA_IMPL_GNU_def nm_NTRNLVA_IMPL_MSVC_def nm_NTRNLVA_IMPL_C99_def
  nm_NTRNLVA_EXPAND_def nm_NTRNLVA_OPT_SUPPORTED_I_def nm_VA_OPT_SUPPORTED_def
  nm_NTRNLVA_MSVC_TRADITIONAL_def nm_NTRNLVA_SEL1_I_def nm_NTRNLVA_SEL2_I_def
  nm_NTRNLVA_SEL3_I_def nm_NTRNLVA_SEL1_def nm_NTRNLVA_SEL2_def nm_NTRNLVA_SEL3_def
  nm_NTRNLVA_EMPTY_def nm_NTRNLVA_CAT_def nm_NTRNLVA_PRIMITIVE_CAT_def nm_NTRNLVA_AND_def
  nm_NTRNLVA_AND_0_def nm_NTRNLVA_AND_1_def nm_NTRNLVA_CHECK_N_def nm_NTRNLVA_CHECK_def
  nm_NTRNLVA_PROBE_def nm_NTRNLVA_IS_PAREN_def nm_NTRNLVA_IS_PAREN_PROBE_def
  nm_NTRNLVA_COMPL_def nm_NTRNLVA_COMPL_0_def nm_NTRNLVA_COMPL_1_def nm_NTRNLVA_UP_I_def
  nm_NTRNLVA_UP_def nm_NTRNLVA_SENTINEL_'_def nm_NTRNLVA_IS_SENTINEL2_def
  nm_NTRNLVA_IS_SENTINEL1_def nm_NTRNLVA_IS_SENTINEL_def nm_NTRNLVA_CHECK_SENTINEL_def
  nm_NTRNLVA_OPT_IMPL_def nm_NTRNLVA_OPT_IMPL_0_def nm_NTRNLVA_OPT_IMPL_1_def
  nm_VA_NOPT_def nm_EATER0_def nm_EATER1_def nm_EATER2_def nm_EATER3_def nm_EATER4_def
  nm_EATER5_def nm_MAC0_def nm_MAC1_def nm_MACV_def nm_MACMANYPLUS_def nm_MAC2_def
  nm_NTRNLVA_IMPL_def nm_NTRNLVA_ISEMPTY_I0_def nm_NTRNLVA_ISEMPTY_I01_def
  nm_NTRNLVA_ISEMPTY_I_def nm_VA_ISEMPTY_def nm_NTRNLVA_NOTEMPTY_I0_def
  nm_NTRNLVA_NOTEMPTY_I01_def nm_NTRNLVA_NOTEMPTY_I_def nm_VA_NOTEMPTY_def
  nm_NTRNLVA_OPT_I_def nm_VA_OPT_def nm_NTRNLVA_ISEMPTY_INDIRECT_def
  nm_NTRNLVA_HAS_COMMA_def nm_NTRNLVA_TRIGGER_PARENTHESIS_'_def nm_NTRNLVA_ISEMPTY_BASE_def
  nm_NTRNLVA_PASTE5_def nm_NTRNLVA_ISEMPTY_BASE_I_def nm_NTRNLVA_IS_EMPTY_CASE_0001_def
  nm_NTRNLVA_AND_'_def nm_NTRNLVA_COMPL_'_def nm_NTRNLVA_OPT_IMPL_'_def
  nm_NTRNLVA_IS_EMPTY_CASE_'_def

lemma neq_by_code: "name_code a \<noteq> name_code b \<Longrightarrow> (a = b) = False"
  by auto

lemma name_codes:
  "name_code nm_VA_OPT_H = 408"
  "name_code nm_VA_OPT_H_VERSION = 567"
  "name_code nm_NTRNLVA_IMPL_NATIVE = 435"
  "name_code nm_NTRNLVA_IMPL_GNU = 300"
  "name_code nm_NTRNLVA_IMPL_MSVC = 595"
  "name_code nm_NTRNLVA_IMPL_C99 = 576"
  "name_code nm_NTRNLVA_EXPAND = 425"
  "name_code nm_NTRNLVA_OPT_SUPPORTED_I = 282"
  "name_code nm_VA_OPT_SUPPORTED = 342"
  "name_code nm_NTRNLVA_MSVC_TRADITIONAL = 13"
  "name_code nm_NTRNLVA_SEL1_I = 442"
  "name_code nm_NTRNLVA_SEL2_I = 491"
  "name_code nm_NTRNLVA_SEL3_I = 540"
  "name_code nm_NTRNLVA_SEL1 = 126"
  "name_code nm_NTRNLVA_SEL2 = 127"
  "name_code nm_NTRNLVA_SEL3 = 128"
  "name_code nm_NTRNLVA_EMPTY = 304"
  "name_code nm_NTRNLVA_CAT = 501"
  "name_code nm_NTRNLVA_PRIMITIVE_CAT = 448"
  "name_code nm_NTRNLVA_AND = 478"
  "name_code nm_NTRNLVA_AND_0 = 196"
  "name_code nm_NTRNLVA_AND_1 = 197"
  "name_code nm_NTRNLVA_CHECK_N = 465"
  "name_code nm_NTRNLVA_CHECK = 232"
  "name_code nm_NTRNLVA_PROBE = 414"
  "name_code nm_NTRNLVA_IS_PAREN = 522"
  "name_code nm_NTRNLVA_IS_PAREN_PROBE = 153"
  "name_code nm_NTRNLVA_COMPL = 529"
  "name_code nm_NTRNLVA_COMPL_0 = 107"
  "name_code nm_NTRNLVA_COMPL_1 = 108"
  "name_code nm_NTRNLVA_UP_I = 214"
  "name_code nm_NTRNLVA_UP = 293"
  "name_code nm_NTRNLVA_SENTINEL_' = 252"
  "name_code nm_NTRNLVA_IS_SENTINEL2 = 615"
  "name_code nm_NTRNLVA_IS_SENTINEL1 = 614"
  "name_code nm_NTRNLVA_IS_SENTINEL = 358"
  "name_code nm_NTRNLVA_CHECK_SENTINEL = 169"
  "name_code nm_NTRNLVA_OPT_IMPL = 243"
  "name_code nm_NTRNLVA_OPT_IMPL_0 = 327"
  "name_code nm_NTRNLVA_OPT_IMPL_1 = 328"
  "name_code nm_VA_NOPT = 264"
  "name_code nm_EATER0 = 215"
  "name_code nm_EATER1 = 216"
  "name_code nm_EATER2 = 217"
  "name_code nm_EATER3 = 218"
  "name_code nm_EATER4 = 219"
  "name_code nm_EATER5 = 220"
  "name_code nm_MAC0 = 351"
  "name_code nm_MAC1 = 352"
  "name_code nm_MACV = 389"
  "name_code nm_MACMANYPLUS = 291"
  "name_code nm_MAC2 = 353"
  "name_code nm_NTRNLVA_IMPL = 378"
  "name_code nm_NTRNLVA_ISEMPTY_I0 = 249"
  "name_code nm_NTRNLVA_ISEMPTY_I01 = 498"
  "name_code nm_NTRNLVA_ISEMPTY_I = 306"
  "name_code nm_VA_ISEMPTY = 161"
  "name_code nm_NTRNLVA_NOTEMPTY_I0 = 487"
  "name_code nm_NTRNLVA_NOTEMPTY_I01 = 223"
  "name_code nm_NTRNLVA_NOTEMPTY_I = 340"
  "name_code nm_VA_NOTEMPTY = 560"
  "name_code nm_NTRNLVA_OPT_I = 367"
  "name_code nm_VA_OPT = 363"
  "name_code nm_NTRNLVA_ISEMPTY_INDIRECT = 387"
  "name_code nm_NTRNLVA_HAS_COMMA = 113"
  "name_code nm_NTRNLVA_TRIGGER_PARENTHESIS_' = 332"
  "name_code nm_NTRNLVA_ISEMPTY_BASE = 284"
  "name_code nm_NTRNLVA_PASTE5 = 620"
  "name_code nm_NTRNLVA_ISEMPTY_BASE_I = 420"
  "name_code nm_NTRNLVA_IS_EMPTY_CASE_0001 = 574"
  "name_code nm_NTRNLVA_AND_' = 206"
  "name_code nm_NTRNLVA_COMPL_' = 563"
  "name_code nm_NTRNLVA_OPT_IMPL_' = 502"
  "name_code nm_NTRNLVA_IS_EMPTY_CASE_' = 411"
  "name_code ''a'' = 97"
  "name_code ''b'' = 98"
  "name_code ''c'' = 99"
  "name_code ''d'' = 100"
  "name_code ''e'' = 101"
  "name_code ''x'' = 120"
  "name_code ''y'' = 121"
  "name_code ''n'' = 110"
  "name_code ''opt'' = 516"
  "name_code ''args'' = 226"
  "name_code ''_0'' = 66"
  "name_code ''_1'' = 67"
  "name_code ''_2'' = 68"
  "name_code ''_3'' = 69"
  "name_code ''_4'' = 70"
  "name_code ''__VA_ARGS__'' = 424"
  "name_code ''__VA_OPT__'' = 52"
  "name_code ''void'' = 164"
  "name_code ''whatever'' = 589"
  "name_code ''int'' = 208"
  "name_code ''long'' = 7"
  by (simp_all add: name_code_def name_defs)

lemma table_native:
  "table_of Native =
    [(nm_NTRNLVA_IMPL, NTRNLVA_IMPL_native),
     (nm_NTRNLVA_ISEMPTY_I0, NTRNLVA_ISEMPTY_I0_native),
     (nm_NTRNLVA_ISEMPTY_I01, NTRNLVA_ISEMPTY_I01_native),
     (nm_NTRNLVA_ISEMPTY_I, NTRNLVA_ISEMPTY_I_native), (nm_VA_ISEMPTY, VA_ISEMPTY_native),
     (nm_NTRNLVA_NOTEMPTY_I0, NTRNLVA_NOTEMPTY_I0_native),
     (nm_NTRNLVA_NOTEMPTY_I01, NTRNLVA_NOTEMPTY_I01_native),
     (nm_NTRNLVA_NOTEMPTY_I, NTRNLVA_NOTEMPTY_I_native), (nm_VA_NOTEMPTY, VA_NOTEMPTY_native),
     (nm_NTRNLVA_OPT_I, NTRNLVA_OPT_I_native), (nm_VA_OPT, VA_OPT_native),
     (nm_VA_OPT_H, VA_OPT_H), (nm_VA_OPT_H_VERSION, VA_OPT_H_VERSION),
     (nm_NTRNLVA_IMPL_NATIVE, NTRNLVA_IMPL_NATIVE), (nm_NTRNLVA_IMPL_GNU, NTRNLVA_IMPL_GNU),
     (nm_NTRNLVA_IMPL_MSVC, NTRNLVA_IMPL_MSVC), (nm_NTRNLVA_IMPL_C99, NTRNLVA_IMPL_C99),
     (nm_NTRNLVA_EXPAND, NTRNLVA_EXPAND),
     (nm_NTRNLVA_OPT_SUPPORTED_I, NTRNLVA_OPT_SUPPORTED_I),
     (nm_VA_OPT_SUPPORTED, VA_OPT_SUPPORTED),
     (nm_NTRNLVA_MSVC_TRADITIONAL, NTRNLVA_MSVC_TRADITIONAL),
     (nm_NTRNLVA_SEL1_I, NTRNLVA_SEL1_I), (nm_NTRNLVA_SEL2_I, NTRNLVA_SEL2_I),
     (nm_NTRNLVA_SEL3_I, NTRNLVA_SEL3_I), (nm_NTRNLVA_SEL1, NTRNLVA_SEL1),
     (nm_NTRNLVA_SEL2, NTRNLVA_SEL2), (nm_NTRNLVA_SEL3, NTRNLVA_SEL3),
     (nm_NTRNLVA_EMPTY, NTRNLVA_EMPTY), (nm_NTRNLVA_CAT, NTRNLVA_CAT),
     (nm_NTRNLVA_PRIMITIVE_CAT, NTRNLVA_PRIMITIVE_CAT), (nm_NTRNLVA_AND, NTRNLVA_AND),
     (nm_NTRNLVA_AND_0, NTRNLVA_AND_0), (nm_NTRNLVA_AND_1, NTRNLVA_AND_1),
     (nm_NTRNLVA_CHECK_N, NTRNLVA_CHECK_N), (nm_NTRNLVA_CHECK, NTRNLVA_CHECK),
     (nm_NTRNLVA_PROBE, NTRNLVA_PROBE), (nm_NTRNLVA_IS_PAREN, NTRNLVA_IS_PAREN),
     (nm_NTRNLVA_IS_PAREN_PROBE, NTRNLVA_IS_PAREN_PROBE), (nm_NTRNLVA_COMPL, NTRNLVA_COMPL),
     (nm_NTRNLVA_COMPL_0, NTRNLVA_COMPL_0), (nm_NTRNLVA_COMPL_1, NTRNLVA_COMPL_1),
     (nm_NTRNLVA_UP_I, NTRNLVA_UP_I), (nm_NTRNLVA_UP, NTRNLVA_UP),
     (nm_NTRNLVA_SENTINEL_', NTRNLVA_SENTINEL_'),
     (nm_NTRNLVA_IS_SENTINEL2, NTRNLVA_IS_SENTINEL2),
     (nm_NTRNLVA_IS_SENTINEL1, NTRNLVA_IS_SENTINEL1),
     (nm_NTRNLVA_IS_SENTINEL, NTRNLVA_IS_SENTINEL),
     (nm_NTRNLVA_CHECK_SENTINEL, NTRNLVA_CHECK_SENTINEL),
     (nm_NTRNLVA_OPT_IMPL, NTRNLVA_OPT_IMPL), (nm_NTRNLVA_OPT_IMPL_0, NTRNLVA_OPT_IMPL_0),
     (nm_NTRNLVA_OPT_IMPL_1, NTRNLVA_OPT_IMPL_1), (nm_VA_NOPT, VA_NOPT), (nm_EATER0, EATER0),
     (nm_EATER1, EATER1), (nm_EATER2, EATER2), (nm_EATER3, EATER3), (nm_EATER4, EATER4),
     (nm_EATER5, EATER5), (nm_MAC0, MAC0), (nm_MAC1, MAC1), (nm_MACV, MACV),
     (nm_MACMANYPLUS, MACMANYPLUS), (nm_MAC2, MAC2)]"
  by (simp add: table_of_def native_macros_def common_macros_def test_macros_def name_defs)

lemma lookup_native:
  "map_of (table_of Native) nm_NTRNLVA_IMPL = Some NTRNLVA_IMPL_native"
  "map_of (table_of Native) nm_NTRNLVA_ISEMPTY_I0 = Some NTRNLVA_ISEMPTY_I0_native"
  "map_of (table_of Native) nm_NTRNLVA_ISEMPTY_I01 = Some NTRNLVA_ISEMPTY_I01_native"
  "map_of (table_of Native) nm_NTRNLVA_ISEMPTY_I = Some NTRNLVA_ISEMPTY_I_native"
  "map_of (table_of Native) nm_VA_ISEMPTY = Some VA_ISEMPTY_native"
  "map_of (table_of Native) nm_NTRNLVA_NOTEMPTY_I0 = Some NTRNLVA_NOTEMPTY_I0_native"
  "map_of (table_of Native) nm_NTRNLVA_NOTEMPTY_I01 = Some NTRNLVA_NOTEMPTY_I01_native"
  "map_of (table_of Native) nm_NTRNLVA_NOTEMPTY_I = Some NTRNLVA_NOTEMPTY_I_native"
  "map_of (table_of Native) nm_VA_NOTEMPTY = Some VA_NOTEMPTY_native"
  "map_of (table_of Native) nm_NTRNLVA_OPT_I = Some NTRNLVA_OPT_I_native"
  "map_of (table_of Native) nm_VA_OPT = Some VA_OPT_native"
  "map_of (table_of Native) nm_VA_OPT_H = Some VA_OPT_H"
  "map_of (table_of Native) nm_VA_OPT_H_VERSION = Some VA_OPT_H_VERSION"
  "map_of (table_of Native) nm_NTRNLVA_IMPL_NATIVE = Some NTRNLVA_IMPL_NATIVE"
  "map_of (table_of Native) nm_NTRNLVA_IMPL_GNU = Some NTRNLVA_IMPL_GNU"
  "map_of (table_of Native) nm_NTRNLVA_IMPL_MSVC = Some NTRNLVA_IMPL_MSVC"
  "map_of (table_of Native) nm_NTRNLVA_IMPL_C99 = Some NTRNLVA_IMPL_C99"
  "map_of (table_of Native) nm_NTRNLVA_EXPAND = Some NTRNLVA_EXPAND"
  "map_of (table_of Native) nm_NTRNLVA_OPT_SUPPORTED_I = Some NTRNLVA_OPT_SUPPORTED_I"
  "map_of (table_of Native) nm_VA_OPT_SUPPORTED = Some VA_OPT_SUPPORTED"
  "map_of (table_of Native) nm_NTRNLVA_MSVC_TRADITIONAL = Some NTRNLVA_MSVC_TRADITIONAL"
  "map_of (table_of Native) nm_NTRNLVA_SEL1_I = Some NTRNLVA_SEL1_I"
  "map_of (table_of Native) nm_NTRNLVA_SEL2_I = Some NTRNLVA_SEL2_I"
  "map_of (table_of Native) nm_NTRNLVA_SEL3_I = Some NTRNLVA_SEL3_I"
  "map_of (table_of Native) nm_NTRNLVA_SEL1 = Some NTRNLVA_SEL1"
  "map_of (table_of Native) nm_NTRNLVA_SEL2 = Some NTRNLVA_SEL2"
  "map_of (table_of Native) nm_NTRNLVA_SEL3 = Some NTRNLVA_SEL3"
  "map_of (table_of Native) nm_NTRNLVA_EMPTY = Some NTRNLVA_EMPTY"
  "map_of (table_of Native) nm_NTRNLVA_CAT = Some NTRNLVA_CAT"
  "map_of (table_of Native) nm_NTRNLVA_PRIMITIVE_CAT = Some NTRNLVA_PRIMITIVE_CAT"
  "map_of (table_of Native) nm_NTRNLVA_AND = Some NTRNLVA_AND"
  "map_of (table_of Native) nm_NTRNLVA_AND_0 = Some NTRNLVA_AND_0"
  "map_of (table_of Native) nm_NTRNLVA_AND_1 = Some NTRNLVA_AND_1"
  "map_of (table_of Native) nm_NTRNLVA_CHECK_N = Some NTRNLVA_CHECK_N"
  "map_of (table_of Native) nm_NTRNLVA_CHECK = Some NTRNLVA_CHECK"
  "map_of (table_of Native) nm_NTRNLVA_PROBE = Some NTRNLVA_PROBE"
  "map_of (table_of Native) nm_NTRNLVA_IS_PAREN = Some NTRNLVA_IS_PAREN"
  "map_of (table_of Native) nm_NTRNLVA_IS_PAREN_PROBE = Some NTRNLVA_IS_PAREN_PROBE"
  "map_of (table_of Native) nm_NTRNLVA_COMPL = Some NTRNLVA_COMPL"
  "map_of (table_of Native) nm_NTRNLVA_COMPL_0 = Some NTRNLVA_COMPL_0"
  "map_of (table_of Native) nm_NTRNLVA_COMPL_1 = Some NTRNLVA_COMPL_1"
  "map_of (table_of Native) nm_NTRNLVA_UP_I = Some NTRNLVA_UP_I"
  "map_of (table_of Native) nm_NTRNLVA_UP = Some NTRNLVA_UP"
  "map_of (table_of Native) nm_NTRNLVA_SENTINEL_' = Some NTRNLVA_SENTINEL_'"
  "map_of (table_of Native) nm_NTRNLVA_IS_SENTINEL2 = Some NTRNLVA_IS_SENTINEL2"
  "map_of (table_of Native) nm_NTRNLVA_IS_SENTINEL1 = Some NTRNLVA_IS_SENTINEL1"
  "map_of (table_of Native) nm_NTRNLVA_IS_SENTINEL = Some NTRNLVA_IS_SENTINEL"
  "map_of (table_of Native) nm_NTRNLVA_CHECK_SENTINEL = Some NTRNLVA_CHECK_SENTINEL"
  "map_of (table_of Native) nm_NTRNLVA_OPT_IMPL = Some NTRNLVA_OPT_IMPL"
  "map_of (table_of Native) nm_NTRNLVA_OPT_IMPL_0 = Some NTRNLVA_OPT_IMPL_0"
  "map_of (table_of Native) nm_NTRNLVA_OPT_IMPL_1 = Some NTRNLVA_OPT_IMPL_1"
  "map_of (table_of Native) nm_VA_NOPT = Some VA_NOPT"
  "map_of (table_of Native) nm_EATER0 = Some EATER0"
  "map_of (table_of Native) nm_EATER1 = Some EATER1"
  "map_of (table_of Native) nm_EATER2 = Some EATER2"
  "map_of (table_of Native) nm_EATER3 = Some EATER3"
  "map_of (table_of Native) nm_EATER4 = Some EATER4"
  "map_of (table_of Native) nm_EATER5 = Some EATER5"
  "map_of (table_of Native) nm_MAC0 = Some MAC0"
  "map_of (table_of Native) nm_MAC1 = Some MAC1"
  "map_of (table_of Native) nm_MACV = Some MACV"
  "map_of (table_of Native) nm_MACMANYPLUS = Some MACMANYPLUS"
  "map_of (table_of Native) nm_MAC2 = Some MAC2"
  by (simp_all add: table_native neq_by_code name_codes)

lemma miss_native:
  "map_of (table_of Native) nm_NTRNLVA_ISEMPTY_INDIRECT = None"
  "map_of (table_of Native) nm_NTRNLVA_HAS_COMMA = None"
  "map_of (table_of Native) nm_NTRNLVA_TRIGGER_PARENTHESIS_' = None"
  "map_of (table_of Native) nm_NTRNLVA_ISEMPTY_BASE = None"
  "map_of (table_of Native) nm_NTRNLVA_PASTE5 = None"
  "map_of (table_of Native) nm_NTRNLVA_ISEMPTY_BASE_I = None"
  "map_of (table_of Native) nm_NTRNLVA_IS_EMPTY_CASE_0001 = None"
  "map_of (table_of Native) nm_NTRNLVA_AND_' = None"
  "map_of (table_of Native) nm_NTRNLVA_COMPL_' = None"
  "map_of (table_of Native) nm_NTRNLVA_OPT_IMPL_' = None"
  "map_of (table_of Native) nm_NTRNLVA_IS_EMPTY_CASE_' = None"
  "map_of (table_of Native) ''a'' = None"
  "map_of (table_of Native) ''b'' = None"
  "map_of (table_of Native) ''c'' = None"
  "map_of (table_of Native) ''d'' = None"
  "map_of (table_of Native) ''e'' = None"
  "map_of (table_of Native) ''x'' = None"
  "map_of (table_of Native) ''y'' = None"
  "map_of (table_of Native) ''n'' = None"
  "map_of (table_of Native) ''opt'' = None"
  "map_of (table_of Native) ''args'' = None"
  "map_of (table_of Native) ''_0'' = None"
  "map_of (table_of Native) ''_1'' = None"
  "map_of (table_of Native) ''_2'' = None"
  "map_of (table_of Native) ''_3'' = None"
  "map_of (table_of Native) ''_4'' = None"
  "map_of (table_of Native) ''__VA_ARGS__'' = None"
  "map_of (table_of Native) ''__VA_OPT__'' = None"
  "map_of (table_of Native) ''void'' = None"
  "map_of (table_of Native) ''whatever'' = None"
  "map_of (table_of Native) ''int'' = None"
  "map_of (table_of Native) ''long'' = None"
  by (simp_all add: table_native neq_by_code name_codes)

lemma table_gnu:
  "table_of GNU =
    [(nm_NTRNLVA_IMPL, NTRNLVA_IMPL_gnu), (nm_NTRNLVA_ISEMPTY_I, NTRNLVA_ISEMPTY_I_gnu),
     (nm_NTRNLVA_ISEMPTY_INDIRECT, NTRNLVA_ISEMPTY_INDIRECT_gnu),
     (nm_VA_ISEMPTY, VA_ISEMPTY_gnu), (nm_VA_NOTEMPTY, VA_NOTEMPTY_gnu),
     (nm_VA_OPT, VA_OPT_gnu), (nm_VA_OPT_H, VA_OPT_H), (nm_VA_OPT_H_VERSION, VA_OPT_H_VERSION),
     (nm_NTRNLVA_IMPL_NATIVE, NTRNLVA_IMPL_NATIVE), (nm_NTRNLVA_IMPL_GNU, NTRNLVA_IMPL_GNU),
     (nm_NTRNLVA_IMPL_MSVC, NTRNLVA_IMPL_MSVC), (nm_NTRNLVA_IMPL_C99, NTRNLVA_IMPL_C99),
     (nm_NTRNLVA_EXPAND, NTRNLVA_EXPAND),
     (nm_NTRNLVA_OPT_SUPPORTED_I, NTRNLVA_OPT_SUPPORTED_I),
     (nm_VA_OPT_SUPPORTED, VA_OPT_SUPPORTED),
     (nm_NTRNLVA_MSVC_TRADITIONAL, NTRNLVA_MSVC_TRADITIONAL),
     (nm_NTRNLVA_SEL1_I, NTRNLVA_SEL1_I), (nm_NTRNLVA_SEL2_I, NTRNLVA_SEL2_I),
     (nm_NTRNLVA_SEL3_I, NTRNLVA_SEL3_I), (nm_NTRNLVA_SEL1, NTRNLVA_SEL1),
     (nm_NTRNLVA_SEL2, NTRNLVA_SEL2), (nm_NTRNLVA_SEL3, NTRNLVA_SEL3),
     (nm_NTRNLVA_EMPTY, NTRNLVA_EMPTY), (nm_NTRNLVA_CAT, NTRNLVA_CAT),
     (nm_NTRNLVA_PRIMITIVE_CAT, NTRNLVA_PRIMITIVE_CAT), (nm_NTRNLVA_AND, NTRNLVA_AND),
     (nm_NTRNLVA_AND_0, NTRNLVA_AND_0), (nm_NTRNLVA_AND_1, NTRNLVA_AND_1),
     (nm_NTRNLVA_CHECK_N, NTRNLVA_CHECK_N), (nm_NTRNLVA_CHECK, NTRNLVA_CHECK),
     (nm_NTRNLVA_PROBE, NTRNLVA_PROBE), (nm_NTRNLVA_IS_PAREN, NTRNLVA_IS_PAREN),
     (nm_NTRNLVA_IS_PAREN_PROBE, NTRNLVA_IS_PAREN_PROBE), (nm_NTRNLVA_COMPL, NTRNLVA_COMPL),
     (nm_NTRNLVA_COMPL_0, NTRNLVA_COMPL_0), (nm_NTRNLVA_COMPL_1, NTRNLVA_COMPL_1),
     (nm_NTRNLVA_UP_I, NTRNLVA_UP_I), (nm_NTRNLVA_UP, NTRNLVA_UP),
     (nm_NTRNLVA_SENTINEL_', NTRNLVA_SENTINEL_'),
     (nm_NTRNLVA_IS_SENTINEL2, NTRNLVA_IS_SENTINEL2),
     (nm_NTRNLVA_IS_SENTINEL1, NTRNLVA_IS_SENTINEL1),
     (nm_NTRNLVA_IS_SENTINEL, NTRNLVA_IS_SENTINEL),
     (nm_NTRNLVA_CHECK_SENTINEL, NTRNLVA_CHECK_SENTINEL),
     (nm_NTRNLVA_OPT_IMPL, NTRNLVA_OPT_IMPL), (nm_NTRNLVA_OPT_IMPL_0, NTRNLVA_OPT_IMPL_0),
     (nm_NTRNLVA_OPT_IMPL_1, NTRNLVA_OPT_IMPL_1), (nm_VA_NOPT, VA_NOPT), (nm_EATER0, EATER0),
     (nm_EATER1, EATER1), (nm_EATER2, EATER2), (nm_EATER3, EATER3), (nm_EATER4, EATER4),
     (nm_EATER5, EATER5), (nm_MAC0, MAC0), (nm_MAC1, MAC1), (nm_MACV, MACV),
     (nm_MACMANYPLUS, MACMANYPLUS), (nm_MAC2, MAC2)]"
  by (simp add: table_of_def gnu_macros_def common_macros_def test_macros_def name_defs)

lemma lookup_gnu:
  "map_of (table_of GNU) nm_NTRNLVA_IMPL = Some NTRNLVA_IMPL_gnu"
  "map_of (table_of GNU) nm_NTRNLVA_ISEMPTY_I = Some NTRNLVA_ISEMPTY_I_gnu"
  "map_of (table_of GNU) nm_NTRNLVA_ISEMPTY_INDIRECT = Some NTRNLVA_ISEMPTY_INDIRECT_gnu"
  "map_of (table_of GNU) nm_VA_ISEMPTY = Some VA_ISEMPTY_gnu"
  "map_of (table_of GNU) nm_VA_NOTEMPTY = Some VA_NOTEMPTY_gnu"
  "map_of (table_of GNU) nm_VA_OPT = Some VA_OPT_gnu"
  "map_of (table_of GNU) nm_VA_OPT_H = Some VA_OPT_H"
  "map_of (table_of GNU) nm_VA_OPT_H_VERSION = Some VA_OPT_H_VERSION"
  "map_of (table_of GNU) nm_NTRNLVA_IMPL_NATIVE = Some NTRNLVA_IMPL_NATIVE"
  "map_of (table_of GNU) nm_NTRNLVA_IMPL_GNU = Some NTRNLVA_IMPL_GNU"
  "map_of (table_of GNU) nm_NTRNLVA_IMPL_MSVC = Some NTRNLVA_IMPL_MSVC"
  "map_of (table_of GNU) nm_NTRNLVA_IMPL_C99 = Some NTRNLVA_IMPL_C99"
  "map_of (table_of GNU) nm_NTRNLVA_EXPAND = Some NTRNLVA_EXPAND"
  "map_of (table_of GNU) nm_NTRNLVA_OPT_SUPPORTED_I = Some NTRNLVA_OPT_SUPPORTED_I"
  "map_of (table_of GNU) nm_VA_OPT_SUPPORTED = Some VA_OPT_SUPPORTED"
  "map_of (table_of GNU) nm_NTRNLVA_MSVC_TRADITIONAL = Some NTRNLVA_MSVC_TRADITIONAL"
  "map_of (table_of GNU) nm_NTRNLVA_SEL1_I = Some NTRNLVA_SEL1_I"
  "map_of (table_of GNU) nm_NTRNLVA_SEL2_I = Some NTRNLVA_SEL2_I"
  "map_of (table_of GNU) nm_NTRNLVA_SEL3_I = Some NTRNLVA_SEL3_I"
  "map_of (table_of GNU) nm_NTRNLVA_SEL1 = Some NTRNLVA_SEL1"
  "map_of (table_of GNU) nm_NTRNLVA_SEL2 = Some NTRNLVA_SEL2"
  "map_of (table_of GNU) nm_NTRNLVA_SEL3 = Some NTRNLVA_SEL3"
  "map_of (table_of GNU) nm_NTRNLVA_EMPTY = Some NTRNLVA_EMPTY"
  "map_of (table_of GNU) nm_NTRNLVA_CAT = Some NTRNLVA_CAT"
  "map_of (table_of GNU) nm_NTRNLVA_PRIMITIVE_CAT = Some NTRNLVA_PRIMITIVE_CAT"
  "map_of (table_of GNU) nm_NTRNLVA_AND = Some NTRNLVA_AND"
  "map_of (table_of GNU) nm_NTRNLVA_AND_0 = Some NTRNLVA_AND_0"
  "map_of (table_of GNU) nm_NTRNLVA_AND_1 = Some NTRNLVA_AND_1"
  "map_of (table_of GNU) nm_NTRNLVA_CHECK_N = Some NTRNLVA_CHECK_N"
  "map_of (table_of GNU) nm_NTRNLVA_CHECK = Some NTRNLVA_CHECK"
  "map_of (table_of GNU) nm_NTRNLVA_PROBE = Some NTRNLVA_PROBE"
  "map_of (table_of GNU) nm_NTRNLVA_IS_PAREN = Some NTRNLVA_IS_PAREN"
  "map_of (table_of GNU) nm_NTRNLVA_IS_PAREN_PROBE = Some NTRNLVA_IS_PAREN_PROBE"
  "map_of (table_of GNU) nm_NTRNLVA_COMPL = Some NTRNLVA_COMPL"
  "map_of (table_of GNU) nm_NTRNLVA_COMPL_0 = Some NTRNLVA_COMPL_0"
  "map_of (table_of GNU) nm_NTRNLVA_COMPL_1 = Some NTRNLVA_COMPL_1"
  "map_of (table_of GNU) nm_NTRNLVA_UP_I = Some NTRNLVA_UP_I"
  "map_of (table_of GNU) nm_NTRNLVA_UP = Some NTRNLVA_UP"
  "map_of (table_of GNU) nm_NTRNLVA_SENTINEL_' = Some NTRNLVA_SENTINEL_'"
  "map_of (table_of GNU) nm_NTRNLVA_IS_SENTINEL2 = Some NTRNLVA_IS_SENTINEL2"
  "map_of (table_of GNU) nm_NTRNLVA_IS_SENTINEL1 = Some NTRNLVA_IS_SENTINEL1"
  "map_of (table_of GNU) nm_NTRNLVA_IS_SENTINEL = Some NTRNLVA_IS_SENTINEL"
  "map_of (table_of GNU) nm_NTRNLVA_CHECK_SENTINEL = Some NTRNLVA_CHECK_SENTINEL"
  "map_of (table_of GNU) nm_NTRNLVA_OPT_IMPL = Some NTRNLVA_OPT_IMPL"
  "map_of (table_of GNU) nm_NTRNLVA_OPT_IMPL_0 = Some NTRNLVA_OPT_IMPL_0"
  "map_of (table_of GNU) nm_NTRNLVA_OPT_IMPL_1 = Some NTRNLVA_OPT_IMPL_1"
  "map_of (table_of GNU) nm_VA_NOPT = Some VA_NOPT"
  "map_of (table_of GNU) nm_EATER0 = Some EATER0"
  "map_of (table_of GNU) nm_EATER1 = Some EATER1"
  "map_of (table_of GNU) nm_EATER2 = Some EATER2"
  "map_of (table_of GNU) nm_EATER3 = Some EATER3"
  "map_of (table_of GNU) nm_EATER4 = Some EATER4"
  "map_of (table_of GNU) nm_EATER5 = Some EATER5"
  "map_of (table_of GNU) nm_MAC0 = Some MAC0"
  "map_of (table_of GNU) nm_MAC1 = Some MAC1"
  "map_of (table_of GNU) nm_MACV = Some MACV"
  "map_of (table_of GNU) nm_MACMANYPLUS = Some MACMANYPLUS"
  "map_of (table_of GNU) nm_MAC2 = Some MAC2"
  by (simp_all add: table_gnu neq_by_code name_codes)

lemma miss_gnu:
  "map_of (table_of GNU) nm_NTRNLVA_ISEMPTY_I0 = None"
  "map_of (table_of GNU) nm_NTRNLVA_ISEMPTY_I01 = None"
  "map_of (table_of GNU) nm_NTRNLVA_NOTEMPTY_I0 = None"
  "map_of (table_of GNU) nm_NTRNLVA_NOTEMPTY_I01 = None"
  "map_of (table_of GNU) nm_NTRNLVA_NOTEMPTY_I = None"
  "map_of (table_of GNU) nm_NTRNLVA_OPT_I = None"
  "map_of (table_of GNU) nm_NTRNLVA_HAS_COMMA = None"
  "map_of (table_of GNU) nm_NTRNLVA_TRIGGER_PARENTHESIS_' = None"
  "map_of (table_of GNU) nm_NTRNLVA_ISEMPTY_BASE = None"
  "map_of (table_of GNU) nm_NTRNLVA_PASTE5 = None"
  "map_of (table_of GNU) nm_NTRNLVA_ISEMPTY_BASE_I = None"
  "map_of (table_of GNU) nm_NTRNLVA_IS_EMPTY_CASE_0001 = None"
  "map_of (table_of GNU) nm_NTRNLVA_AND_' = None"
  "map_of (table_of GNU) nm_NTRNLVA_COMPL_' = None"
  "map_of (table_of GNU) nm_NTRNLVA_OPT_IMPL_' = None"
  "map_of (table_of GNU) nm_NTRNLVA_IS_EMPTY_CASE_' = None"
  "map_of (table_of GNU) ''a'' = None"
  "map_of (table_of GNU) ''b'' = None"
  "map_of (table_of GNU) ''c'' = None"
  "map_of (table_of GNU) ''d'' = None"
  "map_of (table_of GNU) ''e'' = None"
  "map_of (table_of GNU) ''x'' = None"
  "map_of (table_of GNU) ''y'' = None"
  "map_of (table_of GNU) ''n'' = None"
  "map_of (table_of GNU) ''opt'' = None"
  "map_of (table_of GNU) ''args'' = None"
  "map_of (table_of GNU) ''_0'' = None"
  "map_of (table_of GNU) ''_1'' = None"
  "map_of (table_of GNU) ''_2'' = None"
  "map_of (table_of GNU) ''_3'' = None"
  "map_of (table_of GNU) ''_4'' = None"
  "map_of (table_of GNU) ''__VA_ARGS__'' = None"
  "map_of (table_of GNU) ''__VA_OPT__'' = None"
  "map_of (table_of GNU) ''void'' = None"
  "map_of (table_of GNU) ''whatever'' = None"
  "map_of (table_of GNU) ''int'' = None"
  "map_of (table_of GNU) ''long'' = None"
  by (simp_all add: table_gnu neq_by_code name_codes)

lemma table_msvc:
  "table_of MSVC =
    [(nm_NTRNLVA_IMPL, NTRNLVA_IMPL_msvc), (nm_NTRNLVA_ISEMPTY_I, NTRNLVA_ISEMPTY_I_msvc),
     (nm_NTRNLVA_ISEMPTY_INDIRECT, NTRNLVA_ISEMPTY_INDIRECT_msvc),
     (nm_VA_ISEMPTY, VA_ISEMPTY_msvc), (nm_VA_NOTEMPTY, VA_NOTEMPTY_msvc),
     (nm_VA_OPT, VA_OPT_msvc), (nm_VA_OPT_H, VA_OPT_H),
     (nm_VA_OPT_H_VERSION, VA_OPT_H_VERSION), (nm_NTRNLVA_IMPL_NATIVE, NTRNLVA_IMPL_NATIVE),
     (nm_NTRNLVA_IMPL_GNU, NTRNLVA_IMPL_GNU), (nm_NTRNLVA_IMPL_MSVC, NTRNLVA_IMPL_MSVC),
     (nm_NTRNLVA_IMPL_C99, NTRNLVA_IMPL_C99), (nm_NTRNLVA_EXPAND, NTRNLVA_EXPAND),
     (nm_NTRNLVA_OPT_SUPPORTED_I, NTRNLVA_OPT_SUPPORTED_I),
     (nm_VA_OPT_SUPPORTED, VA_OPT_SUPPORTED),
     (nm_NTRNLVA_MSVC_TRADITIONAL, NTRNLVA_MSVC_TRADITIONAL),
     (nm_NTRNLVA_SEL1_I, NTRNLVA_SEL1_I), (nm_NTRNLVA_SEL2_I, NTRNLVA_SEL2_I),
     (nm_NTRNLVA_SEL3_I, NTRNLVA_SEL3_I), (nm_NTRNLVA_SEL1, NTRNLVA_SEL1),
     (nm_NTRNLVA_SEL2, NTRNLVA_SEL2), (nm_NTRNLVA_SEL3, NTRNLVA_SEL3),
     (nm_NTRNLVA_EMPTY, NTRNLVA_EMPTY), (nm_NTRNLVA_CAT, NTRNLVA_CAT),
     (nm_NTRNLVA_PRIMITIVE_CAT, NTRNLVA_PRIMITIVE_CAT), (nm_NTRNLVA_AND, NTRNLVA_AND),
     (nm_NTRNLVA_AND_0, NTRNLVA_AND_0), (nm_NTRNLVA_AND_1, NTRNLVA_AND_1),
     (nm_NTRNLVA_CHECK_N, NTRNLVA_CHECK_N), (nm_NTRNLVA_CHECK, NTRNLVA_CHECK),
     (nm_NTRNLVA_PROBE, NTRNLVA_PROBE), (nm_NTRNLVA_IS_PAREN, NTRNLVA_IS_PAREN),
     (nm_NTRNLVA_IS_PAREN_PROBE, NTRNLVA_IS_PAREN_PROBE), (nm_NTRNLVA_COMPL, NTRNLVA_COMPL),
     (nm_NTRNLVA_COMPL_0, NTRNLVA_COMPL_0), (nm_NTRNLVA_COMPL_1, NTRNLVA_COMPL_1),
     (nm_NTRNLVA_UP_I, NTRNLVA_UP_I), (nm_NTRNLVA_UP, NTRNLVA_UP),
     (nm_NTRNLVA_SENTINEL_', NTRNLVA_SENTINEL_'),
     (nm_NTRNLVA_IS_SENTINEL2, NTRNLVA_IS_SENTINEL2),
     (nm_NTRNLVA_IS_SENTINEL1, NTRNLVA_IS_SENTINEL1),
     (nm_NTRNLVA_IS_SENTINEL, NTRNLVA_IS_SENTINEL),
     (nm_NTRNLVA_CHECK_SENTINEL, NTRNLVA_CHECK_SENTINEL),
     (nm_NTRNLVA_OPT_IMPL, NTRNLVA_OPT_IMPL), (nm_NTRNLVA_OPT_IMPL_0, NTRNLVA_OPT_IMPL_0),
     (nm_NTRNLVA_OPT_IMPL_1, NTRNLVA_OPT_IMPL_1), (nm_VA_NOPT, VA_NOPT), (nm_EATER0, EATER0),
     (nm_EATER1, EATER1), (nm_EATER2, EATER2), (nm_EATER3, EATER3), (nm_EATER4, EATER4),
     (nm_EATER5, EATER5), (nm_MAC0, MAC0), (nm_MAC1, MAC1), (nm_MACV, MACV),
     (nm_MACMANYPLUS, MACMANYPLUS), (nm_MAC2, MAC2)]"
  by (simp add: table_of_def msvc_macros_def common_macros_def test_macros_def name_defs)

lemma lookup_msvc:
  "map_of (table_of MSVC) nm_NTRNLVA_IMPL = Some NTRNLVA_IMPL_msvc"
  "map_of (table_of MSVC) nm_NTRNLVA_ISEMPTY_I = Some NTRNLVA_ISEMPTY_I_msvc"
  "map_of (table_of MSVC) nm_NTRNLVA_ISEMPTY_INDIRECT = Some NTRNLVA_ISEMPTY_INDIRECT_msvc"
  "map_of (table_of MSVC) nm_VA_ISEMPTY = Some VA_ISEMPTY_msvc"
  "map_of (table_of MSVC) nm_VA_NOTEMPTY = Some VA_NOTEMPTY_msvc"
  "map_of (table_of MSVC) nm_VA_OPT = Some VA_OPT_msvc"
  "map_of (table_of MSVC) nm_VA_OPT_H = Some VA_OPT_H"
  "map_of (table_of MSVC) nm_VA_OPT_H_VERSION = Some VA_OPT_H_VERSION"
  "map_of (table_of MSVC) nm_NTRNLVA_IMPL_NATIVE = Some NTRNLVA_IMPL_NATIVE"
  "map_of (table_of MSVC) nm_NTRNLVA_IMPL_GNU = Some NTRNLVA_IMPL_GNU"
  "map_of (table_of MSVC) nm_NTRNLVA_IMPL_MSVC = Some NTRNLVA_IMPL_MSVC"
  "map_of (table_of MSVC) nm_NTRNLVA_IMPL_C99 = Some NTRNLVA_IMPL_C99"
  "map_of (table_of MSVC) nm_NTRNLVA_EXPAND = Some NTRNLVA_EXPAND"
  "map_of (table_of MSVC) nm_NTRNLVA_OPT_SUPPORTED_I = Some NTRNLVA_OPT_SUPPORTED_I"
  "map_of (table_of MSVC) nm_VA_OPT_SUPPORTED = Some VA_OPT_SUPPORTED"
  "map_of (table_of MSVC) nm_NTRNLVA_MSVC_TRADITIONAL = Some NTRNLVA_MSVC_TRADITIONAL"
  "map_of (table_of MSVC) nm_NTRNLVA_SEL1_I = Some NTRNLVA_SEL1_I"
  "map_of (table_of MSVC) nm_NTRNLVA_SEL2_I = Some NTRNLVA_SEL2_I"
  "map_of (table_of MSVC) nm_NTRNLVA_SEL3_I = Some NTRNLVA_SEL3_I"
  "map_of (table_of MSVC) nm_NTRNLVA_SEL1 = Some NTRNLVA_SEL1"
  "map_of (table_of MSVC) nm_NTRNLVA_SEL2 = Some NTRNLVA_SEL2"
  "map_of (table_of MSVC) nm_NTRNLVA_SEL3 = Some NTRNLVA_SEL3"
  "map_of (table_of MSVC) nm_NTRNLVA_EMPTY = Some NTRNLVA_EMPTY"
  "map_of (table_of MSVC) nm_NTRNLVA_CAT = Some NTRNLVA_CAT"
  "map_of (table_of MSVC) nm_NTRNLVA_PRIMITIVE_CAT = Some NTRNLVA_PRIMITIVE_CAT"
  "map_of (table_of MSVC) nm_NTRNLVA_AND = Some NTRNLVA_AND"
  "map_of (table_of MSVC) nm_NTRNLVA_AND_0 = Some NTRNLVA_AND_0"
  "map_of (table_of MSVC) nm_NTRNLVA_AND_1 = Some NTRNLVA_AND_1"
  "map_of (table_of MSVC) nm_NTRNLVA_CHECK_N = Some NTRNLVA_CHECK_N"
  "map_of (table_of MSVC) nm_NTRNLVA_CHECK = Some NTRNLVA_CHECK"
  "map_of (table_of MSVC) nm_NTRNLVA_PROBE = Some NTRNLVA_PROBE"
  "map_of (table_of MSVC) nm_NTRNLVA_IS_PAREN = Some NTRNLVA_IS_PAREN"
  "map_of (table_of MSVC) nm_NTRNLVA_IS_PAREN_PROBE = Some NTRNLVA_IS_PAREN_PROBE"
  "map_of (table_of MSVC) nm_NTRNLVA_COMPL = Some NTRNLVA_COMPL"
  "map_of (table_of MSVC) nm_NTRNLVA_COMPL_0 = Some NTRNLVA_COMPL_0"
  "map_of (table_of MSVC) nm_NTRNLVA_COMPL_1 = Some NTRNLVA_COMPL_1"
  "map_of (table_of MSVC) nm_NTRNLVA_UP_I = Some NTRNLVA_UP_I"
  "map_of (table_of MSVC) nm_NTRNLVA_UP = Some NTRNLVA_UP"
  "map_of (table_of MSVC) nm_NTRNLVA_SENTINEL_' = Some NTRNLVA_SENTINEL_'"
  "map_of (table_of MSVC) nm_NTRNLVA_IS_SENTINEL2 = Some NTRNLVA_IS_SENTINEL2"
  "map_of (table_of MSVC) nm_NTRNLVA_IS_SENTINEL1 = Some NTRNLVA_IS_SENTINEL1"
  "map_of (table_of MSVC) nm_NTRNLVA_IS_SENTINEL = Some NTRNLVA_IS_SENTINEL"
  "map_of (table_of MSVC) nm_NTRNLVA_CHECK_SENTINEL = Some NTRNLVA_CHECK_SENTINEL"
  "map_of (table_of MSVC) nm_NTRNLVA_OPT_IMPL = Some NTRNLVA_OPT_IMPL"
  "map_of (table_of MSVC) nm_NTRNLVA_OPT_IMPL_0 = Some NTRNLVA_OPT_IMPL_0"
  "map_of (table_of MSVC) nm_NTRNLVA_OPT_IMPL_1 = Some NTRNLVA_OPT_IMPL_1"
  "map_of (table_of MSVC) nm_VA_NOPT = Some VA_NOPT"
  "map_of (table_of MSVC) nm_EATER0 = Some EATER0"
  "map_of (table_of MSVC) nm_EATER1 = Some EATER1"
  "map_of (table_of MSVC) nm_EATER2 = Some EATER2"
  "map_of (table_of MSVC) nm_EATER3 = Some EATER3"
  "map_of (table_of MSVC) nm_EATER4 = Some EATER4"
  "map_of (table_of MSVC) nm_EATER5 = Some EATER5"
  "map_of (table_of MSVC) nm_MAC0 = Some MAC0"
  "map_of (table_of MSVC) nm_MAC1 = Some MAC1"
  "map_of (table_of MSVC) nm_MACV = Some MACV"
  "map_of (table_of MSVC) nm_MACMANYPLUS = Some MACMANYPLUS"
  "map_of (table_of MSVC) nm_MAC2 = Some MAC2"
  by (simp_all add: table_msvc neq_by_code name_codes)

lemma miss_msvc:
  "map_of (table_of MSVC) nm_NTRNLVA_ISEMPTY_I0 = None"
  "map_of (table_of MSVC) nm_NTRNLVA_ISEMPTY_I01 = None"
  "map_of (table_of MSVC) nm_NTRNLVA_NOTEMPTY_I0 = None"
  "map_of (table_of MSVC) nm_NTRNLVA_NOTEMPTY_I01 = None"
  "map_of (table_of MSVC) nm_NTRNLVA_NOTEMPTY_I = None"
  "map_of (table_of MSVC) nm_NTRNLVA_OPT_I = None"
  "map_of (table_of MSVC) nm_NTRNLVA_HAS_COMMA = None"
  "map_of (table_of MSVC) nm_NTRNLVA_TRIGGER_PARENTHESIS_' = None"
  "map_of (table_of MSVC) nm_NTRNLVA_ISEMPTY_BASE = None"
  "map_of (table_of MSVC) nm_NTRNLVA_PASTE5 = None"
  "map_of (table_of MSVC) nm_NTRNLVA_ISEMPTY_BASE_I = None"
  "map_of (table_of MSVC) nm_NTRNLVA_IS_EMPTY_CASE_0001 = None"
  "map_of (table_of MSVC) nm_NTRNLVA_AND_' = None"
  "map_of (table_of MSVC) nm_NTRNLVA_COMPL_' = None"
  "map_of (table_of MSVC) nm_NTRNLVA_OPT_IMPL_' = None"
  "map_of (table_of MSVC) nm_NTRNLVA_IS_EMPTY_CASE_' = None"
  "map_of (table_of MSVC) ''a'' = None"
  "map_of (table_of MSVC) ''b'' = None"
  "map_of (table_of MSVC) ''c'' = None"
  "map_of (table_of MSVC) ''d'' = None"
  "map_of (table_of MSVC) ''e'' = None"
  "map_of (table_of MSVC) ''x'' = None"
  "map_of (table_of MSVC) ''y'' = None"
  "map_of (table_of MSVC) ''n'' = None"
  "map_of (table_of MSVC) ''opt'' = None"
  "map_of (table_of MSVC) ''args'' = None"
  "map_of (table_of MSVC) ''_0'' = None"
  "map_of (table_of MSVC) ''_1'' = None"
  "map_of (table_of MSVC) ''_2'' = None"
  "map_of (table_of MSVC) ''_3'' = None"
  "map_of (table_of MSVC) ''_4'' = None"
  "map_of (table_of MSVC) ''__VA_ARGS__'' = None"
  "map_of (table_of MSVC) ''__VA_OPT__'' = None"
  "map_of (table_of MSVC) ''void'' = None"
  "map_of (table_of MSVC) ''whatever'' = None"
  "map_of (table_of MSVC) ''int'' = None"
  "map_of (table_of MSVC) ''long'' = None"
  by (simp_all add: table_msvc neq_by_code name_codes)

lemma table_c99:
  "table_of C99 =
    [(nm_NTRNLVA_IMPL, NTRNLVA_IMPL_c99), (nm_NTRNLVA_ISEMPTY_I, NTRNLVA_ISEMPTY_I_c99),
     (nm_VA_ISEMPTY, VA_ISEMPTY_c99), (nm_VA_NOTEMPTY, VA_NOTEMPTY_c99),
     (nm_NTRNLVA_HAS_COMMA, NTRNLVA_HAS_COMMA_c99),
     (nm_NTRNLVA_TRIGGER_PARENTHESIS_', NTRNLVA_TRIGGER_PARENTHESIS__c99),
     (nm_NTRNLVA_ISEMPTY_BASE, NTRNLVA_ISEMPTY_BASE_c99),
     (nm_NTRNLVA_PASTE5, NTRNLVA_PASTE5_c99),
     (nm_NTRNLVA_ISEMPTY_BASE_I, NTRNLVA_ISEMPTY_BASE_I_c99),
     (nm_NTRNLVA_IS_EMPTY_CASE_0001, NTRNLVA_IS_EMPTY_CASE_0001_c99), (nm_VA_OPT, VA_OPT_c99),
     (nm_VA_OPT_H, VA_OPT_H), (nm_VA_OPT_H_VERSION, VA_OPT_H_VERSION),
     (nm_NTRNLVA_IMPL_NATIVE, NTRNLVA_IMPL_NATIVE), (nm_NTRNLVA_IMPL_GNU, NTRNLVA_IMPL_GNU),
     (nm_NTRNLVA_IMPL_MSVC, NTRNLVA_IMPL_MSVC), (nm_NTRNLVA_IMPL_C99, NTRNLVA_IMPL_C99),
     (nm_NTRNLVA_EXPAND, NTRNLVA_EXPAND),
     (nm_NTRNLVA_OPT_SUPPORTED_I, NTRNLVA_OPT_SUPPORTED_I),
     (nm_VA_OPT_SUPPORTED, VA_OPT_SUPPORTED),
     (nm_NTRNLVA_MSVC_TRADITIONAL, NTRNLVA_MSVC_TRADITIONAL),
     (nm_NTRNLVA_SEL1_I, NTRNLVA_SEL1_I), (nm_NTRNLVA_SEL2_I, NTRNLVA_SEL2_I),
     (nm_NTRNLVA_SEL3_I, NTRNLVA_SEL3_I), (nm_NTRNLVA_SEL1, NTRNLVA_SEL1),
     (nm_NTRNLVA_SEL2, NTRNLVA_SEL2), (nm_NTRNLVA_SEL3, NTRNLVA_SEL3),
     (nm_NTRNLVA_EMPTY, NTRNLVA_EMPTY), (nm_NTRNLVA_CAT, NTRNLVA_CAT),
     (nm_NTRNLVA_PRIMITIVE_CAT, NTRNLVA_PRIMITIVE_CAT), (nm_NTRNLVA_AND, NTRNLVA_AND),
     (nm_NTRNLVA_AND_0, NTRNLVA_AND_0), (nm_NTRNLVA_AND_1, NTRNLVA_AND_1),
     (nm_NTRNLVA_CHECK_N, NTRNLVA_CHECK_N), (nm_NTRNLVA_CHECK, NTRNLVA_CHECK),
     (nm_NTRNLVA_PROBE, NTRNLVA_PROBE), (nm_NTRNLVA_IS_PAREN, NTRNLVA_IS_PAREN),
     (nm_NTRNLVA_IS_PAREN_PROBE, NTRNLVA_IS_PAREN_PROBE), (nm_NTRNLVA_COMPL, NTRNLVA_COMPL),
     (nm_NTRNLVA_COMPL_0, NTRNLVA_COMPL_0), (nm_NTRNLVA_COMPL_1, NTRNLVA_COMPL_1),
     (nm_NTRNLVA_UP_I, NTRNLVA_UP_I), (nm_NTRNLVA_UP, NTRNLVA_UP),
     (nm_NTRNLVA_SENTINEL_', NTRNLVA_SENTINEL_'),
     (nm_NTRNLVA_IS_SENTINEL2, NTRNLVA_IS_SENTINEL2),
     (nm_NTRNLVA_IS_SENTINEL1, NTRNLVA_IS_SENTINEL1),
     (nm_NTRNLVA_IS_SENTINEL, NTRNLVA_IS_SENTINEL),
     (nm_NTRNLVA_CHECK_SENTINEL, NTRNLVA_CHECK_SENTINEL),
     (nm_NTRNLVA_OPT_IMPL, NTRNLVA_OPT_IMPL), (nm_NTRNLVA_OPT_IMPL_0, NTRNLVA_OPT_IMPL_0),
     (nm_NTRNLVA_OPT_IMPL_1, NTRNLVA_OPT_IMPL_1), (nm_VA_NOPT, VA_NOPT), (nm_EATER0, EATER0),
     (nm_EATER1, EATER1), (nm_EATER2, EATER2), (nm_EATER3, EATER3), (nm_EATER4, EATER4),
     (nm_EATER5, EATER5), (nm_MAC0, MAC0), (nm_MAC1, MAC1), (nm_MACV, MACV),
     (nm_MACMANYPLUS, MACMANYPLUS), (nm_MAC2, MAC2)]"
  by (simp add: table_of_def c99_macros_def common_macros_def test_macros_def name_defs)

lemma lookup_c99:
  "map_of (table_of C99) nm_NTRNLVA_IMPL = Some NTRNLVA_IMPL_c99"
  "map_of (table_of C99) nm_NTRNLVA_ISEMPTY_I = Some NTRNLVA_ISEMPTY_I_c99"
  "map_of (table_of C99) nm_VA_ISEMPTY = Some VA_ISEMPTY_c99"
  "map_of (table_of C99) nm_VA_NOTEMPTY = Some VA_NOTEMPTY_c99"
  "map_of (table_of C99) nm_NTRNLVA_HAS_COMMA = Some NTRNLVA_HAS_COMMA_c99"
  "map_of (table_of C99) nm_NTRNLVA_TRIGGER_PARENTHESIS_' = Some NTRNLVA_TRIGGER_PARENTHESIS__c99"
  "map_of (table_of C99) nm_NTRNLVA_ISEMPTY_BASE = Some NTRNLVA_ISEMPTY_BASE_c99"
  "map_of (table_of C99) nm_NTRNLVA_PASTE5 = Some NTRNLVA_PASTE5_c99"
  "map_of (table_of C99) nm_NTRNLVA_ISEMPTY_BASE_I = Some NTRNLVA_ISEMPTY_BASE_I_c99"
  "map_of (table_of C99) nm_NTRNLVA_IS_EMPTY_CASE_0001 = Some NTRNLVA_IS_EMPTY_CASE_0001_c99"
  "map_of (table_of C99) nm_VA_OPT = Some VA_OPT_c99"
  "map_of (table_of C99) nm_VA_OPT_H = Some VA_OPT_H"
  "map_of (table_of C99) nm_VA_OPT_H_VERSION = Some VA_OPT_H_VERSION"
  "map_of (table_of C99) nm_NTRNLVA_IMPL_NATIVE = Some NTRNLVA_IMPL_NATIVE"
  "map_of (table_of C99) nm_NTRNLVA_IMPL_GNU = Some NTRNLVA_IMPL_GNU"
  "map_of (table_of C99) nm_NTRNLVA_IMPL_MSVC = Some NTRNLVA_IMPL_MSVC"
  "map_of (table_of C99) nm_NTRNLVA_IMPL_C99 = Some NTRNLVA_IMPL_C99"
  "map_of (table_of C99) nm_NTRNLVA_EXPAND = Some NTRNLVA_EXPAND"
  "map_of (table_of C99) nm_NTRNLVA_OPT_SUPPORTED_I = Some NTRNLVA_OPT_SUPPORTED_I"
  "map_of (table_of C99) nm_VA_OPT_SUPPORTED = Some VA_OPT_SUPPORTED"
  "map_of (table_of C99) nm_NTRNLVA_MSVC_TRADITIONAL = Some NTRNLVA_MSVC_TRADITIONAL"
  "map_of (table_of C99) nm_NTRNLVA_SEL1_I = Some NTRNLVA_SEL1_I"
  "map_of (table_of C99) nm_NTRNLVA_SEL2_I = Some NTRNLVA_SEL2_I"
  "map_of (table_of C99) nm_NTRNLVA_SEL3_I = Some NTRNLVA_SEL3_I"
  "map_of (table_of C99) nm_NTRNLVA_SEL1 = Some NTRNLVA_SEL1"
  "map_of (table_of C99) nm_NTRNLVA_SEL2 = Some NTRNLVA_SEL2"
  "map_of (table_of C99) nm_NTRNLVA_SEL3 = Some NTRNLVA_SEL3"
  "map_of (table_of C99) nm_NTRNLVA_EMPTY = Some NTRNLVA_EMPTY"
  "map_of (table_of C99) nm_NTRNLVA_CAT = Some NTRNLVA_CAT"
  "map_of (table_of C99) nm_NTRNLVA_PRIMITIVE_CAT = Some NTRNLVA_PRIMITIVE_CAT"
  "map_of (table_of C99) nm_NTRNLVA_AND = Some NTRNLVA_AND"
  "map_of (table_of C99) nm_NTRNLVA_AND_0 = Some NTRNLVA_AND_0"
  "map_of (table_of C99) nm_NTRNLVA_AND_1 = Some NTRNLVA_AND_1"
  "map_of (table_of C99) nm_NTRNLVA_CHECK_N = Some NTRNLVA_CHECK_N"
  "map_of (table_of C99) nm_NTRNLVA_CHECK = Some NTRNLVA_CHECK"
  "map_of (table_of C99) nm_NTRNLVA_PROBE = Some NTRNLVA_PROBE"
  "map_of (table_of C99) nm_NTRNLVA_IS_PAREN = Some NTRNLVA_IS_PAREN"
  "map_of (table_of C99) nm_NTRNLVA_IS_PAREN_PROBE = Some NTRNLVA_IS_PAREN_PROBE"
  "map_of (table_of C99) nm_NTRNLVA_COMPL = Some NTRNLVA_COMPL"
  "map_of (table_of C99) nm_NTRNLVA_COMPL_0 = Some NTRNLVA_COMPL_0"
  "map_of (table_of C99) nm_NTRNLVA_COMPL_1 = Some NTRNLVA_COMPL_1"
  "map_of (table_of C99) nm_NTRNLVA_UP_I = Some NTRNLVA_UP_I"
  "map_of (table_of C99) nm_NTRNLVA_UP = Some NTRNLVA_UP"
  "map_of (table_of C99) nm_NTRNLVA_SENTINEL_' = Some NTRNLVA_SENTINEL_'"
  "map_of (table_of C99) nm_NTRNLVA_IS_SENTINEL2 = Some NTRNLVA_IS_SENTINEL2"
  "map_of (table_of C99) nm_NTRNLVA_IS_SENTINEL1 = Some NTRNLVA_IS_SENTINEL1"
  "map_of (table_of C99) nm_NTRNLVA_IS_SENTINEL = Some NTRNLVA_IS_SENTINEL"
  "map_of (table_of C99) nm_NTRNLVA_CHECK_SENTINEL = Some NTRNLVA_CHECK_SENTINEL"
  "map_of (table_of C99) nm_NTRNLVA_OPT_IMPL = Some NTRNLVA_OPT_IMPL"
  "map_of (table_of C99) nm_NTRNLVA_OPT_IMPL_0 = Some NTRNLVA_OPT_IMPL_0"
  "map_of (table_of C99) nm_NTRNLVA_OPT_IMPL_1 = Some NTRNLVA_OPT_IMPL_1"
  "map_of (table_of C99) nm_VA_NOPT = Some VA_NOPT"
  "map_of (table_of C99) nm_EATER0 = Some EATER0"
  "map_of (table_of C99) nm_EATER1 = Some EATER1"
  "map_of (table_of C99) nm_EATER2 = Some EATER2"
  "map_of (table_of C99) nm_EATER3 = Some EATER3"
  "map_of (table_of C99) nm_EATER4 = Some EATER4"
  "map_of (table_of C99) nm_EATER5 = Some EATER5"
  "map_of (table_of C99) nm_MAC0 = Some MAC0"
  "map_of (table_of C99) nm_MAC1 = Some MAC1"
  "map_of (table_of C99) nm_MACV = Some MACV"
  "map_of (table_of C99) nm_MACMANYPLUS = Some MACMANYPLUS"
  "map_of (table_of C99) nm_MAC2 = Some MAC2"
  by (simp_all add: table_c99 neq_by_code name_codes)

lemma miss_c99:
  "map_of (table_of C99) nm_NTRNLVA_ISEMPTY_I0 = None"
  "map_of (table_of C99) nm_NTRNLVA_ISEMPTY_I01 = None"
  "map_of (table_of C99) nm_NTRNLVA_NOTEMPTY_I0 = None"
  "map_of (table_of C99) nm_NTRNLVA_NOTEMPTY_I01 = None"
  "map_of (table_of C99) nm_NTRNLVA_NOTEMPTY_I = None"
  "map_of (table_of C99) nm_NTRNLVA_OPT_I = None"
  "map_of (table_of C99) nm_NTRNLVA_ISEMPTY_INDIRECT = None"
  "map_of (table_of C99) nm_NTRNLVA_AND_' = None"
  "map_of (table_of C99) nm_NTRNLVA_COMPL_' = None"
  "map_of (table_of C99) nm_NTRNLVA_OPT_IMPL_' = None"
  "map_of (table_of C99) nm_NTRNLVA_IS_EMPTY_CASE_' = None"
  "map_of (table_of C99) ''a'' = None"
  "map_of (table_of C99) ''b'' = None"
  "map_of (table_of C99) ''c'' = None"
  "map_of (table_of C99) ''d'' = None"
  "map_of (table_of C99) ''e'' = None"
  "map_of (table_of C99) ''x'' = None"
  "map_of (table_of C99) ''y'' = None"
  "map_of (table_of C99) ''n'' = None"
  "map_of (table_of C99) ''opt'' = None"
  "map_of (table_of C99) ''args'' = None"
  "map_of (table_of C99) ''_0'' = None"
  "map_of (table_of C99) ''_1'' = None"
  "map_of (table_of C99) ''_2'' = None"
  "map_of (table_of C99) ''_3'' = None"
  "map_of (table_of C99) ''_4'' = None"
  "map_of (table_of C99) ''__VA_ARGS__'' = None"
  "map_of (table_of C99) ''__VA_OPT__'' = None"
  "map_of (table_of C99) ''void'' = None"
  "map_of (table_of C99) ''whatever'' = None"
  "map_of (table_of C99) ''int'' = None"
  "map_of (table_of C99) ''long'' = None"
  by (simp_all add: table_c99 neq_by_code name_codes)

lemma seq_cons:
  "(case (case x of Inl e \<Rightarrow> Inl e | Inr a \<Rightarrow> g a) of Inl e \<Rightarrow> Inl e | Inr b \<Rightarrow> f b) =
     (case x of Inl e \<Rightarrow> Inl e
      | Inr a \<Rightarrow> (case g a of Inl e \<Rightarrow> Inl e | Inr b \<Rightarrow> f b))"
  by (simp split: sum.splits)

lemmas call_defs = function_call_def bind_args_def needs_expansion_def paste_op_def va_args_def
  va_opt_def

lemma expand_Ident:
  "expand tbl n ((Ident nm, hs) # ts) =
     (case map_of tbl nm of
        None \<Rightarrow> cons_res (Ident nm, hs) (expand tbl n ts)
      | Some M \<Rightarrow> call_macro tbl n nm hs M ts)"
  by (simp add: macro_call_def call_macro_def split: option.splits macro.splits)

lemma expand_other:
  "expand tbl n ((LParen, hs) # ts) = cons_res (LParen, hs) (expand tbl n ts)"
  "expand tbl n ((RParen, hs) # ts) = cons_res (RParen, hs) (expand tbl n ts)"
  "expand tbl n ((Comma, hs) # ts) = cons_res (Comma, hs) (expand tbl n ts)"
  "expand tbl n ((Number d, hs) # ts) = cons_res (Number d, hs) (expand tbl n ts)"
  "expand tbl n ((StrLit s, hs) # ts) = cons_res (StrLit s, hs) (expand tbl n ts)"
  "expand tbl n ((Punct p, hs) # ts) = cons_res (Punct p, hs) (expand tbl n ts)"
  by (simp_all add: macro_call_def)

lemma expand_Nil: "expand tbl n [] = Inr []"
  by simp

declare expand.simps [simp del]

lemmas step_defs = function_call_def bind_args_def replace_def needs_expansion_def
  va_nonempty_def cons_res_def param_def gnu_comma_def paste_op_def va_args_def va_opt_def plain_def

lemma call_VA_OPT_H:
  "call_macro tbl n nm hs VA_OPT_H ts =
     (if nm \<in> set hs then cons_res (Ident nm, hs) (expand tbl n ts)
      else case n of 0 \<Rightarrow> Inl OutOfFuel
           | Suc m \<Rightarrow> expand tbl m (hsadd (nm # hs) [] @ ts))"
  by (simp add: call_macro_def step_defs hsadd_def VA_OPT_H_def name_defs split: nat.splits)

lemma call_VA_OPT_H_VERSION:
  "call_macro tbl n nm hs VA_OPT_H_VERSION ts =
     (if nm \<in> set hs then cons_res (Ident nm, hs) (expand tbl n ts)
      else case n of 0 \<Rightarrow> Inl OutOfFuel
           | Suc m \<Rightarrow> expand tbl m (hsadd (nm # hs) [(Number ''20251227'', [])] @ ts))"
  by (simp add: call_macro_def step_defs hsadd_def VA_OPT_H_VERSION_def name_defs split: nat.splits)

lemma call_NTRNLVA_IMPL_NATIVE:
  "call_macro tbl n nm hs NTRNLVA_IMPL_NATIVE ts =
     (if nm \<in> set hs then cons_res (Ident nm, hs) (expand tbl n ts)
      else case n of 0 \<Rightarrow> Inl OutOfFuel
           | Suc m \<Rightarrow> expand tbl m (hsadd (nm # hs) [(Number ''1'', [])] @ ts))"
  by (simp add: call_macro_def step_defs hsadd_def NTRNLVA_IMPL_NATIVE_def name_defs split: nat.splits)

lemma call_NTRNLVA_IMPL_GNU:
  "call_macro tbl n nm hs NTRNLVA_IMPL_GNU ts =
     (if nm \<in> set hs then cons_res (Ident nm, hs) (expand tbl n ts)
      else case n of 0 \<Rightarrow> Inl OutOfFuel
           | Suc m \<Rightarrow> expand tbl m (hsadd (nm # hs) [(Number ''2'', [])] @ ts))"
  by (simp add: call_macro_def step_defs hsadd_def NTRNLVA_IMPL_GNU_def name_defs split: nat.splits)

lemma call_NTRNLVA_IMPL_MSVC:
  "call_macro tbl n nm hs NTRNLVA_IMPL_MSVC ts =
     (if nm \<in> set hs then cons_res (Ident nm, hs) (expand tbl n ts)
      else case n of 0 \<Rightarrow> Inl OutOfFuel
           | Suc m \<Rightarrow> expand tbl m (hsadd (nm # hs) [(Number ''3'', [])] @ ts))"
  by (simp add: call_macro_def step_defs hsadd_def NTRNLVA_IMPL_MSVC_def name_defs split: nat.splits)

lemma call_NTRNLVA_IMPL_C99:
  "call_macro tbl n nm hs NTRNLVA_IMPL_C99 ts =
     (if nm \<in> set hs then cons_res (Ident nm, hs) (expand tbl n ts)
      else case n of 0 \<Rightarrow> Inl OutOfFuel
           | Suc m \<Rightarrow> expand tbl m (hsadd (nm # hs) [(Number ''4'', [])] @ ts))"
  by (simp add: call_macro_def step_defs hsadd_def NTRNLVA_IMPL_C99_def name_defs split: nat.splits)

lemma call_NTRNLVA_EXPAND:
  "call_macro tbl n nm hs NTRNLVA_EXPAND ts =
     (if nm \<in> set hs \<or> \<not> starts_lparen ts then cons_res (Ident nm, hs) (expand tbl n ts)
      else case close_paren 0 (tl ts) of
             None \<Rightarrow> Inl (Unterminated nm)
           | Some (inside, h', rest) \<Rightarrow>
               (case n of 0 \<Rightarrow> Inl OutOfFuel | Suc m \<Rightarrow>
 (case expand tbl m (inside) of Inl e \<Rightarrow> Inl e
 | Inr xva \<Rightarrow> expand tbl m (hsadd (nm # hsinter hs h') (xva) @ rest))))"
  by (cases ts) (auto simp: call_macro_def starts_lparen_def call_defs step_defs seq_cons name_defs NTRNLVA_EXPAND_def
      split: option.splits list.splits nat.splits cong: sum.case_cong)

lemma call_NTRNLVA_OPT_SUPPORTED_I:
  "call_macro tbl n nm hs NTRNLVA_OPT_SUPPORTED_I ts =
     (if nm \<in> set hs \<or> \<not> starts_lparen ts then cons_res (Ident nm, hs) (expand tbl n ts)
      else case close_paren 0 (tl ts) of
             None \<Rightarrow> Inl (Unterminated nm)
           | Some (inside, h', rest) \<Rightarrow>
               (case n of 0 \<Rightarrow> Inl OutOfFuel | Suc m \<Rightarrow>
 (case expand tbl m (inside) of Inl e \<Rightarrow> Inl e
 | Inr xva \<Rightarrow> (case replace [Ident nm_NTRNLVA_SEL3, LParen, Ident ''__VA_OPT__'', LParen, Comma, RParen, Comma, Number ''1'', Comma, Number ''0'', Comma, RParen]
 [(''__VA_ARGS__'', inside, xva)]
 (length (split_args 0 inside) \<le> 0 \<or> inside = []) of Inl e \<Rightarrow> Inl e
 | Inr os \<Rightarrow> expand tbl m (hsadd (nm # hsinter hs h') os @ rest)))))"
  by (cases ts) (auto simp: call_macro_def starts_lparen_def call_defs seq_cons name_defs NTRNLVA_OPT_SUPPORTED_I_def
      split: option.splits list.splits nat.splits cong: sum.case_cong)

lemma call_VA_OPT_SUPPORTED:
  "call_macro tbl n nm hs VA_OPT_SUPPORTED ts =
     (if nm \<in> set hs then cons_res (Ident nm, hs) (expand tbl n ts)
      else case n of 0 \<Rightarrow> Inl OutOfFuel
           | Suc m \<Rightarrow> expand tbl m (hsadd (nm # hs) [(Ident nm_NTRNLVA_OPT_SUPPORTED_I, []), (LParen, []), (Punct ''?'', []), (RParen, [])] @ ts))"
  by (simp add: call_macro_def step_defs hsadd_def VA_OPT_SUPPORTED_def name_defs split: nat.splits)

lemma call_NTRNLVA_MSVC_TRADITIONAL:
  "call_macro tbl n nm hs NTRNLVA_MSVC_TRADITIONAL ts =
     (if nm \<in> set hs then cons_res (Ident nm, hs) (expand tbl n ts)
      else case n of 0 \<Rightarrow> Inl OutOfFuel
           | Suc m \<Rightarrow> expand tbl m (hsadd (nm # hs) [(Number ''0'', [])] @ ts))"
  by (simp add: call_macro_def step_defs hsadd_def NTRNLVA_MSVC_TRADITIONAL_def name_defs split: nat.splits)

lemma call_NTRNLVA_SEL1_I:
  "call_macro tbl n nm hs NTRNLVA_SEL1_I ts =
     (if nm \<in> set hs \<or> \<not> starts_lparen ts then cons_res (Ident nm, hs) (expand tbl n ts)
      else case close_paren 0 (tl ts) of
             None \<Rightarrow> Inl (Unterminated nm)
           | Some (inside, h', rest) \<Rightarrow>
               (case split_args 0 inside of p0 # more \<Rightarrow> (case n of 0 \<Rightarrow> Inl OutOfFuel | Suc m \<Rightarrow>
 (case expand tbl m (p0) of Inl e \<Rightarrow> Inl e
 | Inr x0 \<Rightarrow> expand tbl m (hsadd (nm # hsinter hs h') (x0) @ rest)))
 | _ \<Rightarrow> Inl (WrongArgCount nm)))"
  by (cases ts) (auto simp: call_macro_def starts_lparen_def call_defs step_defs seq_cons name_defs NTRNLVA_SEL1_I_def
      split: option.splits list.splits nat.splits cong: sum.case_cong)

lemma call_NTRNLVA_SEL2_I:
  "call_macro tbl n nm hs NTRNLVA_SEL2_I ts =
     (if nm \<in> set hs \<or> \<not> starts_lparen ts then cons_res (Ident nm, hs) (expand tbl n ts)
      else case close_paren 0 (tl ts) of
             None \<Rightarrow> Inl (Unterminated nm)
           | Some (inside, h', rest) \<Rightarrow>
               (case split_args 0 inside of p0 # p1 # more \<Rightarrow> (case n of 0 \<Rightarrow> Inl OutOfFuel | Suc m \<Rightarrow>
 (case expand tbl m (p1) of Inl e \<Rightarrow> Inl e
 | Inr x1 \<Rightarrow> expand tbl m (hsadd (nm # hsinter hs h') (x1) @ rest)))
 | _ \<Rightarrow> Inl (WrongArgCount nm)))"
  by (cases ts) (auto simp: call_macro_def starts_lparen_def call_defs step_defs seq_cons name_defs NTRNLVA_SEL2_I_def
      split: option.splits list.splits nat.splits cong: sum.case_cong)

lemma call_NTRNLVA_SEL3_I:
  "call_macro tbl n nm hs NTRNLVA_SEL3_I ts =
     (if nm \<in> set hs \<or> \<not> starts_lparen ts then cons_res (Ident nm, hs) (expand tbl n ts)
      else case close_paren 0 (tl ts) of
             None \<Rightarrow> Inl (Unterminated nm)
           | Some (inside, h', rest) \<Rightarrow>
               (case split_args 0 inside of p0 # p1 # p2 # more \<Rightarrow> (case n of 0 \<Rightarrow> Inl OutOfFuel | Suc m \<Rightarrow>
 (case expand tbl m (p2) of Inl e \<Rightarrow> Inl e
 | Inr x2 \<Rightarrow> expand tbl m (hsadd (nm # hsinter hs h') (x2) @ rest)))
 | _ \<Rightarrow> Inl (WrongArgCount nm)))"
  by (cases ts) (auto simp: call_macro_def starts_lparen_def call_defs step_defs seq_cons name_defs NTRNLVA_SEL3_I_def
      split: option.splits list.splits nat.splits cong: sum.case_cong)

lemma call_NTRNLVA_SEL1:
  "call_macro tbl n nm hs NTRNLVA_SEL1 ts =
     (if nm \<in> set hs \<or> \<not> starts_lparen ts then cons_res (Ident nm, hs) (expand tbl n ts)
      else case close_paren 0 (tl ts) of
             None \<Rightarrow> Inl (Unterminated nm)
           | Some (inside, h', rest) \<Rightarrow>
               (case n of 0 \<Rightarrow> Inl OutOfFuel | Suc m \<Rightarrow>
 (case expand tbl m (inside) of Inl e \<Rightarrow> Inl e
 | Inr xva \<Rightarrow> expand tbl m (hsadd (nm # hsinter hs h') ([(Ident nm_NTRNLVA_SEL1_I, []), (LParen, [])] @ xva @ [(RParen, [])]) @ rest))))"
  by (cases ts) (auto simp: call_macro_def starts_lparen_def call_defs step_defs seq_cons name_defs NTRNLVA_SEL1_def
      split: option.splits list.splits nat.splits cong: sum.case_cong)

lemma call_NTRNLVA_SEL2:
  "call_macro tbl n nm hs NTRNLVA_SEL2 ts =
     (if nm \<in> set hs \<or> \<not> starts_lparen ts then cons_res (Ident nm, hs) (expand tbl n ts)
      else case close_paren 0 (tl ts) of
             None \<Rightarrow> Inl (Unterminated nm)
           | Some (inside, h', rest) \<Rightarrow>
               (case n of 0 \<Rightarrow> Inl OutOfFuel | Suc m \<Rightarrow>
 (case expand tbl m (inside) of Inl e \<Rightarrow> Inl e
 | Inr xva \<Rightarrow> expand tbl m (hsadd (nm # hsinter hs h') ([(Ident nm_NTRNLVA_SEL2_I, []), (LParen, [])] @ xva @ [(RParen, [])]) @ rest))))"
  by (cases ts) (auto simp: call_macro_def starts_lparen_def call_defs step_defs seq_cons name_defs NTRNLVA_SEL2_def
      split: option.splits list.splits nat.splits cong: sum.case_cong)

lemma call_NTRNLVA_SEL3:
  "call_macro tbl n nm hs NTRNLVA_SEL3 ts =
     (if nm \<in> set hs \<or> \<not> starts_lparen ts then cons_res (Ident nm, hs) (expand tbl n ts)
      else case close_paren 0 (tl ts) of
             None \<Rightarrow> Inl (Unterminated nm)
           | Some (inside, h', rest) \<Rightarrow>
               (case n of 0 \<Rightarrow> Inl OutOfFuel | Suc m \<Rightarrow>
 (case expand tbl m (inside) of Inl e \<Rightarrow> Inl e
 | Inr xva \<Rightarrow> expand tbl m (hsadd (nm # hsinter hs h') ([(Ident nm_NTRNLVA_SEL3_I, []), (LParen, [])] @ xva @ [(RParen, [])]) @ rest))))"
  by (cases ts) (auto simp: call_macro_def starts_lparen_def call_defs step_defs seq_cons name_defs NTRNLVA_SEL3_def
      split: option.splits list.splits nat.splits cong: sum.case_cong)

lemma call_NTRNLVA_EMPTY:
  "call_macro tbl n nm hs NTRNLVA_EMPTY ts =
     (if nm \<in> set hs \<or> \<not> starts_lparen ts then cons_res (Ident nm, hs) (expand tbl n ts)
      else case close_paren 0 (tl ts) of
             None \<Rightarrow> Inl (Unterminated nm)
           | Some (inside, h', rest) \<Rightarrow>
               (case n of 0 \<Rightarrow> Inl OutOfFuel | Suc m \<Rightarrow>
 expand tbl m (hsadd (nm # hsinter hs h') ([]) @ rest)))"
  by (cases ts) (auto simp: call_macro_def starts_lparen_def call_defs step_defs seq_cons name_defs NTRNLVA_EMPTY_def
      split: option.splits list.splits nat.splits cong: sum.case_cong)

lemma call_NTRNLVA_CAT:
  "call_macro tbl n nm hs NTRNLVA_CAT ts =
     (if nm \<in> set hs \<or> \<not> starts_lparen ts then cons_res (Ident nm, hs) (expand tbl n ts)
      else case close_paren 0 (tl ts) of
             None \<Rightarrow> Inl (Unterminated nm)
           | Some (inside, h', rest) \<Rightarrow>
               (case split_args 0 inside of p0 # more \<Rightarrow> (case n of 0 \<Rightarrow> Inl OutOfFuel | Suc m \<Rightarrow>
 (case expand tbl m (p0) of Inl e \<Rightarrow> Inl e
 | Inr x0 \<Rightarrow> (case expand tbl m (drop_args 1 0 inside) of Inl e \<Rightarrow> Inl e
 | Inr xva \<Rightarrow> expand tbl m (hsadd (nm # hsinter hs h') ([(Ident nm_NTRNLVA_PRIMITIVE_CAT, []), (LParen, [])] @ x0 @ [(Comma, [])] @ xva @ [(RParen, [])]) @ rest))))
 | _ \<Rightarrow> Inl (WrongArgCount nm)))"
  by (cases ts) (auto simp: call_macro_def starts_lparen_def call_defs step_defs seq_cons name_defs NTRNLVA_CAT_def
      split: option.splits list.splits nat.splits cong: sum.case_cong)

lemma call_NTRNLVA_PRIMITIVE_CAT:
  "call_macro tbl n nm hs NTRNLVA_PRIMITIVE_CAT ts =
     (if nm \<in> set hs \<or> \<not> starts_lparen ts then cons_res (Ident nm, hs) (expand tbl n ts)
      else case close_paren 0 (tl ts) of
             None \<Rightarrow> Inl (Unterminated nm)
           | Some (inside, h', rest) \<Rightarrow>
               (case split_args 0 inside of p0 # more \<Rightarrow> (case n of 0 \<Rightarrow> Inl OutOfFuel | Suc m \<Rightarrow>
 (case replace [Ident ''a'', Punct ''##'', Ident ''__VA_ARGS__'']
 [(''a'', p0, []), (''__VA_ARGS__'', drop_args 1 0 inside, [])]
 (length (split_args 0 inside) \<le> 1 \<or> inside = []) of Inl e \<Rightarrow> Inl e
 | Inr os \<Rightarrow> expand tbl m (hsadd (nm # hsinter hs h') os @ rest)))
 | _ \<Rightarrow> Inl (WrongArgCount nm)))"
  by (cases ts) (auto simp: call_macro_def starts_lparen_def call_defs seq_cons name_defs NTRNLVA_PRIMITIVE_CAT_def
      split: option.splits list.splits nat.splits cong: sum.case_cong)

lemma call_NTRNLVA_AND:
  "call_macro tbl n nm hs NTRNLVA_AND ts =
     (if nm \<in> set hs \<or> \<not> starts_lparen ts then cons_res (Ident nm, hs) (expand tbl n ts)
      else case close_paren 0 (tl ts) of
             None \<Rightarrow> Inl (Unterminated nm)
           | Some (inside, h', rest) \<Rightarrow>
               (case split_args 0 inside of [p0] \<Rightarrow> (case n of 0 \<Rightarrow> Inl OutOfFuel | Suc m \<Rightarrow>
 (case expand tbl m (p0) of Inl e \<Rightarrow> Inl e
 | Inr x0 \<Rightarrow> expand tbl m (hsadd (nm # hsinter hs h') ([(Ident nm_NTRNLVA_PRIMITIVE_CAT, []), (LParen, []), (Ident nm_NTRNLVA_AND_', []), (Comma, [])] @ x0 @ [(RParen, [])]) @ rest)))
 | _ \<Rightarrow> Inl (WrongArgCount nm)))"
  by (cases ts) (auto simp: call_macro_def starts_lparen_def call_defs step_defs seq_cons name_defs NTRNLVA_AND_def
      split: option.splits list.splits nat.splits cong: sum.case_cong)

lemma call_NTRNLVA_AND_0:
  "call_macro tbl n nm hs NTRNLVA_AND_0 ts =
     (if nm \<in> set hs \<or> \<not> starts_lparen ts then cons_res (Ident nm, hs) (expand tbl n ts)
      else case close_paren 0 (tl ts) of
             None \<Rightarrow> Inl (Unterminated nm)
           | Some (inside, h', rest) \<Rightarrow>
               (case split_args 0 inside of [p0] \<Rightarrow> (case n of 0 \<Rightarrow> Inl OutOfFuel | Suc m \<Rightarrow>
 expand tbl m (hsadd (nm # hsinter hs h') ([(Number ''0'', [])]) @ rest))
 | _ \<Rightarrow> Inl (WrongArgCount nm)))"
  by (cases ts) (auto simp: call_macro_def starts_lparen_def call_defs step_defs seq_cons name_defs NTRNLVA_AND_0_def
      split: option.splits list.splits nat.splits cong: sum.case_cong)

lemma call_NTRNLVA_AND_1:
  "call_macro tbl n nm hs NTRNLVA_AND_1 ts =
     (if nm \<in> set hs \<or> \<not> starts_lparen ts then cons_res (Ident nm, hs) (expand tbl n ts)
      else case close_paren 0 (tl ts) of
             None \<Rightarrow> Inl (Unterminated nm)
           | Some (inside, h', rest) \<Rightarrow>
               (case split_args 0 inside of [p0] \<Rightarrow> (case n of 0 \<Rightarrow> Inl OutOfFuel | Suc m \<Rightarrow>
 (case expand tbl m (p0) of Inl e \<Rightarrow> Inl e
 | Inr x0 \<Rightarrow> expand tbl m (hsadd (nm # hsinter hs h') (x0) @ rest)))
 | _ \<Rightarrow> Inl (WrongArgCount nm)))"
  by (cases ts) (auto simp: call_macro_def starts_lparen_def call_defs step_defs seq_cons name_defs NTRNLVA_AND_1_def
      split: option.splits list.splits nat.splits cong: sum.case_cong)

lemma call_NTRNLVA_CHECK_N:
  "call_macro tbl n nm hs NTRNLVA_CHECK_N ts =
     (if nm \<in> set hs \<or> \<not> starts_lparen ts then cons_res (Ident nm, hs) (expand tbl n ts)
      else case close_paren 0 (tl ts) of
             None \<Rightarrow> Inl (Unterminated nm)
           | Some (inside, h', rest) \<Rightarrow>
               (case split_args 0 inside of p0 # p1 # more \<Rightarrow> (case n of 0 \<Rightarrow> Inl OutOfFuel | Suc m \<Rightarrow>
 (case expand tbl m (p1) of Inl e \<Rightarrow> Inl e
 | Inr x1 \<Rightarrow> expand tbl m (hsadd (nm # hsinter hs h') (x1) @ rest)))
 | _ \<Rightarrow> Inl (WrongArgCount nm)))"
  by (cases ts) (auto simp: call_macro_def starts_lparen_def call_defs step_defs seq_cons name_defs NTRNLVA_CHECK_N_def
      split: option.splits list.splits nat.splits cong: sum.case_cong)

lemma call_NTRNLVA_CHECK:
  "call_macro tbl n nm hs NTRNLVA_CHECK ts =
     (if nm \<in> set hs \<or> \<not> starts_lparen ts then cons_res (Ident nm, hs) (expand tbl n ts)
      else case close_paren 0 (tl ts) of
             None \<Rightarrow> Inl (Unterminated nm)
           | Some (inside, h', rest) \<Rightarrow>
               (case n of 0 \<Rightarrow> Inl OutOfFuel | Suc m \<Rightarrow>
 (case expand tbl m (inside) of Inl e \<Rightarrow> Inl e
 | Inr xva \<Rightarrow> expand tbl m (hsadd (nm # hsinter hs h') ([(Ident nm_NTRNLVA_CHECK_N, []), (LParen, [])] @ xva @ [(Comma, []), (Number ''0'', []), (Comma, []), (RParen, [])]) @ rest))))"
  by (cases ts) (auto simp: call_macro_def starts_lparen_def call_defs step_defs seq_cons name_defs NTRNLVA_CHECK_def
      split: option.splits list.splits nat.splits cong: sum.case_cong)

lemma call_NTRNLVA_PROBE:
  "call_macro tbl n nm hs NTRNLVA_PROBE ts =
     (if nm \<in> set hs \<or> \<not> starts_lparen ts then cons_res (Ident nm, hs) (expand tbl n ts)
      else case close_paren 0 (tl ts) of
             None \<Rightarrow> Inl (Unterminated nm)
           | Some (inside, h', rest) \<Rightarrow>
               (case split_args 0 inside of [p0] \<Rightarrow> (case n of 0 \<Rightarrow> Inl OutOfFuel | Suc m \<Rightarrow>
 (case expand tbl m (p0) of Inl e \<Rightarrow> Inl e
 | Inr x0 \<Rightarrow> expand tbl m (hsadd (nm # hsinter hs h') (x0 @ [(Comma, []), (Number ''1'', []), (Comma, [])]) @ rest)))
 | _ \<Rightarrow> Inl (WrongArgCount nm)))"
  by (cases ts) (auto simp: call_macro_def starts_lparen_def call_defs step_defs seq_cons name_defs NTRNLVA_PROBE_def
      split: option.splits list.splits nat.splits cong: sum.case_cong)

lemma call_NTRNLVA_IS_PAREN:
  "call_macro tbl n nm hs NTRNLVA_IS_PAREN ts =
     (if nm \<in> set hs \<or> \<not> starts_lparen ts then cons_res (Ident nm, hs) (expand tbl n ts)
      else case close_paren 0 (tl ts) of
             None \<Rightarrow> Inl (Unterminated nm)
           | Some (inside, h', rest) \<Rightarrow>
               (case split_args 0 inside of [p0] \<Rightarrow> (case n of 0 \<Rightarrow> Inl OutOfFuel | Suc m \<Rightarrow>
 (case expand tbl m (p0) of Inl e \<Rightarrow> Inl e
 | Inr x0 \<Rightarrow> expand tbl m (hsadd (nm # hsinter hs h') ([(Ident nm_NTRNLVA_CHECK, []), (LParen, []), (Ident nm_NTRNLVA_IS_PAREN_PROBE, [])] @ x0 @ [(RParen, [])]) @ rest)))
 | _ \<Rightarrow> Inl (WrongArgCount nm)))"
  by (cases ts) (auto simp: call_macro_def starts_lparen_def call_defs step_defs seq_cons name_defs NTRNLVA_IS_PAREN_def
      split: option.splits list.splits nat.splits cong: sum.case_cong)

lemma call_NTRNLVA_IS_PAREN_PROBE:
  "call_macro tbl n nm hs NTRNLVA_IS_PAREN_PROBE ts =
     (if nm \<in> set hs \<or> \<not> starts_lparen ts then cons_res (Ident nm, hs) (expand tbl n ts)
      else case close_paren 0 (tl ts) of
             None \<Rightarrow> Inl (Unterminated nm)
           | Some (inside, h', rest) \<Rightarrow>
               (case n of 0 \<Rightarrow> Inl OutOfFuel | Suc m \<Rightarrow>
 expand tbl m (hsadd (nm # hsinter hs h') ([(Ident nm_NTRNLVA_PROBE, []), (LParen, []), (Punct ''~'', []), (RParen, [])]) @ rest)))"
  by (cases ts) (auto simp: call_macro_def starts_lparen_def call_defs step_defs seq_cons name_defs NTRNLVA_IS_PAREN_PROBE_def
      split: option.splits list.splits nat.splits cong: sum.case_cong)

lemma call_NTRNLVA_COMPL:
  "call_macro tbl n nm hs NTRNLVA_COMPL ts =
     (if nm \<in> set hs \<or> \<not> starts_lparen ts then cons_res (Ident nm, hs) (expand tbl n ts)
      else case close_paren 0 (tl ts) of
             None \<Rightarrow> Inl (Unterminated nm)
           | Some (inside, h', rest) \<Rightarrow>
               (case split_args 0 inside of [p0] \<Rightarrow> (case n of 0 \<Rightarrow> Inl OutOfFuel | Suc m \<Rightarrow>
 (case expand tbl m (p0) of Inl e \<Rightarrow> Inl e
 | Inr x0 \<Rightarrow> expand tbl m (hsadd (nm # hsinter hs h') ([(Ident nm_NTRNLVA_PRIMITIVE_CAT, []), (LParen, []), (Ident nm_NTRNLVA_COMPL_', []), (Comma, [])] @ x0 @ [(RParen, [])]) @ rest)))
 | _ \<Rightarrow> Inl (WrongArgCount nm)))"
  by (cases ts) (auto simp: call_macro_def starts_lparen_def call_defs step_defs seq_cons name_defs NTRNLVA_COMPL_def
      split: option.splits list.splits nat.splits cong: sum.case_cong)

lemma call_NTRNLVA_COMPL_0:
  "call_macro tbl n nm hs NTRNLVA_COMPL_0 ts =
     (if nm \<in> set hs then cons_res (Ident nm, hs) (expand tbl n ts)
      else case n of 0 \<Rightarrow> Inl OutOfFuel
           | Suc m \<Rightarrow> expand tbl m (hsadd (nm # hs) [(Number ''1'', [])] @ ts))"
  by (simp add: call_macro_def step_defs hsadd_def NTRNLVA_COMPL_0_def name_defs split: nat.splits)

lemma call_NTRNLVA_COMPL_1:
  "call_macro tbl n nm hs NTRNLVA_COMPL_1 ts =
     (if nm \<in> set hs then cons_res (Ident nm, hs) (expand tbl n ts)
      else case n of 0 \<Rightarrow> Inl OutOfFuel
           | Suc m \<Rightarrow> expand tbl m (hsadd (nm # hs) [(Number ''0'', [])] @ ts))"
  by (simp add: call_macro_def step_defs hsadd_def NTRNLVA_COMPL_1_def name_defs split: nat.splits)

lemma call_NTRNLVA_UP_I:
  "call_macro tbl n nm hs NTRNLVA_UP_I ts =
     (if nm \<in> set hs \<or> \<not> starts_lparen ts then cons_res (Ident nm, hs) (expand tbl n ts)
      else case close_paren 0 (tl ts) of
             None \<Rightarrow> Inl (Unterminated nm)
           | Some (inside, h', rest) \<Rightarrow>
               (case n of 0 \<Rightarrow> Inl OutOfFuel | Suc m \<Rightarrow>
 (case expand tbl m (inside) of Inl e \<Rightarrow> Inl e
 | Inr xva \<Rightarrow> expand tbl m (hsadd (nm # hsinter hs h') (xva) @ rest))))"
  by (cases ts) (auto simp: call_macro_def starts_lparen_def call_defs step_defs seq_cons name_defs NTRNLVA_UP_I_def
      split: option.splits list.splits nat.splits cong: sum.case_cong)

lemma call_NTRNLVA_UP:
  "call_macro tbl n nm hs NTRNLVA_UP ts =
     (if nm \<in> set hs \<or> \<not> starts_lparen ts then cons_res (Ident nm, hs) (expand tbl n ts)
      else case close_paren 0 (tl ts) of
             None \<Rightarrow> Inl (Unterminated nm)
           | Some (inside, h', rest) \<Rightarrow>
               (case split_args 0 inside of [p0] \<Rightarrow> (case n of 0 \<Rightarrow> Inl OutOfFuel | Suc m \<Rightarrow>
 (case expand tbl m (p0) of Inl e \<Rightarrow> Inl e
 | Inr x0 \<Rightarrow> expand tbl m (hsadd (nm # hsinter hs h') ([(Ident nm_NTRNLVA_UP_I, [])] @ x0) @ rest)))
 | _ \<Rightarrow> Inl (WrongArgCount nm)))"
  by (cases ts) (auto simp: call_macro_def starts_lparen_def call_defs step_defs seq_cons name_defs NTRNLVA_UP_def
      split: option.splits list.splits nat.splits cong: sum.case_cong)

lemma call_NTRNLVA_SENTINEL_:
  "call_macro tbl n nm hs NTRNLVA_SENTINEL_' ts =
     (if nm \<in> set hs then cons_res (Ident nm, hs) (expand tbl n ts)
      else case n of 0 \<Rightarrow> Inl OutOfFuel
           | Suc m \<Rightarrow> expand tbl m (hsadd (nm # hs) [(LParen, []), (RParen, []), (LParen, []), (RParen, []), (LParen, []), (RParen, [])] @ ts))"
  by (simp add: call_macro_def step_defs hsadd_def NTRNLVA_SENTINEL_'_def name_defs split: nat.splits)

lemma call_NTRNLVA_IS_SENTINEL2:
  "call_macro tbl n nm hs NTRNLVA_IS_SENTINEL2 ts =
     (if nm \<in> set hs \<or> \<not> starts_lparen ts then cons_res (Ident nm, hs) (expand tbl n ts)
      else case close_paren 0 (tl ts) of
             None \<Rightarrow> Inl (Unterminated nm)
           | Some (inside, h', rest) \<Rightarrow>
               (case n of 0 \<Rightarrow> Inl OutOfFuel | Suc m \<Rightarrow>
 expand tbl m (hsadd (nm # hsinter hs h') ([(LParen, []), (RParen, [])]) @ rest)))"
  by (cases ts) (auto simp: call_macro_def starts_lparen_def call_defs step_defs seq_cons name_defs NTRNLVA_IS_SENTINEL2_def
      split: option.splits list.splits nat.splits cong: sum.case_cong)

lemma call_NTRNLVA_IS_SENTINEL1:
  "call_macro tbl n nm hs NTRNLVA_IS_SENTINEL1 ts =
     (if nm \<in> set hs \<or> \<not> starts_lparen ts then cons_res (Ident nm, hs) (expand tbl n ts)
      else case close_paren 0 (tl ts) of
             None \<Rightarrow> Inl (Unterminated nm)
           | Some (inside, h', rest) \<Rightarrow>
               (case n of 0 \<Rightarrow> Inl OutOfFuel | Suc m \<Rightarrow>
 expand tbl m (hsadd (nm # hsinter hs h') ([(Ident nm_NTRNLVA_IS_SENTINEL2, [])]) @ rest)))"
  by (cases ts) (auto simp: call_macro_def starts_lparen_def call_defs step_defs seq_cons name_defs NTRNLVA_IS_SENTINEL1_def
      split: option.splits list.splits nat.splits cong: sum.case_cong)

lemma call_NTRNLVA_IS_SENTINEL:
  "call_macro tbl n nm hs NTRNLVA_IS_SENTINEL ts =
     (if nm \<in> set hs \<or> \<not> starts_lparen ts then cons_res (Ident nm, hs) (expand tbl n ts)
      else case close_paren 0 (tl ts) of
             None \<Rightarrow> Inl (Unterminated nm)
           | Some (inside, h', rest) \<Rightarrow>
               (case n of 0 \<Rightarrow> Inl OutOfFuel | Suc m \<Rightarrow>
 expand tbl m (hsadd (nm # hsinter hs h') ([(Ident nm_NTRNLVA_IS_SENTINEL1, [])]) @ rest)))"
  by (cases ts) (auto simp: call_macro_def starts_lparen_def call_defs step_defs seq_cons name_defs NTRNLVA_IS_SENTINEL_def
      split: option.splits list.splits nat.splits cong: sum.case_cong)

lemma call_NTRNLVA_CHECK_SENTINEL:
  "call_macro tbl n nm hs NTRNLVA_CHECK_SENTINEL ts =
     (if nm \<in> set hs \<or> \<not> starts_lparen ts then cons_res (Ident nm, hs) (expand tbl n ts)
      else case close_paren 0 (tl ts) of
             None \<Rightarrow> Inl (Unterminated nm)
           | Some (inside, h', rest) \<Rightarrow>
               (case split_args 0 inside of [p0] \<Rightarrow> (case n of 0 \<Rightarrow> Inl OutOfFuel | Suc m \<Rightarrow>
 (case expand tbl m (p0) of Inl e \<Rightarrow> Inl e
 | Inr x0 \<Rightarrow> expand tbl m (hsadd (nm # hsinter hs h') ([(Ident nm_NTRNLVA_IS_PAREN, []), (LParen, []), (Ident nm_NTRNLVA_EXPAND, []), (LParen, []), (Ident nm_NTRNLVA_IS_SENTINEL, [])] @ x0 @ [(RParen, []), (RParen, [])]) @ rest)))
 | _ \<Rightarrow> Inl (WrongArgCount nm)))"
  by (cases ts) (auto simp: call_macro_def starts_lparen_def call_defs step_defs seq_cons name_defs NTRNLVA_CHECK_SENTINEL_def
      split: option.splits list.splits nat.splits cong: sum.case_cong)

lemma call_NTRNLVA_OPT_IMPL:
  "call_macro tbl n nm hs NTRNLVA_OPT_IMPL ts =
     (if nm \<in> set hs \<or> \<not> starts_lparen ts then cons_res (Ident nm, hs) (expand tbl n ts)
      else case close_paren 0 (tl ts) of
             None \<Rightarrow> Inl (Unterminated nm)
           | Some (inside, h', rest) \<Rightarrow>
               (case split_args 0 inside of p0 # more \<Rightarrow> (case n of 0 \<Rightarrow> Inl OutOfFuel | Suc m \<Rightarrow>
 (case expand tbl m (p0) of Inl e \<Rightarrow> Inl e
 | Inr x0 \<Rightarrow> (case expand tbl m (drop_args 1 0 inside) of Inl e \<Rightarrow> Inl e
 | Inr xva \<Rightarrow> expand tbl m (hsadd (nm # hsinter hs h') ([(Ident nm_NTRNLVA_CAT, []), (LParen, []), (Ident nm_NTRNLVA_OPT_IMPL_', []), (Comma, [])] @ x0 @ [(RParen, []), (LParen, [])] @ xva @ [(RParen, [])]) @ rest))))
 | _ \<Rightarrow> Inl (WrongArgCount nm)))"
  by (cases ts) (auto simp: call_macro_def starts_lparen_def call_defs step_defs seq_cons name_defs NTRNLVA_OPT_IMPL_def
      split: option.splits list.splits nat.splits cong: sum.case_cong)

lemma call_NTRNLVA_OPT_IMPL_0:
  "call_macro tbl n nm hs NTRNLVA_OPT_IMPL_0 ts =
     (if nm \<in> set hs \<or> \<not> starts_lparen ts then cons_res (Ident nm, hs) (expand tbl n ts)
      else case close_paren 0 (tl ts) of
             None \<Rightarrow> Inl (Unterminated nm)
           | Some (inside, h', rest) \<Rightarrow>
               (case n of 0 \<Rightarrow> Inl OutOfFuel | Suc m \<Rightarrow>
 (case expand tbl m (inside) of Inl e \<Rightarrow> Inl e
 | Inr xva \<Rightarrow> expand tbl m (hsadd (nm # hsinter hs h') (xva) @ rest))))"
  by (cases ts) (auto simp: call_macro_def starts_lparen_def call_defs step_defs seq_cons name_defs NTRNLVA_OPT_IMPL_0_def
      split: option.splits list.splits nat.splits cong: sum.case_cong)

lemma call_NTRNLVA_OPT_IMPL_1:
  "call_macro tbl n nm hs NTRNLVA_OPT_IMPL_1 ts =
     (if nm \<in> set hs \<or> \<not> starts_lparen ts then cons_res (Ident nm, hs) (expand tbl n ts)
      else case close_paren 0 (tl ts) of
             None \<Rightarrow> Inl (Unterminated nm)
           | Some (inside, h', rest) \<Rightarrow>
               (case n of 0 \<Rightarrow> Inl OutOfFuel | Suc m \<Rightarrow>
 expand tbl m (hsadd (nm # hsinter hs h') ([]) @ rest)))"
  by (cases ts) (auto simp: call_macro_def starts_lparen_def call_defs step_defs seq_cons name_defs NTRNLVA_OPT_IMPL_1_def
      split: option.splits list.splits nat.splits cong: sum.case_cong)

lemma call_VA_NOPT:
  "call_macro tbl n nm hs VA_NOPT ts =
     (if nm \<in> set hs \<or> \<not> starts_lparen ts then cons_res (Ident nm, hs) (expand tbl n ts)
      else case close_paren 0 (tl ts) of
             None \<Rightarrow> Inl (Unterminated nm)
           | Some (inside, h', rest) \<Rightarrow>
               (case split_args 0 inside of p0 # more \<Rightarrow> (case n of 0 \<Rightarrow> Inl OutOfFuel | Suc m \<Rightarrow>
 (case expand tbl m (p0) of Inl e \<Rightarrow> Inl e
 | Inr x0 \<Rightarrow> (case expand tbl m (drop_args 1 0 inside) of Inl e \<Rightarrow> Inl e
 | Inr xva \<Rightarrow> expand tbl m (hsadd (nm # hsinter hs h') ([(Ident nm_NTRNLVA_OPT_IMPL, []), (LParen, []), (Ident nm_VA_NOTEMPTY, []), (LParen, []), (Ident nm_NTRNLVA_UP, []), (LParen, [])] @ x0 @ [(RParen, []), (RParen, []), (Comma, [])] @ xva @ [(RParen, [])]) @ rest))))
 | _ \<Rightarrow> Inl (WrongArgCount nm)))"
  by (cases ts) (auto simp: call_macro_def starts_lparen_def call_defs step_defs seq_cons name_defs VA_NOPT_def
      split: option.splits list.splits nat.splits cong: sum.case_cong)

lemma call_EATER0:
  "call_macro tbl n nm hs EATER0 ts =
     (if nm \<in> set hs \<or> \<not> starts_lparen ts then cons_res (Ident nm, hs) (expand tbl n ts)
      else case close_paren 0 (tl ts) of
             None \<Rightarrow> Inl (Unterminated nm)
           | Some (inside, h', rest) \<Rightarrow>
               (case n of 0 \<Rightarrow> Inl OutOfFuel | Suc m \<Rightarrow>
 expand tbl m (hsadd (nm # hsinter hs h') ([]) @ rest)))"
  by (cases ts) (auto simp: call_macro_def starts_lparen_def call_defs step_defs seq_cons name_defs EATER0_def
      split: option.splits list.splits nat.splits cong: sum.case_cong)

lemma call_EATER1:
  "call_macro tbl n nm hs EATER1 ts =
     (if nm \<in> set hs \<or> \<not> starts_lparen ts then cons_res (Ident nm, hs) (expand tbl n ts)
      else case close_paren 0 (tl ts) of
             None \<Rightarrow> Inl (Unterminated nm)
           | Some (inside, h', rest) \<Rightarrow>
               (case n of 0 \<Rightarrow> Inl OutOfFuel | Suc m \<Rightarrow>
 expand tbl m (hsadd (nm # hsinter hs h') ([(Comma, [])]) @ rest)))"
  by (cases ts) (auto simp: call_macro_def starts_lparen_def call_defs step_defs seq_cons name_defs EATER1_def
      split: option.splits list.splits nat.splits cong: sum.case_cong)

lemma call_EATER2:
  "call_macro tbl n nm hs EATER2 ts =
     (if nm \<in> set hs \<or> \<not> starts_lparen ts then cons_res (Ident nm, hs) (expand tbl n ts)
      else case close_paren 0 (tl ts) of
             None \<Rightarrow> Inl (Unterminated nm)
           | Some (inside, h', rest) \<Rightarrow>
               (case n of 0 \<Rightarrow> Inl OutOfFuel | Suc m \<Rightarrow>
 expand tbl m (hsadd (nm # hsinter hs h') ([(LParen, []), (RParen, [])]) @ rest)))"
  by (cases ts) (auto simp: call_macro_def starts_lparen_def call_defs step_defs seq_cons name_defs EATER2_def
      split: option.splits list.splits nat.splits cong: sum.case_cong)

lemma call_EATER3:
  "call_macro tbl n nm hs EATER3 ts =
     (if nm \<in> set hs \<or> \<not> starts_lparen ts then cons_res (Ident nm, hs) (expand tbl n ts)
      else case close_paren 0 (tl ts) of
             None \<Rightarrow> Inl (Unterminated nm)
           | Some (inside, h', rest) \<Rightarrow>
               (case n of 0 \<Rightarrow> Inl OutOfFuel | Suc m \<Rightarrow>
 expand tbl m (hsadd (nm # hsinter hs h') ([(LParen, []), (RParen, []), (Comma, [])]) @ rest)))"
  by (cases ts) (auto simp: call_macro_def starts_lparen_def call_defs step_defs seq_cons name_defs EATER3_def
      split: option.splits list.splits nat.splits cong: sum.case_cong)

lemma call_EATER4:
  "call_macro tbl n nm hs EATER4 ts =
     (if nm \<in> set hs \<or> \<not> starts_lparen ts then cons_res (Ident nm, hs) (expand tbl n ts)
      else case close_paren 0 (tl ts) of
             None \<Rightarrow> Inl (Unterminated nm)
           | Some (inside, h', rest) \<Rightarrow>
               (case n of 0 \<Rightarrow> Inl OutOfFuel | Suc m \<Rightarrow>
 expand tbl m (hsadd (nm # hsinter hs h') ([(Ident nm_EATER1, [])]) @ rest)))"
  by (cases ts) (auto simp: call_macro_def starts_lparen_def call_defs step_defs seq_cons name_defs EATER4_def
      split: option.splits list.splits nat.splits cong: sum.case_cong)

lemma call_EATER5:
  "call_macro tbl n nm hs EATER5 ts =
     (if nm \<in> set hs \<or> \<not> starts_lparen ts then cons_res (Ident nm, hs) (expand tbl n ts)
      else case close_paren 0 (tl ts) of
             None \<Rightarrow> Inl (Unterminated nm)
           | Some (inside, h', rest) \<Rightarrow>
               (case n of 0 \<Rightarrow> Inl OutOfFuel | Suc m \<Rightarrow>
 expand tbl m (hsadd (nm # hsinter hs h') ([(Ident nm_EATER2, [])]) @ rest)))"
  by (cases ts) (auto simp: call_macro_def starts_lparen_def call_defs step_defs seq_cons name_defs EATER5_def
      split: option.splits list.splits nat.splits cong: sum.case_cong)

lemma call_MAC0:
  "call_macro tbl n nm hs MAC0 ts =
     (if nm \<in> set hs \<or> \<not> starts_lparen ts then cons_res (Ident nm, hs) (expand tbl n ts)
      else case close_paren 0 (tl ts) of
             None \<Rightarrow> Inl (Unterminated nm)
           | Some (inside, h', rest) \<Rightarrow>
               (if inside = [] then (case n of 0 \<Rightarrow> Inl OutOfFuel | Suc m \<Rightarrow>
 expand tbl m (hsadd (nm # hsinter hs h') ([(LParen, []), (RParen, [])]) @ rest)) else Inl (WrongArgCount nm)))"
  by (cases ts) (auto simp: call_macro_def starts_lparen_def call_defs step_defs seq_cons name_defs MAC0_def
      split: option.splits list.splits nat.splits cong: sum.case_cong)

lemma call_MAC1:
  "call_macro tbl n nm hs MAC1 ts =
     (if nm \<in> set hs \<or> \<not> starts_lparen ts then cons_res (Ident nm, hs) (expand tbl n ts)
      else case close_paren 0 (tl ts) of
             None \<Rightarrow> Inl (Unterminated nm)
           | Some (inside, h', rest) \<Rightarrow>
               (case split_args 0 inside of [p0] \<Rightarrow> (case n of 0 \<Rightarrow> Inl OutOfFuel | Suc m \<Rightarrow>
 expand tbl m (hsadd (nm # hsinter hs h') ([(LParen, []), (RParen, [])]) @ rest))
 | _ \<Rightarrow> Inl (WrongArgCount nm)))"
  by (cases ts) (auto simp: call_macro_def starts_lparen_def call_defs step_defs seq_cons name_defs MAC1_def
      split: option.splits list.splits nat.splits cong: sum.case_cong)

lemma call_MACV:
  "call_macro tbl n nm hs MACV ts =
     (if nm \<in> set hs \<or> \<not> starts_lparen ts then cons_res (Ident nm, hs) (expand tbl n ts)
      else case close_paren 0 (tl ts) of
             None \<Rightarrow> Inl (Unterminated nm)
           | Some (inside, h', rest) \<Rightarrow>
               (case n of 0 \<Rightarrow> Inl OutOfFuel | Suc m \<Rightarrow>
 expand tbl m (hsadd (nm # hsinter hs h') ([(LParen, []), (RParen, [])]) @ rest)))"
  by (cases ts) (auto simp: call_macro_def starts_lparen_def call_defs step_defs seq_cons name_defs MACV_def
      split: option.splits list.splits nat.splits cong: sum.case_cong)

lemma call_MACMANYPLUS:
  "call_macro tbl n nm hs MACMANYPLUS ts =
     (if nm \<in> set hs \<or> \<not> starts_lparen ts then cons_res (Ident nm, hs) (expand tbl n ts)
      else case close_paren 0 (tl ts) of
             None \<Rightarrow> Inl (Unterminated nm)
           | Some (inside, h', rest) \<Rightarrow>
               (case n of 0 \<Rightarrow> Inl OutOfFuel | Suc m \<Rightarrow>
 expand tbl m (hsadd (nm # hsinter hs h') ([(Punct ''+'', []), (Comma, []), (Punct ''+'', []), (Comma, []), (Punct ''+'', []), (Comma, []), (Punct ''+'', []), (Comma, []), (Punct ''+'', []), (Comma, []), (Punct ''+'', []), (Comma, []), (Punct ''+'', []), (Comma, []), (Punct ''+'', []), (Comma, []), (Punct ''+'', []), (Comma, []), (Punct ''+'', []), (Comma, []), (Punct ''+'', []), (Comma, []), (Punct ''+'', []), (Comma, []), (Punct ''+'', []), (Comma, []), (Punct ''+'', []), (Comma, []), (Punct ''+'', []), (Comma, []), (Punct ''+'', []), (Comma, []), (Punct ''+'', []), (Comma, []), (Punct ''+'', []), (Comma, []), (Punct ''+'', [])]) @ rest)))"
  by (cases ts) (auto simp: call_macro_def starts_lparen_def call_defs step_defs seq_cons name_defs MACMANYPLUS_def
      split: option.splits list.splits nat.splits cong: sum.case_cong)

lemma call_MAC2:
  "call_macro tbl n nm hs MAC2 ts =
     (if nm \<in> set hs \<or> \<not> starts_lparen ts then cons_res (Ident nm, hs) (expand tbl n ts)
      else case close_paren 0 (tl ts) of
             None \<Rightarrow> Inl (Unterminated nm)
           | Some (inside, h', rest) \<Rightarrow>
               (case split_args 0 inside of [p0, p1] \<Rightarrow> (case n of 0 \<Rightarrow> Inl OutOfFuel | Suc m \<Rightarrow>
 expand tbl m (hsadd (nm # hsinter hs h') ([(Ident ''whatever'', [])]) @ rest))
 | _ \<Rightarrow> Inl (WrongArgCount nm)))"
  by (cases ts) (auto simp: call_macro_def starts_lparen_def call_defs step_defs seq_cons name_defs MAC2_def
      split: option.splits list.splits nat.splits cong: sum.case_cong)

lemma call_NTRNLVA_IMPL_native:
  "call_macro tbl n nm hs NTRNLVA_IMPL_native ts =
     (if nm \<in> set hs then cons_res (Ident nm, hs) (expand tbl n ts)
      else case n of 0 \<Rightarrow> Inl OutOfFuel
           | Suc m \<Rightarrow> expand tbl m (hsadd (nm # hs) [(Ident nm_NTRNLVA_IMPL_NATIVE, [])] @ ts))"
  by (simp add: call_macro_def step_defs hsadd_def NTRNLVA_IMPL_native_def name_defs split: nat.splits)

lemma call_NTRNLVA_ISEMPTY_I0_native:
  "call_macro tbl n nm hs NTRNLVA_ISEMPTY_I0_native ts =
     (if nm \<in> set hs then cons_res (Ident nm, hs) (expand tbl n ts)
      else case n of 0 \<Rightarrow> Inl OutOfFuel
           | Suc m \<Rightarrow> expand tbl m (hsadd (nm # hs) [(Number ''1'', [])] @ ts))"
  by (simp add: call_macro_def step_defs hsadd_def NTRNLVA_ISEMPTY_I0_native_def name_defs split: nat.splits)

lemma call_NTRNLVA_ISEMPTY_I01_native:
  "call_macro tbl n nm hs NTRNLVA_ISEMPTY_I01_native ts =
     (if nm \<in> set hs then cons_res (Ident nm, hs) (expand tbl n ts)
      else case n of 0 \<Rightarrow> Inl OutOfFuel
           | Suc m \<Rightarrow> expand tbl m (hsadd (nm # hs) [(Number ''0'', [])] @ ts))"
  by (simp add: call_macro_def step_defs hsadd_def NTRNLVA_ISEMPTY_I01_native_def name_defs split: nat.splits)

lemma call_NTRNLVA_ISEMPTY_I_native:
  "call_macro tbl n nm hs NTRNLVA_ISEMPTY_I_native ts =
     (if nm \<in> set hs \<or> \<not> starts_lparen ts then cons_res (Ident nm, hs) (expand tbl n ts)
      else case close_paren 0 (tl ts) of
             None \<Rightarrow> Inl (Unterminated nm)
           | Some (inside, h', rest) \<Rightarrow>
               (case split_args 0 inside of [p0] \<Rightarrow> (case n of 0 \<Rightarrow> Inl OutOfFuel | Suc m \<Rightarrow>
 (case expand tbl m (p0) of Inl e \<Rightarrow> Inl e
 | Inr x0 \<Rightarrow> expand tbl m (hsadd (nm # hsinter hs h') ([(Ident nm_NTRNLVA_PRIMITIVE_CAT, []), (LParen, []), (Ident nm_NTRNLVA_ISEMPTY_I0, []), (Comma, [])] @ x0 @ [(RParen, [])]) @ rest)))
 | _ \<Rightarrow> Inl (WrongArgCount nm)))"
  by (cases ts) (auto simp: call_macro_def starts_lparen_def call_defs step_defs seq_cons name_defs NTRNLVA_ISEMPTY_I_native_def
      split: option.splits list.splits nat.splits cong: sum.case_cong)

lemma call_VA_ISEMPTY_native:
  "call_macro tbl n nm hs VA_ISEMPTY_native ts =
     (if nm \<in> set hs \<or> \<not> starts_lparen ts then cons_res (Ident nm, hs) (expand tbl n ts)
      else case close_paren 0 (tl ts) of
             None \<Rightarrow> Inl (Unterminated nm)
           | Some (inside, h', rest) \<Rightarrow>
               (case n of 0 \<Rightarrow> Inl OutOfFuel | Suc m \<Rightarrow>
 (case expand tbl m (inside) of Inl e \<Rightarrow> Inl e
 | Inr xva \<Rightarrow> (case replace [Ident nm_NTRNLVA_ISEMPTY_I, LParen, Ident ''__VA_OPT__'', LParen, Number ''1'', RParen, RParen]
 [(''__VA_ARGS__'', inside, xva)]
 (length (split_args 0 inside) \<le> 0 \<or> inside = []) of Inl e \<Rightarrow> Inl e
 | Inr os \<Rightarrow> expand tbl m (hsadd (nm # hsinter hs h') os @ rest)))))"
  by (cases ts) (auto simp: call_macro_def starts_lparen_def call_defs seq_cons name_defs VA_ISEMPTY_native_def
      split: option.splits list.splits nat.splits cong: sum.case_cong)

lemma call_NTRNLVA_NOTEMPTY_I0_native:
  "call_macro tbl n nm hs NTRNLVA_NOTEMPTY_I0_native ts =
     (if nm \<in> set hs then cons_res (Ident nm, hs) (expand tbl n ts)
      else case n of 0 \<Rightarrow> Inl OutOfFuel
           | Suc m \<Rightarrow> expand tbl m (hsadd (nm # hs) [(Number ''0'', [])] @ ts))"
  by (simp add: call_macro_def step_defs hsadd_def NTRNLVA_NOTEMPTY_I0_native_def name_defs split: nat.splits)

lemma call_NTRNLVA_NOTEMPTY_I01_native:
  "call_macro tbl n nm hs NTRNLVA_NOTEMPTY_I01_native ts =
     (if nm \<in> set hs then cons_res (Ident nm, hs) (expand tbl n ts)
      else case n of 0 \<Rightarrow> Inl OutOfFuel
           | Suc m \<Rightarrow> expand tbl m (hsadd (nm # hs) [(Number ''1'', [])] @ ts))"
  by (simp add: call_macro_def step_defs hsadd_def NTRNLVA_NOTEMPTY_I01_native_def name_defs split: nat.splits)

lemma call_NTRNLVA_NOTEMPTY_I_native:
  "call_macro tbl n nm hs NTRNLVA_NOTEMPTY_I_native ts =
     (if nm \<in> set hs \<or> \<not> starts_lparen ts then cons_res (Ident nm, hs) (expand tbl n ts)
      else case close_paren 0 (tl ts) of
             None \<Rightarrow> Inl (Unterminated nm)
           | Some (inside, h', rest) \<Rightarrow>
               (case split_args 0 inside of [p0] \<Rightarrow> (case n of 0 \<Rightarrow> Inl OutOfFuel | Suc m \<Rightarrow>
 (case expand tbl m (p0) of Inl e \<Rightarrow> Inl e
 | Inr x0 \<Rightarrow> expand tbl m (hsadd (nm # hsinter hs h') ([(Ident nm_NTRNLVA_PRIMITIVE_CAT, []), (LParen, []), (Ident nm_NTRNLVA_NOTEMPTY_I0, []), (Comma, [])] @ x0 @ [(RParen, [])]) @ rest)))
 | _ \<Rightarrow> Inl (WrongArgCount nm)))"
  by (cases ts) (auto simp: call_macro_def starts_lparen_def call_defs step_defs seq_cons name_defs NTRNLVA_NOTEMPTY_I_native_def
      split: option.splits list.splits nat.splits cong: sum.case_cong)

lemma call_VA_NOTEMPTY_native:
  "call_macro tbl n nm hs VA_NOTEMPTY_native ts =
     (if nm \<in> set hs \<or> \<not> starts_lparen ts then cons_res (Ident nm, hs) (expand tbl n ts)
      else case close_paren 0 (tl ts) of
             None \<Rightarrow> Inl (Unterminated nm)
           | Some (inside, h', rest) \<Rightarrow>
               (case n of 0 \<Rightarrow> Inl OutOfFuel | Suc m \<Rightarrow>
 (case expand tbl m (inside) of Inl e \<Rightarrow> Inl e
 | Inr xva \<Rightarrow> (case replace [Ident nm_NTRNLVA_NOTEMPTY_I, LParen, Ident ''__VA_OPT__'', LParen, Number ''1'', RParen, RParen]
 [(''__VA_ARGS__'', inside, xva)]
 (length (split_args 0 inside) \<le> 0 \<or> inside = []) of Inl e \<Rightarrow> Inl e
 | Inr os \<Rightarrow> expand tbl m (hsadd (nm # hsinter hs h') os @ rest)))))"
  by (cases ts) (auto simp: call_macro_def starts_lparen_def call_defs seq_cons name_defs VA_NOTEMPTY_native_def
      split: option.splits list.splits nat.splits cong: sum.case_cong)

lemma call_NTRNLVA_OPT_I_native:
  "call_macro tbl n nm hs NTRNLVA_OPT_I_native ts =
     (if nm \<in> set hs \<or> \<not> starts_lparen ts then cons_res (Ident nm, hs) (expand tbl n ts)
      else case close_paren 0 (tl ts) of
             None \<Rightarrow> Inl (Unterminated nm)
           | Some (inside, h', rest) \<Rightarrow>
               (case split_args 0 inside of p0 # more \<Rightarrow> (case n of 0 \<Rightarrow> Inl OutOfFuel | Suc m \<Rightarrow>
 (case expand tbl m (p0) of Inl e \<Rightarrow> Inl e
 | Inr x0 \<Rightarrow> (case expand tbl m (drop_args 1 0 inside) of Inl e \<Rightarrow> Inl e
 | Inr xva \<Rightarrow> (case replace [Ident ''__VA_OPT__'', LParen, Ident nm_NTRNLVA_UP, LParen, Ident ''opt'', RParen, RParen]
 [(''opt'', p0, x0), (''__VA_ARGS__'', drop_args 1 0 inside, xva)]
 (length (split_args 0 inside) \<le> 1 \<or> inside = []) of Inl e \<Rightarrow> Inl e
 | Inr os \<Rightarrow> expand tbl m (hsadd (nm # hsinter hs h') os @ rest)))))
 | _ \<Rightarrow> Inl (WrongArgCount nm)))"
  by (cases ts) (auto simp: call_macro_def starts_lparen_def call_defs seq_cons name_defs NTRNLVA_OPT_I_native_def
      split: option.splits list.splits nat.splits cong: sum.case_cong)

lemma call_VA_OPT_native:
  "call_macro tbl n nm hs VA_OPT_native ts =
     (if nm \<in> set hs \<or> \<not> starts_lparen ts then cons_res (Ident nm, hs) (expand tbl n ts)
      else case close_paren 0 (tl ts) of
             None \<Rightarrow> Inl (Unterminated nm)
           | Some (inside, h', rest) \<Rightarrow>
               (case split_args 0 inside of p0 # more \<Rightarrow> (case n of 0 \<Rightarrow> Inl OutOfFuel | Suc m \<Rightarrow>
 (case expand tbl m (p0) of Inl e \<Rightarrow> Inl e
 | Inr x0 \<Rightarrow> (case expand tbl m (drop_args 1 0 inside) of Inl e \<Rightarrow> Inl e
 | Inr xva \<Rightarrow> expand tbl m (hsadd (nm # hsinter hs h') ([(Ident nm_NTRNLVA_OPT_I, []), (LParen, []), (LParen, [])] @ xva @ [(RParen, []), (Comma, []), (Ident nm_NTRNLVA_UP, []), (LParen, [])] @ x0 @ [(RParen, []), (RParen, [])]) @ rest))))
 | _ \<Rightarrow> Inl (WrongArgCount nm)))"
  by (cases ts) (auto simp: call_macro_def starts_lparen_def call_defs step_defs seq_cons name_defs VA_OPT_native_def
      split: option.splits list.splits nat.splits cong: sum.case_cong)

lemma call_NTRNLVA_IMPL_gnu:
  "call_macro tbl n nm hs NTRNLVA_IMPL_gnu ts =
     (if nm \<in> set hs then cons_res (Ident nm, hs) (expand tbl n ts)
      else case n of 0 \<Rightarrow> Inl OutOfFuel
           | Suc m \<Rightarrow> expand tbl m (hsadd (nm # hs) [(Ident nm_NTRNLVA_IMPL_GNU, [])] @ ts))"
  by (simp add: call_macro_def step_defs hsadd_def NTRNLVA_IMPL_gnu_def name_defs split: nat.splits)

lemma call_NTRNLVA_ISEMPTY_I_gnu:
  "call_macro tbl n nm hs NTRNLVA_ISEMPTY_I_gnu ts =
     (if nm \<in> set hs \<or> \<not> starts_lparen ts then cons_res (Ident nm, hs) (expand tbl n ts)
      else case close_paren 0 (tl ts) of
             None \<Rightarrow> Inl (Unterminated nm)
           | Some (inside, h', rest) \<Rightarrow>
               (case split_args 0 inside of p0 # p1 # p2 # more \<Rightarrow> (case n of 0 \<Rightarrow> Inl OutOfFuel | Suc m \<Rightarrow>
 (case expand tbl m (p2) of Inl e \<Rightarrow> Inl e
 | Inr x2 \<Rightarrow> expand tbl m (hsadd (nm # hsinter hs h') ([(Ident nm_NTRNLVA_CHECK_SENTINEL, []), (LParen, [])] @ x2 @ [(RParen, [])]) @ rest)))
 | _ \<Rightarrow> Inl (WrongArgCount nm)))"
  by (cases ts) (auto simp: call_macro_def starts_lparen_def call_defs step_defs seq_cons name_defs NTRNLVA_ISEMPTY_I_gnu_def
      split: option.splits list.splits nat.splits cong: sum.case_cong)

lemma call_NTRNLVA_ISEMPTY_INDIRECT_gnu:
  "call_macro tbl n nm hs NTRNLVA_ISEMPTY_INDIRECT_gnu ts =
     (if nm \<in> set hs \<or> \<not> starts_lparen ts then cons_res (Ident nm, hs) (expand tbl n ts)
      else case close_paren 0 (tl ts) of
             None \<Rightarrow> Inl (Unterminated nm)
           | Some (inside, h', rest) \<Rightarrow>
               (case n of 0 \<Rightarrow> Inl OutOfFuel | Suc m \<Rightarrow>
 (case replace [Ident nm_NTRNLVA_ISEMPTY_I, LParen, Comma, Punct ''##'', Ident ''__VA_ARGS__'', Comma, Number ''0'', Comma, Ident nm_NTRNLVA_SENTINEL_', RParen]
 [(''__VA_ARGS__'', inside, [])]
 (length (split_args 0 inside) \<le> 0 \<or> inside = []) of Inl e \<Rightarrow> Inl e
 | Inr os \<Rightarrow> expand tbl m (hsadd (nm # hsinter hs h') os @ rest))))"
  by (cases ts) (auto simp: call_macro_def starts_lparen_def call_defs seq_cons name_defs NTRNLVA_ISEMPTY_INDIRECT_gnu_def
      split: option.splits list.splits nat.splits cong: sum.case_cong)

lemma call_VA_ISEMPTY_gnu:
  "call_macro tbl n nm hs VA_ISEMPTY_gnu ts =
     (if nm \<in> set hs \<or> \<not> starts_lparen ts then cons_res (Ident nm, hs) (expand tbl n ts)
      else case close_paren 0 (tl ts) of
             None \<Rightarrow> Inl (Unterminated nm)
           | Some (inside, h', rest) \<Rightarrow>
               (case n of 0 \<Rightarrow> Inl OutOfFuel | Suc m \<Rightarrow>
 (case expand tbl m (inside) of Inl e \<Rightarrow> Inl e
 | Inr xva \<Rightarrow> expand tbl m (hsadd (nm # hsinter hs h') ([(Ident nm_NTRNLVA_ISEMPTY_INDIRECT, []), (LParen, [])] @ xva @ [(RParen, [])]) @ rest))))"
  by (cases ts) (auto simp: call_macro_def starts_lparen_def call_defs step_defs seq_cons name_defs VA_ISEMPTY_gnu_def
      split: option.splits list.splits nat.splits cong: sum.case_cong)

lemma call_VA_NOTEMPTY_gnu:
  "call_macro tbl n nm hs VA_NOTEMPTY_gnu ts =
     (if nm \<in> set hs \<or> \<not> starts_lparen ts then cons_res (Ident nm, hs) (expand tbl n ts)
      else case close_paren 0 (tl ts) of
             None \<Rightarrow> Inl (Unterminated nm)
           | Some (inside, h', rest) \<Rightarrow>
               (case n of 0 \<Rightarrow> Inl OutOfFuel | Suc m \<Rightarrow>
 (case expand tbl m (inside) of Inl e \<Rightarrow> Inl e
 | Inr xva \<Rightarrow> expand tbl m (hsadd (nm # hsinter hs h') ([(Ident nm_NTRNLVA_COMPL, []), (LParen, []), (Ident nm_VA_ISEMPTY, []), (LParen, [])] @ xva @ [(RParen, []), (RParen, [])]) @ rest))))"
  by (cases ts) (auto simp: call_macro_def starts_lparen_def call_defs step_defs seq_cons name_defs VA_NOTEMPTY_gnu_def
      split: option.splits list.splits nat.splits cong: sum.case_cong)

lemma call_VA_OPT_gnu:
  "call_macro tbl n nm hs VA_OPT_gnu ts =
     (if nm \<in> set hs \<or> \<not> starts_lparen ts then cons_res (Ident nm, hs) (expand tbl n ts)
      else case close_paren 0 (tl ts) of
             None \<Rightarrow> Inl (Unterminated nm)
           | Some (inside, h', rest) \<Rightarrow>
               (case split_args 0 inside of p0 # more \<Rightarrow> (case n of 0 \<Rightarrow> Inl OutOfFuel | Suc m \<Rightarrow>
 (case expand tbl m (p0) of Inl e \<Rightarrow> Inl e
 | Inr x0 \<Rightarrow> (case expand tbl m (drop_args 1 0 inside) of Inl e \<Rightarrow> Inl e
 | Inr xva \<Rightarrow> expand tbl m (hsadd (nm # hsinter hs h') ([(Ident nm_NTRNLVA_OPT_IMPL, []), (LParen, []), (Ident nm_VA_ISEMPTY, []), (LParen, []), (Ident nm_NTRNLVA_UP, []), (LParen, [])] @ x0 @ [(RParen, []), (RParen, []), (Comma, [])] @ xva @ [(RParen, [])]) @ rest))))
 | _ \<Rightarrow> Inl (WrongArgCount nm)))"
  by (cases ts) (auto simp: call_macro_def starts_lparen_def call_defs step_defs seq_cons name_defs VA_OPT_gnu_def
      split: option.splits list.splits nat.splits cong: sum.case_cong)

lemma call_NTRNLVA_IMPL_msvc:
  "call_macro tbl n nm hs NTRNLVA_IMPL_msvc ts =
     (if nm \<in> set hs then cons_res (Ident nm, hs) (expand tbl n ts)
      else case n of 0 \<Rightarrow> Inl OutOfFuel
           | Suc m \<Rightarrow> expand tbl m (hsadd (nm # hs) [(Ident nm_NTRNLVA_IMPL_MSVC, [])] @ ts))"
  by (simp add: call_macro_def step_defs hsadd_def NTRNLVA_IMPL_msvc_def name_defs split: nat.splits)

lemma call_NTRNLVA_ISEMPTY_I_msvc:
  "call_macro tbl n nm hs NTRNLVA_ISEMPTY_I_msvc ts =
     (if nm \<in> set hs \<or> \<not> starts_lparen ts then cons_res (Ident nm, hs) (expand tbl n ts)
      else case close_paren 0 (tl ts) of
             None \<Rightarrow> Inl (Unterminated nm)
           | Some (inside, h', rest) \<Rightarrow>
               (case split_args 0 inside of p0 # p1 # p2 # more \<Rightarrow> (case n of 0 \<Rightarrow> Inl OutOfFuel | Suc m \<Rightarrow>
 (case expand tbl m (p2) of Inl e \<Rightarrow> Inl e
 | Inr x2 \<Rightarrow> expand tbl m (hsadd (nm # hsinter hs h') ([(Ident nm_NTRNLVA_CHECK_SENTINEL, []), (LParen, [])] @ x2 @ [(RParen, [])]) @ rest)))
 | _ \<Rightarrow> Inl (WrongArgCount nm)))"
  by (cases ts) (auto simp: call_macro_def starts_lparen_def call_defs step_defs seq_cons name_defs NTRNLVA_ISEMPTY_I_msvc_def
      split: option.splits list.splits nat.splits cong: sum.case_cong)

lemma call_NTRNLVA_ISEMPTY_INDIRECT_msvc:
  "call_macro tbl n nm hs NTRNLVA_ISEMPTY_INDIRECT_msvc ts =
     (if nm \<in> set hs \<or> \<not> starts_lparen ts then cons_res (Ident nm, hs) (expand tbl n ts)
      else case close_paren 0 (tl ts) of
             None \<Rightarrow> Inl (Unterminated nm)
           | Some (inside, h', rest) \<Rightarrow>
               (case n of 0 \<Rightarrow> Inl OutOfFuel | Suc m \<Rightarrow>
 (case expand tbl m (inside) of Inl e \<Rightarrow> Inl e
 | Inr xva \<Rightarrow> expand tbl m (hsadd (nm # hsinter hs h') ([(Ident nm_NTRNLVA_ISEMPTY_I, []), (Ident nm_NTRNLVA_EMPTY, []), (LParen, []), (RParen, []), (LParen, []), (Comma, [])] @ xva @ [(Comma, []), (Number ''0'', []), (Comma, []), (Ident nm_NTRNLVA_SENTINEL_', []), (RParen, [])]) @ rest))))"
  by (cases ts) (auto simp: call_macro_def starts_lparen_def call_defs step_defs seq_cons name_defs NTRNLVA_ISEMPTY_INDIRECT_msvc_def
      split: option.splits list.splits nat.splits cong: sum.case_cong)

lemma call_VA_ISEMPTY_msvc:
  "call_macro tbl n nm hs VA_ISEMPTY_msvc ts =
     (if nm \<in> set hs \<or> \<not> starts_lparen ts then cons_res (Ident nm, hs) (expand tbl n ts)
      else case close_paren 0 (tl ts) of
             None \<Rightarrow> Inl (Unterminated nm)
           | Some (inside, h', rest) \<Rightarrow>
               (case n of 0 \<Rightarrow> Inl OutOfFuel | Suc m \<Rightarrow>
 (case expand tbl m (inside) of Inl e \<Rightarrow> Inl e
 | Inr xva \<Rightarrow> expand tbl m (hsadd (nm # hsinter hs h') ([(Ident nm_NTRNLVA_ISEMPTY_INDIRECT, []), (LParen, [])] @ xva @ [(RParen, [])]) @ rest))))"
  by (cases ts) (auto simp: call_macro_def starts_lparen_def call_defs step_defs seq_cons name_defs VA_ISEMPTY_msvc_def
      split: option.splits list.splits nat.splits cong: sum.case_cong)

lemma call_VA_NOTEMPTY_msvc:
  "call_macro tbl n nm hs VA_NOTEMPTY_msvc ts =
     (if nm \<in> set hs \<or> \<not> starts_lparen ts then cons_res (Ident nm, hs) (expand tbl n ts)
      else case close_paren 0 (tl ts) of
             None \<Rightarrow> Inl (Unterminated nm)
           | Some (inside, h', rest) \<Rightarrow>
               (case n of 0 \<Rightarrow> Inl OutOfFuel | Suc m \<Rightarrow>
 (case expand tbl m (inside) of Inl e \<Rightarrow> Inl e
 | Inr xva \<Rightarrow> expand tbl m (hsadd (nm # hsinter hs h') ([(Ident nm_NTRNLVA_COMPL, []), (LParen, []), (Ident nm_VA_ISEMPTY, []), (LParen, [])] @ xva @ [(RParen, []), (RParen, [])]) @ rest))))"
  by (cases ts) (auto simp: call_macro_def starts_lparen_def call_defs step_defs seq_cons name_defs VA_NOTEMPTY_msvc_def
      split: option.splits list.splits nat.splits cong: sum.case_cong)

lemma call_VA_OPT_msvc:
  "call_macro tbl n nm hs VA_OPT_msvc ts =
     (if nm \<in> set hs \<or> \<not> starts_lparen ts then cons_res (Ident nm, hs) (expand tbl n ts)
      else case close_paren 0 (tl ts) of
             None \<Rightarrow> Inl (Unterminated nm)
           | Some (inside, h', rest) \<Rightarrow>
               (case split_args 0 inside of p0 # more \<Rightarrow> (case n of 0 \<Rightarrow> Inl OutOfFuel | Suc m \<Rightarrow>
 (case expand tbl m (p0) of Inl e \<Rightarrow> Inl e
 | Inr x0 \<Rightarrow> (case expand tbl m (drop_args 1 0 inside) of Inl e \<Rightarrow> Inl e
 | Inr xva \<Rightarrow> expand tbl m (hsadd (nm # hsinter hs h') ([(Ident nm_NTRNLVA_OPT_IMPL, []), (LParen, []), (Ident nm_VA_ISEMPTY, []), (LParen, []), (Ident nm_NTRNLVA_UP, []), (LParen, [])] @ x0 @ [(RParen, []), (RParen, []), (Comma, [])] @ xva @ [(RParen, [])]) @ rest))))
 | _ \<Rightarrow> Inl (WrongArgCount nm)))"
  by (cases ts) (auto simp: call_macro_def starts_lparen_def call_defs step_defs seq_cons name_defs VA_OPT_msvc_def
      split: option.splits list.splits nat.splits cong: sum.case_cong)

lemma call_NTRNLVA_IMPL_c99:
  "call_macro tbl n nm hs NTRNLVA_IMPL_c99 ts =
     (if nm \<in> set hs then cons_res (Ident nm, hs) (expand tbl n ts)
      else case n of 0 \<Rightarrow> Inl OutOfFuel
           | Suc m \<Rightarrow> expand tbl m (hsadd (nm # hs) [(Ident nm_NTRNLVA_IMPL_C99, [])] @ ts))"
  by (simp add: call_macro_def step_defs hsadd_def NTRNLVA_IMPL_c99_def name_defs split: nat.splits)

lemma call_NTRNLVA_ISEMPTY_I_c99:
  "call_macro tbl n nm hs NTRNLVA_ISEMPTY_I_c99 ts =
     (if nm \<in> set hs \<or> \<not> starts_lparen ts then cons_res (Ident nm, hs) (expand tbl n ts)
      else case close_paren 0 (tl ts) of
             None \<Rightarrow> Inl (Unterminated nm)
           | Some (inside, h', rest) \<Rightarrow>
               (case n of 0 \<Rightarrow> Inl OutOfFuel | Suc m \<Rightarrow>
 (case expand tbl m (inside) of Inl e \<Rightarrow> Inl e
 | Inr xva \<Rightarrow> expand tbl m (hsadd (nm # hsinter hs h') ([(Ident nm_NTRNLVA_AND, []), (LParen, []), (Ident nm_NTRNLVA_ISEMPTY_BASE, []), (LParen, []), (Ident nm_NTRNLVA_SEL1, []), (LParen, [])] @ xva @ [(RParen, []), (RParen, []), (RParen, []), (LParen, []), (Ident nm_NTRNLVA_CHECK_SENTINEL, []), (LParen, []), (Ident nm_NTRNLVA_SEL2, []), (LParen, [])] @ xva @ [(RParen, []), (RParen, []), (RParen, [])]) @ rest))))"
  by (cases ts) (auto simp: call_macro_def starts_lparen_def call_defs step_defs seq_cons name_defs NTRNLVA_ISEMPTY_I_c99_def
      split: option.splits list.splits nat.splits cong: sum.case_cong)

lemma call_VA_ISEMPTY_c99:
  "call_macro tbl n nm hs VA_ISEMPTY_c99 ts =
     (if nm \<in> set hs \<or> \<not> starts_lparen ts then cons_res (Ident nm, hs) (expand tbl n ts)
      else case close_paren 0 (tl ts) of
             None \<Rightarrow> Inl (Unterminated nm)
           | Some (inside, h', rest) \<Rightarrow>
               (case n of 0 \<Rightarrow> Inl OutOfFuel | Suc m \<Rightarrow>
 (case expand tbl m (inside) of Inl e \<Rightarrow> Inl e
 | Inr xva \<Rightarrow> expand tbl m (hsadd (nm # hsinter hs h') ([(Ident nm_NTRNLVA_ISEMPTY_I, []), (LParen, [])] @ xva @ [(Comma, []), (Ident nm_NTRNLVA_SENTINEL_', []), (RParen, [])]) @ rest))))"
  by (cases ts) (auto simp: call_macro_def starts_lparen_def call_defs step_defs seq_cons name_defs VA_ISEMPTY_c99_def
      split: option.splits list.splits nat.splits cong: sum.case_cong)

lemma call_VA_NOTEMPTY_c99:
  "call_macro tbl n nm hs VA_NOTEMPTY_c99 ts =
     (if nm \<in> set hs \<or> \<not> starts_lparen ts then cons_res (Ident nm, hs) (expand tbl n ts)
      else case close_paren 0 (tl ts) of
             None \<Rightarrow> Inl (Unterminated nm)
           | Some (inside, h', rest) \<Rightarrow>
               (case n of 0 \<Rightarrow> Inl OutOfFuel | Suc m \<Rightarrow>
 (case expand tbl m (inside) of Inl e \<Rightarrow> Inl e
 | Inr xva \<Rightarrow> expand tbl m (hsadd (nm # hsinter hs h') ([(Ident nm_NTRNLVA_COMPL, []), (LParen, []), (Ident nm_VA_ISEMPTY, []), (LParen, [])] @ xva @ [(RParen, []), (RParen, [])]) @ rest))))"
  by (cases ts) (auto simp: call_macro_def starts_lparen_def call_defs step_defs seq_cons name_defs VA_NOTEMPTY_c99_def
      split: option.splits list.splits nat.splits cong: sum.case_cong)

lemma call_NTRNLVA_HAS_COMMA_c99:
  "call_macro tbl n nm hs NTRNLVA_HAS_COMMA_c99 ts =
     (if nm \<in> set hs \<or> \<not> starts_lparen ts then cons_res (Ident nm, hs) (expand tbl n ts)
      else case close_paren 0 (tl ts) of
             None \<Rightarrow> Inl (Unterminated nm)
           | Some (inside, h', rest) \<Rightarrow>
               (case n of 0 \<Rightarrow> Inl OutOfFuel | Suc m \<Rightarrow>
 (case expand tbl m (inside) of Inl e \<Rightarrow> Inl e
 | Inr xva \<Rightarrow> expand tbl m (hsadd (nm # hsinter hs h') ([(Ident nm_NTRNLVA_CHECK_SENTINEL, []), (LParen, []), (Ident nm_NTRNLVA_SEL3_I, []), (LParen, [])] @ xva @ [(Comma, []), (Ident nm_NTRNLVA_SENTINEL_', []), (Comma, []), (Number ''0'', []), (RParen, []), (RParen, [])]) @ rest))))"
  by (cases ts) (auto simp: call_macro_def starts_lparen_def call_defs step_defs seq_cons name_defs NTRNLVA_HAS_COMMA_c99_def
      split: option.splits list.splits nat.splits cong: sum.case_cong)

lemma call_NTRNLVA_TRIGGER_PARENTHESIS__c99:
  "call_macro tbl n nm hs NTRNLVA_TRIGGER_PARENTHESIS__c99 ts =
     (if nm \<in> set hs \<or> \<not> starts_lparen ts then cons_res (Ident nm, hs) (expand tbl n ts)
      else case close_paren 0 (tl ts) of
             None \<Rightarrow> Inl (Unterminated nm)
           | Some (inside, h', rest) \<Rightarrow>
               (case n of 0 \<Rightarrow> Inl OutOfFuel | Suc m \<Rightarrow>
 expand tbl m (hsadd (nm # hsinter hs h') ([(Comma, [])]) @ rest)))"
  by (cases ts) (auto simp: call_macro_def starts_lparen_def call_defs step_defs seq_cons name_defs NTRNLVA_TRIGGER_PARENTHESIS__c99_def
      split: option.splits list.splits nat.splits cong: sum.case_cong)

lemma call_NTRNLVA_ISEMPTY_BASE_c99:
  "call_macro tbl n nm hs NTRNLVA_ISEMPTY_BASE_c99 ts =
     (if nm \<in> set hs \<or> \<not> starts_lparen ts then cons_res (Ident nm, hs) (expand tbl n ts)
      else case close_paren 0 (tl ts) of
             None \<Rightarrow> Inl (Unterminated nm)
           | Some (inside, h', rest) \<Rightarrow>
               (case n of 0 \<Rightarrow> Inl OutOfFuel | Suc m \<Rightarrow>
 (case expand tbl m (inside) of Inl e \<Rightarrow> Inl e
 | Inr xva \<Rightarrow> expand tbl m (hsadd (nm # hsinter hs h') ([(Ident nm_NTRNLVA_ISEMPTY_BASE_I, []), (LParen, []), (Ident nm_NTRNLVA_HAS_COMMA, []), (LParen, [])] @ xva @ [(RParen, []), (Comma, []), (Ident nm_NTRNLVA_HAS_COMMA, []), (LParen, []), (Ident nm_NTRNLVA_TRIGGER_PARENTHESIS_', [])] @ xva @ [(RParen, []), (Comma, []), (Ident nm_NTRNLVA_HAS_COMMA, []), (LParen, [])] @ xva @ [(LParen, []), (RParen, []), (RParen, []), (Comma, []), (Ident nm_NTRNLVA_HAS_COMMA, []), (LParen, []), (Ident nm_NTRNLVA_TRIGGER_PARENTHESIS_', [])] @ xva @ [(LParen, []), (RParen, []), (RParen, []), (RParen, [])]) @ rest))))"
  by (cases ts) (auto simp: call_macro_def starts_lparen_def call_defs step_defs seq_cons name_defs NTRNLVA_ISEMPTY_BASE_c99_def
      split: option.splits list.splits nat.splits cong: sum.case_cong)

lemma call_NTRNLVA_PASTE5_c99:
  "call_macro tbl n nm hs NTRNLVA_PASTE5_c99 ts =
     (if nm \<in> set hs \<or> \<not> starts_lparen ts then cons_res (Ident nm, hs) (expand tbl n ts)
      else case close_paren 0 (tl ts) of
             None \<Rightarrow> Inl (Unterminated nm)
           | Some (inside, h', rest) \<Rightarrow>
               (case split_args 0 inside of [p0, p1, p2, p3, p4] \<Rightarrow> (case n of 0 \<Rightarrow> Inl OutOfFuel | Suc m \<Rightarrow>
 (case replace [Ident ''_0'', Punct ''##'', Ident ''_1'', Punct ''##'', Ident ''_2'', Punct ''##'', Ident ''_3'', Punct ''##'', Ident ''_4'']
 [(''_0'', p0, []), (''_1'', p1, []), (''_2'', p2, []), (''_3'', p3, []), (''_4'', p4, [])]
 False of Inl e \<Rightarrow> Inl e
 | Inr os \<Rightarrow> expand tbl m (hsadd (nm # hsinter hs h') os @ rest)))
 | _ \<Rightarrow> Inl (WrongArgCount nm)))"
  by (cases ts) (auto simp: call_macro_def starts_lparen_def call_defs seq_cons name_defs NTRNLVA_PASTE5_c99_def
      split: option.splits list.splits nat.splits cong: sum.case_cong)

lemma call_NTRNLVA_ISEMPTY_BASE_I_c99:
  "call_macro tbl n nm hs NTRNLVA_ISEMPTY_BASE_I_c99 ts =
     (if nm \<in> set hs \<or> \<not> starts_lparen ts then cons_res (Ident nm, hs) (expand tbl n ts)
      else case close_paren 0 (tl ts) of
             None \<Rightarrow> Inl (Unterminated nm)
           | Some (inside, h', rest) \<Rightarrow>
               (case split_args 0 inside of [p0, p1, p2, p3] \<Rightarrow> (case n of 0 \<Rightarrow> Inl OutOfFuel | Suc m \<Rightarrow>
 (case expand tbl m (p0) of Inl e \<Rightarrow> Inl e
 | Inr x0 \<Rightarrow> (case expand tbl m (p1) of Inl e \<Rightarrow> Inl e
 | Inr x1 \<Rightarrow> (case expand tbl m (p2) of Inl e \<Rightarrow> Inl e
 | Inr x2 \<Rightarrow> (case expand tbl m (p3) of Inl e \<Rightarrow> Inl e
 | Inr x3 \<Rightarrow> expand tbl m (hsadd (nm # hsinter hs h') ([(Ident nm_NTRNLVA_HAS_COMMA, []), (LParen, []), (Ident nm_NTRNLVA_PASTE5, []), (LParen, []), (Ident nm_NTRNLVA_IS_EMPTY_CASE_', []), (Comma, [])] @ x0 @ [(Comma, [])] @ x1 @ [(Comma, [])] @ x2 @ [(Comma, [])] @ x3 @ [(RParen, []), (RParen, [])]) @ rest))))))
 | _ \<Rightarrow> Inl (WrongArgCount nm)))"
  by (cases ts) (auto simp: call_macro_def starts_lparen_def call_defs step_defs seq_cons name_defs NTRNLVA_ISEMPTY_BASE_I_c99_def
      split: option.splits list.splits nat.splits cong: sum.case_cong)

lemma call_NTRNLVA_IS_EMPTY_CASE_0001_c99:
  "call_macro tbl n nm hs NTRNLVA_IS_EMPTY_CASE_0001_c99 ts =
     (if nm \<in> set hs then cons_res (Ident nm, hs) (expand tbl n ts)
      else case n of 0 \<Rightarrow> Inl OutOfFuel
           | Suc m \<Rightarrow> expand tbl m (hsadd (nm # hs) [(Comma, [])] @ ts))"
  by (simp add: call_macro_def step_defs hsadd_def NTRNLVA_IS_EMPTY_CASE_0001_c99_def name_defs split: nat.splits)

lemma call_VA_OPT_c99:
  "call_macro tbl n nm hs VA_OPT_c99 ts =
     (if nm \<in> set hs \<or> \<not> starts_lparen ts then cons_res (Ident nm, hs) (expand tbl n ts)
      else case close_paren 0 (tl ts) of
             None \<Rightarrow> Inl (Unterminated nm)
           | Some (inside, h', rest) \<Rightarrow>
               (case split_args 0 inside of p0 # more \<Rightarrow> (case n of 0 \<Rightarrow> Inl OutOfFuel | Suc m \<Rightarrow>
 (case expand tbl m (p0) of Inl e \<Rightarrow> Inl e
 | Inr x0 \<Rightarrow> (case expand tbl m (drop_args 1 0 inside) of Inl e \<Rightarrow> Inl e
 | Inr xva \<Rightarrow> expand tbl m (hsadd (nm # hsinter hs h') ([(Ident nm_NTRNLVA_OPT_IMPL, []), (LParen, []), (Ident nm_VA_ISEMPTY, []), (LParen, []), (Ident nm_NTRNLVA_UP, []), (LParen, [])] @ x0 @ [(RParen, []), (RParen, []), (Comma, [])] @ xva @ [(RParen, [])]) @ rest))))
 | _ \<Rightarrow> Inl (WrongArgCount nm)))"
  by (cases ts) (auto simp: call_macro_def starts_lparen_def call_defs step_defs seq_cons name_defs VA_OPT_c99_def
      split: option.splits list.splits nat.splits cong: sum.case_cong)

lemmas calls =
  call_VA_OPT_H call_VA_OPT_H_VERSION call_NTRNLVA_IMPL_NATIVE call_NTRNLVA_IMPL_GNU
  call_NTRNLVA_IMPL_MSVC call_NTRNLVA_IMPL_C99 call_NTRNLVA_EXPAND
  call_NTRNLVA_OPT_SUPPORTED_I call_VA_OPT_SUPPORTED call_NTRNLVA_MSVC_TRADITIONAL
  call_NTRNLVA_SEL1_I call_NTRNLVA_SEL2_I call_NTRNLVA_SEL3_I call_NTRNLVA_SEL1
  call_NTRNLVA_SEL2 call_NTRNLVA_SEL3 call_NTRNLVA_EMPTY call_NTRNLVA_CAT
  call_NTRNLVA_PRIMITIVE_CAT call_NTRNLVA_AND call_NTRNLVA_AND_0 call_NTRNLVA_AND_1
  call_NTRNLVA_CHECK_N call_NTRNLVA_CHECK call_NTRNLVA_PROBE call_NTRNLVA_IS_PAREN
  call_NTRNLVA_IS_PAREN_PROBE call_NTRNLVA_COMPL call_NTRNLVA_COMPL_0 call_NTRNLVA_COMPL_1
  call_NTRNLVA_UP_I call_NTRNLVA_UP call_NTRNLVA_SENTINEL_ call_NTRNLVA_IS_SENTINEL2
  call_NTRNLVA_IS_SENTINEL1 call_NTRNLVA_IS_SENTINEL call_NTRNLVA_CHECK_SENTINEL
  call_NTRNLVA_OPT_IMPL call_NTRNLVA_OPT_IMPL_0 call_NTRNLVA_OPT_IMPL_1 call_VA_NOPT
  call_EATER0 call_EATER1 call_EATER2 call_EATER3 call_EATER4 call_EATER5 call_MAC0
  call_MAC1 call_MACV call_MACMANYPLUS call_MAC2 call_NTRNLVA_IMPL_native
  call_NTRNLVA_ISEMPTY_I0_native call_NTRNLVA_ISEMPTY_I01_native
  call_NTRNLVA_ISEMPTY_I_native call_VA_ISEMPTY_native call_NTRNLVA_NOTEMPTY_I0_native
  call_NTRNLVA_NOTEMPTY_I01_native call_NTRNLVA_NOTEMPTY_I_native call_VA_NOTEMPTY_native
  call_NTRNLVA_OPT_I_native call_VA_OPT_native call_NTRNLVA_IMPL_gnu
  call_NTRNLVA_ISEMPTY_I_gnu call_NTRNLVA_ISEMPTY_INDIRECT_gnu call_VA_ISEMPTY_gnu
  call_VA_NOTEMPTY_gnu call_VA_OPT_gnu call_NTRNLVA_IMPL_msvc call_NTRNLVA_ISEMPTY_I_msvc
  call_NTRNLVA_ISEMPTY_INDIRECT_msvc call_VA_ISEMPTY_msvc call_VA_NOTEMPTY_msvc
  call_VA_OPT_msvc call_NTRNLVA_IMPL_c99 call_NTRNLVA_ISEMPTY_I_c99 call_VA_ISEMPTY_c99
  call_VA_NOTEMPTY_c99 call_NTRNLVA_HAS_COMMA_c99 call_NTRNLVA_TRIGGER_PARENTHESIS__c99
  call_NTRNLVA_ISEMPTY_BASE_c99 call_NTRNLVA_PASTE5_c99 call_NTRNLVA_ISEMPTY_BASE_I_c99
  call_NTRNLVA_IS_EMPTY_CASE_0001_c99 call_VA_OPT_c99

lemma paste_names:
  "nm_NTRNLVA_AND_' @ ''0'' = nm_NTRNLVA_AND_0"
  "nm_NTRNLVA_AND_' @ ''1'' = nm_NTRNLVA_AND_1"
  "nm_NTRNLVA_COMPL_' @ ''0'' = nm_NTRNLVA_COMPL_0"
  "nm_NTRNLVA_COMPL_' @ ''1'' = nm_NTRNLVA_COMPL_1"
  "nm_NTRNLVA_OPT_IMPL_' @ ''0'' = nm_NTRNLVA_OPT_IMPL_0"
  "nm_NTRNLVA_OPT_IMPL_' @ ''1'' = nm_NTRNLVA_OPT_IMPL_1"
  "nm_NTRNLVA_ISEMPTY_I0 @ ''1'' = nm_NTRNLVA_ISEMPTY_I01"
  "nm_NTRNLVA_NOTEMPTY_I0 @ ''1'' = nm_NTRNLVA_NOTEMPTY_I01"
  "nm_NTRNLVA_IS_EMPTY_CASE_' @ ''0001'' = nm_NTRNLVA_IS_EMPTY_CASE_0001"
  by (simp_all add: name_defs)

lemma case_miss:
  "length bs = 4 \<Longrightarrow> bs \<noteq> ''0001'' \<Longrightarrow>
   map_of (table_of C99) (nm_NTRNLVA_IS_EMPTY_CASE_' @ bs) = None"
  by (simp add: table_of_def c99_macros_def common_macros_def test_macros_def name_defs)

lemma hsinter_same: "hsinter h h = h"
  by (simp add: hsinter_def)

lemma hsinter_Nil: "hsinter [] h = []" "hsinter h [] = []"
  by (simp_all add: hsinter_def)

lemma hsinter_Cons: "hsinter (x # a) b = (if x \<in> set b then x # hsinter a b else hsinter a b)"
  by (simp add: hsinter_def)

lemma ident_chars_digit: "ident_chars ''0''" "ident_chars ''1''"
  by (simp_all add: ident_chars_def)

lemma fuel_add:
  "(case numeral k + n of 0 \<Rightarrow> a | Suc m \<Rightarrow> f m) = f (pred_numeral k + n)"
  "(case 1 + n of 0 \<Rightarrow> a | Suc m \<Rightarrow> f m) = f n"
  by (simp_all add: numeral_eq_Suc)

lemmas hs_rules = hsinter_same hsinter_Nil hsinter_Cons ident_chars_digit

lemmas eval_rules = expand_Ident expand_other expand_Nil calls cons_res_def hsadd_def hs_rules
  starts_lparen_def neq_by_code name_codes paste_names case_miss replace_def va_nonempty_def
  param_def gnu_comma_def paste_op_def va_args_def va_opt_def plain_def nest_def fuel_add


section \<open>The caller's tokens in an expansion\<close>

lemma paint_simps:
  "paint H [] = []"
  "paint H (t # ts) = (t, H) # paint H ts"
  "paint H (a @ b) = paint H a @ paint H b"
  "map plain ts = paint [] ts"
  "hsadd H' (paint H ts) = paint (H' @ H) ts"
  "(paint H ts = []) = (ts = [])"
  "map fst (paint H ts) = ts"
  by (simp_all add: paint_def plain_def hsadd_def comp_def)

lemma hsadd_simps:
  "hsadd H [] = []"
  "hsadd H ((t, h) # ts) = (t, H @ h) # hsadd H ts"
  "hsadd H (a @ b) = hsadd H a @ hsadd H b"
  by (simp_all add: hsadd_def)

lemma nest_add: "\<not> (t = RParen \<and> e = 0) \<Longrightarrow> nest t (d + e) = d + nest t e"
  by (auto simp: nest_def)

lemma nest_Suc: "\<not> (t = RParen \<and> e = 0) \<Longrightarrow> nest t (Suc e) = Suc (nest t e)"
  by (auto simp: nest_def)

lemma close_paren_depth:
  "depth_after e L = Some e' \<Longrightarrow>
   close_paren (d + e) (paint H L @ r) =
     map_option (\<lambda>(i, h, r'). (paint H L @ i, h, r')) (close_paren (d + e') r)"
proof (induction L arbitrary: e)
  case Nil
  then show ?case by (simp add: paint_simps option.map_ident split_def)
next
  case (Cons t L)
  from Cons.prems have ok: "\<not> (t = RParen \<and> e = 0)"
    and rest: "depth_after (nest t e) L = Some e'"
    by (auto split: if_splits)
  then show ?case
    using Cons.IH[OF rest]
    by (auto simp: paint_simps nest_add option.map_comp comp_def split_def)
qed

lemma close_paren_balanced:
  "balanced L \<Longrightarrow>
   close_paren d (paint H L @ r) =
     map_option (\<lambda>(i, h, r'). (paint H L @ i, h, r')) (close_paren d r)"
  using close_paren_depth[of 0 L 0 d H r] by (simp add: balanced_def)

lemma split_args_nonempty: "split_args d ts \<noteq> []"
  by (induction d ts rule: split_args.induct) (auto split: list.splits)

lemma split_args_depth:
  "depth_after e L = Some e' \<Longrightarrow> (d = 0 \<longrightarrow> comma_free e L) \<Longrightarrow>
   split_args (d + e) (paint H L @ r) =
     (case split_args (d + e') r of [] \<Rightarrow> [paint H L] | a # as \<Rightarrow> (paint H L @ a) # as)"
proof (induction L arbitrary: e)
  case Nil
  then show ?case
    using split_args_nonempty[of "d + e'" r] by (simp add: paint_simps split: list.splits)
next
  case (Cons t L)
  from Cons.prems have ok: "\<not> (t = RParen \<and> e = 0)"
    and rest: "depth_after (nest t e) L = Some e'"
    and nc: "\<not> (t = Comma \<and> d + e = 0)" and cf: "d = 0 \<longrightarrow> comma_free (nest t e) L"
    by (auto split: if_splits)
  show ?case
    using Cons.IH[OF rest cf] ok nc split_args_nonempty[of "d + e'" r]
    by (auto simp: paint_simps nest_add split: list.splits)
qed

lemma split_args_argument:
  "argument L \<Longrightarrow>
   split_args 0 (paint H L @ r) =
     (case split_args 0 r of [] \<Rightarrow> [paint H L] | a # as \<Rightarrow> (paint H L @ a) # as)"
  using split_args_depth[of 0 L 0 0 H r] by (simp add: argument_def balanced_def)

lemma split_args_balanced:
  "balanced L \<Longrightarrow>
   split_args (Suc d) (paint H L @ r) =
     (case split_args (Suc d) r of [] \<Rightarrow> [paint H L] | a # as \<Rightarrow> (paint H L @ a) # as)"
  using split_args_depth[of 0 L 0 "Suc d" H r] by (simp add: balanced_def)

lemma drop_args_depth:
  "depth_after e L = Some e' \<Longrightarrow> (d = 0 \<longrightarrow> comma_free e L) \<Longrightarrow>
   drop_args (Suc k) (d + e) (paint H L @ r) = drop_args (Suc k) (d + e') r"
proof (induction L arbitrary: e)
  case Nil
  then show ?case by (simp add: paint_simps)
next
  case (Cons t L)
  from Cons.prems have ok: "\<not> (t = RParen \<and> e = 0)"
    and rest: "depth_after (nest t e) L = Some e'"
    and nc: "\<not> (t = Comma \<and> d + e = 0)" and cf: "d = 0 \<longrightarrow> comma_free (nest t e) L"
    by (auto split: if_splits)
  show ?case
    using Cons.IH[OF rest cf] ok nc by (auto simp: paint_simps nest_add)
qed

lemma drop_args_argument:
  "argument L \<Longrightarrow> drop_args (Suc k) 0 (paint H L @ r) = drop_args (Suc k) 0 r"
  using drop_args_depth[of 0 L 0 0 k H r] by (simp add: argument_def balanced_def)

lemma drop_args_balanced:
  "balanced L \<Longrightarrow> drop_args (Suc k) (Suc d) (paint H L @ r) = drop_args (Suc k) (Suc d) r"
  using drop_args_depth[of 0 L 0 "Suc d" k H r] by (simp add: balanced_def)

lemma expand_macro_free:
  "macro_free tbl L \<Longrightarrow> expand tbl n (paint H L @ r) = prepend (paint H L) (expand tbl n r)"
proof (induction L)
  case Nil
  then show ?case by (simp add: paint_simps prepend_def split: sum.splits)
next
  case (Cons t L)
  then show ?case
    by (cases t)
       (auto simp: paint_simps macro_free_def expand_Ident expand_other prepend_def cons_res_def
          split: sum.splits)
qed

lemma segment_end:
  "argument L \<Longrightarrow> split_args 0 (paint H L) = [paint H L]"
  "balanced L \<Longrightarrow> split_args (Suc d) (paint H L) = [paint H L]"
  "argument L \<Longrightarrow> drop_args (Suc k) 0 (paint H L) = []"
  "balanced L \<Longrightarrow> drop_args (Suc k) (Suc d) (paint H L) = []"
  "macro_free tbl L \<Longrightarrow> expand tbl n (paint H L) = Inr (paint H L)"
  using split_args_argument[of L H "[]"] split_args_balanced[of L d H "[]"]
    drop_args_argument[of L k H "[]"] drop_args_balanced[of L k d H "[]"]
    expand_macro_free[of tbl L n H "[]"]
  by (simp_all add: prepend_def expand_Nil)

lemma starts_lparen_simps:
  "starts_lparen [] = False"
  "starts_lparen ((t, h) # ts) = (t = LParen)"
  "starts_lparen (paint H L @ r) = (lparen_first L \<or> (L = [] \<and> starts_lparen r))"
  "starts_lparen (paint H L) = lparen_first L"
  by (cases L; simp add: starts_lparen_def lparen_first_def paint_simps)+

lemma argument_balanced: "argument L \<Longrightarrow> balanced L"
  by (simp add: argument_def)

lemma macro_free_simps:
  "macro_free tbl []"
  "macro_free tbl (a @ b) = (macro_free tbl a \<and> macro_free tbl b)"
  "macro_free tbl (LParen # ts) = macro_free tbl ts"
  "macro_free tbl (RParen # ts) = macro_free tbl ts"
  "macro_free tbl (Comma # ts) = macro_free tbl ts"
  by (simp_all add: macro_free_def)

text \<open>The rules of evaluation for an expansion with lists of the caller's tokens in it.\<close>

lemmas sym_rules = argument_balanced segment_end expand_Ident expand_other expand_Nil calls
  cons_res_def hsadd_simps paint_simps hs_rules starts_lparen_simps neq_by_code name_codes
  paste_names case_miss replace_def va_nonempty_def param_def gnu_comma_def paste_op_def
  va_args_def va_opt_def plain_def nest_def fuel_add close_paren_balanced split_args_argument
  split_args_balanced drop_args_argument drop_args_balanced expand_macro_free prepend_def
  macro_free_simps

subsection \<open>The shape of an argument list\<close>

lemma group_split:
  "depth_after (Suc e) L = Some 0 \<Longrightarrow> comma_free (Suc e) L \<Longrightarrow>
   \<exists>G R. L = G @ RParen # R \<and> depth_after e G = Some 0 \<and> argument R \<and> closing e L = Some R"
proof (induction L arbitrary: e)
  case Nil
  then show ?case by simp
next
  case (Cons t L)
  show ?case
  proof (cases "t = RParen \<and> e = 0")
    case True
    with Cons.prems have "argument L" by (simp add: argument_def balanced_def nest_def)
    with True show ?thesis by (intro exI[of _ "[]"] exI[of _ L]) simp
  next
    case False
    with Cons.prems have "depth_after (Suc (nest t e)) L = Some 0"
      "comma_free (Suc (nest t e)) L"
      by (simp_all add: nest_Suc)
    from Cons.IH[OF this] obtain G R where
      "L = G @ RParen # R" "depth_after (nest t e) G = Some 0" "argument R"
      "closing (nest t e) L = Some R" by blast
    with False show ?thesis by (intro exI[of _ "t # G"] exI[of _ R]) simp
  qed
qed

lemma argument_group:
  assumes "argument X" "lparen_first X"
  obtains G R where "X = LParen # G @ RParen # R" "balanced G" "argument R"
    "after_group X = Some R"
proof -
  from assms(2) obtain L where X: "X = LParen # L"
    by (cases X) (auto simp: lparen_first_def)
  with assms(1) have "depth_after (Suc 0) L = Some 0" "comma_free (Suc 0) L"
    by (simp_all add: argument_def balanced_def nest_def)
  from group_split[OF this] X that show thesis
    by (auto simp: balanced_def after_group_def)
qed

lemma no_group: "\<not> lparen_first X \<Longrightarrow> after_group X = None"
  by (cases X) (auto simp: lparen_first_def after_group_def)

text \<open>An argument begins with no, one, two or three parenthesised groups.\<close>

lemma group_cases:
  assumes "argument X"
  obtains
    (g0) "\<not> lparen_first X" "\<not> three_groups X"
  | (g1) G1 T where "X = LParen # G1 @ RParen # T" "balanced G1" "argument T"
      "\<not> lparen_first T" "\<not> three_groups X"
  | (g2) G1 G2 T where "X = LParen # G1 @ RParen # LParen # G2 @ RParen # T" "balanced G1"
      "balanced G2" "argument T" "\<not> lparen_first T" "\<not> three_groups X"
  | (g3) G1 G2 G3 R where
      "X = LParen # G1 @ RParen # LParen # G2 @ RParen # LParen # G3 @ RParen # R"
      "balanced G1" "balanced G2" "balanced G3" "argument R" "three_groups X"
proof (cases "lparen_first X")
  case False
  then show thesis using g0 by (simp add: three_groups_def no_group)
next
  case True
  from argument_group[OF assms True] obtain G1 R1 where
    1: "X = LParen # G1 @ RParen # R1" "balanced G1" "argument R1" "after_group X = Some R1"
    by blast
  show thesis
  proof (cases "lparen_first R1")
    case False
    then show thesis using g1[OF 1(1-3)] 1(4) by (simp add: three_groups_def no_group)
  next
    case True
    from argument_group[OF 1(3) True] obtain G2 R2 where
      2: "R1 = LParen # G2 @ RParen # R2" "balanced G2" "argument R2"
      "after_group R1 = Some R2" by blast
    show thesis
    proof (cases "lparen_first R2")
      case False
      then show thesis
        using g2[of G1 G2 R2] 1 2 by (simp add: three_groups_def no_group)
    next
      case True
      from argument_group[OF 2(3) True] obtain G3 R3 where
        3: "R2 = LParen # G3 @ RParen # R3" "balanced G3" "argument R3"
        "after_group R2 = Some R3" by blast
      show thesis
        using g3[of G1 G2 G3 R3] 1 2 3 by (simp add: three_groups_def)
    qed
  qed
qed

text \<open>A balanced list is one argument, or an argument, a comma and a balanced list.\<close>

lemma first_argument:
  "depth_after e L = Some 0 \<Longrightarrow>
   comma_free e L \<or>
   (\<exists>S M. L = S @ Comma # M \<and> depth_after e S = Some 0 \<and> comma_free e S \<and> balanced M)"
proof (induction L arbitrary: e)
  case Nil
  then show ?case by simp
next
  case (Cons t L)
  from Cons.prems have ok: "\<not> (t = RParen \<and> e = 0)"
    and rest: "depth_after (nest t e) L = Some 0"
    by (auto split: if_splits)
  show ?case
  proof (cases "t = Comma \<and> e = 0")
    case True
    with rest have "balanced L" by (simp add: balanced_def nest_def)
    with True show ?thesis by (intro disjI2 exI[of _ "[]"] exI[of _ L]) simp
  next
    case False
    from Cons.IH[OF rest] show ?thesis
    proof
      assume "comma_free (nest t e) L"
      with False show ?thesis by simp
    next
      assume "\<exists>S M. L = S @ Comma # M \<and> depth_after (nest t e) S = Some 0 \<and>
        comma_free (nest t e) S \<and> balanced M"
      then obtain S M where "L = S @ Comma # M" "depth_after (nest t e) S = Some 0"
        "comma_free (nest t e) S" "balanced M" by blast
      with False ok show ?thesis by (intro disjI2 exI[of _ "t # S"] exI[of _ M]) simp
    qed
  qed
qed

lemma balanced_cases:
  assumes "balanced L"
  obtains (one) "argument L" | (more) S M where "L = S @ Comma # M" "argument S" "balanced M"
  using first_argument[of 0 L] assms by (auto simp: balanced_def argument_def)

lemma slots_simps:
  "argument S \<Longrightarrow> slots S = [S]"
  "argument S \<Longrightarrow> slots (S @ Comma # M) = S # slots M"
proof -
  assume S: "argument S"
  then show "slots S = [S]"
    by (simp add: slots_def paint_simps segment_end)
  from S have "split_args 0 (paint [] S @ (Comma, []) # paint [] M) =
      paint [] S # split_args 0 (paint [] M)"
    by (simp add: split_args_argument)
  then show "slots (S @ Comma # M) = S # slots M"
    by (simp add: slots_def paint_simps plain_def)
qed

lemma slots_nonempty: "slots M \<noteq> []"
  by (simp add: slots_def split_args_nonempty)

lemma second_sentinel_simps:
  "argument S \<Longrightarrow> second_sentinel S = False"
  "argument S \<Longrightarrow> second_sentinel (S @ Comma # M) = three_groups (hd (slots M))"
  using slots_nonempty[of M]
  by (auto simp: second_sentinel_def slots_simps split: list.splits)

subsection \<open>A macro of the translation unit\<close>

lemmas lookups = lookup_native miss_native lookup_gnu miss_gnu lookup_msvc miss_msvc
  lookup_c99 miss_c99

lemma lookup_user:
  "map_of (table_with [(m, M)] s) k = (if k = m then Some M else map_of (table_of s) k)"
  by (simp add: table_with_def)

lemma name_differs:
  "map_of tbl m = None \<Longrightarrow> map_of tbl a \<noteq> None \<Longrightarrow> (a = m) = False"
  "map_of tbl m = None \<Longrightarrow> map_of tbl a \<noteq> None \<Longrightarrow> (m = a) = False"
  by auto

lemma key_differs:
  "take 8 m \<noteq> ''NTRNLVA_'' \<Longrightarrow> (nm_NTRNLVA_IS_EMPTY_CASE_' @ bs = m) = False"
  by (auto simp: name_defs)

lemma user_name_rules:
  assumes "user_name s m"
  shows "map_of (table_of s) a \<noteq> None \<Longrightarrow> (a = m) = False"
    and "map_of (table_of s) a \<noteq> None \<Longrightarrow> (m = a) = False"
    and "(nm_NTRNLVA_IS_EMPTY_CASE_' @ bs = m) = False"
    and "map_of (table_of s) m = None"
  using assms name_differs[of "table_of s" m a] key_differs[of m bs]
  by (simp_all add: user_name_def)

text \<open>The macro is invoked with empty parentheses, or its name is not followed by a
  parenthesis.\<close>

lemma call_no_parameter:
  "m \<notin> set hs \<Longrightarrow>
   call_macro tbl (Suc k) m hs (FunctionLike [] False body) ((LParen, h1) # (RParen, h2) # rest) =
     (case replace body [] False of
        Inl e \<Rightarrow> Inl e
      | Inr os \<Rightarrow> expand tbl k (hsadd (m # hsinter hs h2) os @ rest))"
  by (simp add: call_macro_def call_defs)

lemma call_two_parameters:
  "m \<notin> set hs \<Longrightarrow> 2 \<le> length ps \<Longrightarrow>
   call_macro tbl n m hs (FunctionLike ps v body) ((LParen, h1) # (RParen, h2) # rest) =
     Inl (WrongArgCount m)"
  by (auto simp: call_macro_def call_defs Let_def)

lemma call_name_only:
  "\<not> starts_lparen ts \<Longrightarrow>
   call_macro tbl n m hs (FunctionLike ps v body) ts = cons_res (Ident m, hs) (expand tbl n ts)"
  by (cases ts) (auto simp: call_macro_def call_defs starts_lparen_def)

lemma fuel_Suc: "numeral k + n = Suc (pred_numeral k + n)"
  by (simp add: numeral_eq_Suc)

lemmas user_rules = sym_rules lookups lookup_user call_no_parameter call_two_parameters
  call_name_only fuel_Suc spelling_def zero_def one_def

text \<open>A replacement list without parameters, \<^verbatim>\<open>##\<close> and \<^verbatim>\<open>__VA_OPT__\<close> replaces
  the invocation as it is.\<close>

lemma resolve_va_opt_plain:
  "Ident ''__VA_OPT__'' \<notin> set body \<Longrightarrow> resolve_va_opt keep None body = body"
  by (induction body) (auto simp: va_opt_def)

lemma subst_plain:
  "Punct ''##'' \<notin> fst ` set ts \<Longrightarrow> subst [] sw ts os = Inr (os @ ts)"
proof (induction ts arbitrary: os)
  case Nil
  then show ?case by simp
next
  case (Cons a ts)
  obtain t h where a: "a = (t, h)" by (cases a)
  show ?case
  proof (cases ts)
    case Nil
    with Cons.prems a show ?thesis by (simp add: param_def paste_op_def split: tok.splits)
  next
    case (Cons b ts')
    obtain u hu where b: "b = (u, hu)" by (cases b)
    from Cons.prems a have "Punct ''##'' \<notin> fst ` set ts" "t \<noteq> Punct ''##''" by auto
    with Cons.IH[of "os @ [(t, h)]"] a b Cons show ?thesis
      by (auto simp: param_def paste_op_def gnu_comma_def split: tok.splits)
  qed
qed

lemma replace_plain:
  "Ident ''__VA_OPT__'' \<notin> set body \<Longrightarrow> Punct ''##'' \<notin> set body \<Longrightarrow>
   replace body [] sw = Inr (paint [] body)"
proof -
  assume a: "Ident ''__VA_OPT__'' \<notin> set body" "Punct ''##'' \<notin> set body"
  have "fst ` set (paint [] body) = set body" by (auto simp: paint_def image_def)
  with a(2) have "subst [] sw (paint [] body) [] = Inr (paint [] body)"
    using subst_plain[of "paint [] body" sw "[]"] by simp
  with a(1) show ?thesis by (simp add: replace_def resolve_va_opt_plain paint_simps)
qed

lemma macro_free_user:
  "macro_free (table_with [(m, M)] s) X = (macro_free (table_of s) X \<and> Ident m \<notin> set X)"
  by (induction X) (auto simp: macro_free_def table_with_def split: tok.splits)

lemma subst_paint:
  "Punct ''##'' \<notin> set body \<Longrightarrow> subst [] sw (paint H body) os = Inr (os @ paint H body)"
proof -
  assume a: "Punct ''##'' \<notin> set body"
  have "fst ` set (paint H body) = set body" by (auto simp: paint_def image_def)
  with a show ?thesis using subst_plain[of "paint H body" sw os] by simp
qed

lemma subst_Cons:
  "t \<noteq> Punct ''##'' \<Longrightarrow> subst [] sw ((t, h) # r) os = subst [] sw r (os @ [(t, h)])"
  by (cases r) (auto simp: param_def paste_op_def gnu_comma_def split: tok.splits)

lemma subst_append:
  "Punct ''##'' \<notin> set body \<Longrightarrow>
   subst [] sw (paint H body @ r) os = subst [] sw r (os @ paint H body)"
  by (induction body arbitrary: os) (auto simp: paint_simps subst_Cons)

lemmas body_rules = resolve_va_opt_plain subst_paint subst_Cons subst_append macro_free_user

section \<open>What the public macros compute\<close>

text \<open>
  The value of \<^verbatim>\<open>VA_ISEMPTY\<close>, \<^verbatim>\<open>VA_NOTEMPTY\<close> and \<^verbatim>\<open>VA_NOPT\<close> for every argument
  list with matched parentheses and no macro name in it, under the native, the GNU and the
  portable strategy. Each is found by expanding the invocation for the shapes the list can
  have: empty; one argument, which begins with a parenthesis or not; more arguments, where
  the second begins with no, one, two or three parenthesised groups.
\<close>

subsection \<open>\<^verbatim>\<open>VA_ISEMPTY\<close>\<close>

lemma VA_ISEMPTY_Native_empty:
  "VA_ISEMPTY_of Native (20 + n)
    ([]) =
    Inr one"
  unfolding VA_ISEMPTY_of_def run_def invoke_def nm_VA_ISEMPTY_def[symmetric]
  by (simp add: sym_rules lookup_native miss_native spelling_def zero_def one_def)

lemma VA_ISEMPTY_Native_nonempty:
  assumes "macro_free (table_of Native) L" "balanced L" "L \<noteq> []"
  shows "VA_ISEMPTY_of Native (20 + n)
    (L) =
    Inr zero"
  unfolding VA_ISEMPTY_of_def run_def invoke_def nm_VA_ISEMPTY_def[symmetric]
  using assms
  by (simp add: sym_rules lookup_native miss_native spelling_def zero_def one_def)

lemma VA_ISEMPTY_Native_value:
  assumes mf: "macro_free (table_of Native) L" and bal: "balanced L"
  shows "VA_ISEMPTY_of Native (20 + n)
    (L) =
    (if L = [] \<or> taken_for_empty Native L then Inr one else Inr zero)"
proof (cases "L = []")
  case True
  then show ?thesis using mf by (simp add: VA_ISEMPTY_Native_empty)
next
  case False
  then show ?thesis using mf bal mf by (simp add: VA_ISEMPTY_Native_nonempty taken_for_empty_def)
qed

lemma VA_ISEMPTY_GNU_empty:
  "VA_ISEMPTY_of GNU (20 + n)
    ([]) =
    Inr one"
  unfolding VA_ISEMPTY_of_def run_def invoke_def nm_VA_ISEMPTY_def[symmetric]
  by (simp add: sym_rules lookup_gnu miss_gnu spelling_def zero_def one_def)

lemma VA_ISEMPTY_GNU_one:
  assumes "macro_free (table_of GNU) S" "argument S" "S \<noteq> []"
  shows "VA_ISEMPTY_of GNU (20 + n)
    (S) =
    Inr zero"
  unfolding VA_ISEMPTY_of_def run_def invoke_def nm_VA_ISEMPTY_def[symmetric]
  using assms
  by (simp add: sym_rules lookup_gnu miss_gnu spelling_def zero_def one_def)

lemma VA_ISEMPTY_GNU_no_group:
  assumes "macro_free (table_of GNU) S" "argument S" "macro_free (table_of GNU) T" "argument T"
    "\<not> lparen_first T"
  shows "VA_ISEMPTY_of GNU (20 + n)
    (S @ Comma # T) =
    Inr zero"
  unfolding VA_ISEMPTY_of_def run_def invoke_def nm_VA_ISEMPTY_def[symmetric]
  using assms
  by (simp add: sym_rules lookup_gnu miss_gnu spelling_def zero_def one_def)

lemma VA_ISEMPTY_GNU_one_group:
  assumes "macro_free (table_of GNU) S" "argument S" "macro_free (table_of GNU) G1" "balanced G1"
    "macro_free (table_of GNU) T" "argument T" "\<not> lparen_first T"
  shows "VA_ISEMPTY_of GNU (20 + n)
    (S @ Comma # LParen # G1 @ RParen # T) =
    Inr zero"
  unfolding VA_ISEMPTY_of_def run_def invoke_def nm_VA_ISEMPTY_def[symmetric]
  using assms
  by (simp add: sym_rules lookup_gnu miss_gnu spelling_def zero_def one_def)

lemma VA_ISEMPTY_GNU_two_groups:
  assumes "macro_free (table_of GNU) S" "argument S" "macro_free (table_of GNU) G1" "balanced G1"
    "macro_free (table_of GNU) G2" "balanced G2" "macro_free (table_of GNU) T" "argument T"
    "\<not> lparen_first T"
  shows "VA_ISEMPTY_of GNU (20 + n)
    (S @ Comma # LParen # G1 @ RParen # LParen # G2 @ RParen # T) =
    Inr zero"
  unfolding VA_ISEMPTY_of_def run_def invoke_def nm_VA_ISEMPTY_def[symmetric]
  using assms
  by (simp add: sym_rules lookup_gnu miss_gnu spelling_def zero_def one_def)

lemma VA_ISEMPTY_GNU_three_groups:
  assumes "macro_free (table_of GNU) S" "argument S" "macro_free (table_of GNU) G1" "balanced G1"
    "macro_free (table_of GNU) G2" "balanced G2" "macro_free (table_of GNU) G3" "balanced G3"
    "macro_free (table_of GNU) R" "argument R"
  shows "VA_ISEMPTY_of GNU (20 + n)
    (S @ Comma # LParen # G1 @ RParen # LParen # G2 @ RParen # LParen # G3 @ RParen # R) =
    Inr one"
  unfolding VA_ISEMPTY_of_def run_def invoke_def nm_VA_ISEMPTY_def[symmetric]
  using assms
  by (simp add: sym_rules lookup_gnu miss_gnu spelling_def zero_def one_def)

lemma VA_ISEMPTY_GNU_no_group_more:
  assumes "macro_free (table_of GNU) S" "argument S" "macro_free (table_of GNU) T" "argument T"
    "\<not> lparen_first T" "macro_free (table_of GNU) M" "balanced M"
  shows "VA_ISEMPTY_of GNU (20 + n)
    (S @ Comma # T @ Comma # M) =
    Inr zero"
  unfolding VA_ISEMPTY_of_def run_def invoke_def nm_VA_ISEMPTY_def[symmetric]
  using assms
  by (simp add: sym_rules lookup_gnu miss_gnu spelling_def zero_def one_def)

lemma VA_ISEMPTY_GNU_one_group_more:
  assumes "macro_free (table_of GNU) S" "argument S" "macro_free (table_of GNU) G1" "balanced G1"
    "macro_free (table_of GNU) T" "argument T" "\<not> lparen_first T"
    "macro_free (table_of GNU) M" "balanced M"
  shows "VA_ISEMPTY_of GNU (20 + n)
    (S @ Comma # LParen # G1 @ RParen # T @ Comma # M) =
    Inr zero"
  unfolding VA_ISEMPTY_of_def run_def invoke_def nm_VA_ISEMPTY_def[symmetric]
  using assms
  by (simp add: sym_rules lookup_gnu miss_gnu spelling_def zero_def one_def)

lemma VA_ISEMPTY_GNU_two_groups_more:
  assumes "macro_free (table_of GNU) S" "argument S" "macro_free (table_of GNU) G1" "balanced G1"
    "macro_free (table_of GNU) G2" "balanced G2" "macro_free (table_of GNU) T" "argument T"
    "\<not> lparen_first T" "macro_free (table_of GNU) M" "balanced M"
  shows "VA_ISEMPTY_of GNU (20 + n)
    (S @ Comma # LParen # G1 @ RParen # LParen # G2 @ RParen # T @ Comma # M) =
    Inr zero"
  unfolding VA_ISEMPTY_of_def run_def invoke_def nm_VA_ISEMPTY_def[symmetric]
  using assms
  by (simp add: sym_rules lookup_gnu miss_gnu spelling_def zero_def one_def)

lemma VA_ISEMPTY_GNU_three_groups_more:
  assumes "macro_free (table_of GNU) S" "argument S" "macro_free (table_of GNU) G1" "balanced G1"
    "macro_free (table_of GNU) G2" "balanced G2" "macro_free (table_of GNU) G3" "balanced G3"
    "macro_free (table_of GNU) R" "argument R" "macro_free (table_of GNU) M" "balanced M"
  shows "VA_ISEMPTY_of GNU (20 + n)
    (S @ Comma # LParen # G1 @ RParen # LParen # G2 @ RParen # LParen # G3 @ RParen # R @ Comma # M) =
    Inr one"
  unfolding VA_ISEMPTY_of_def run_def invoke_def nm_VA_ISEMPTY_def[symmetric]
  using assms
  by (simp add: sym_rules lookup_gnu miss_gnu spelling_def zero_def one_def)

lemma VA_ISEMPTY_GNU_second:
  assumes "macro_free (table_of GNU) S" "argument S" "macro_free (table_of GNU) M" "balanced M"
  shows "VA_ISEMPTY_of GNU (20 + n)
    (S @ Comma # M) =
    (if three_groups (hd (slots M)) then Inr one else Inr zero)"
  using assms(4)
proof (cases rule: balanced_cases)
  case one
  then have hd: "hd (slots M) = M" by (simp add: slots_simps)
  from one show ?thesis
  proof (cases rule: group_cases)
    case g0
    with hd assms one show ?thesis
      by (simp add: VA_ISEMPTY_GNU_no_group macro_free_simps)
  next
    case (g1 G1 T)
    with hd assms one show ?thesis
      by (simp add: VA_ISEMPTY_GNU_one_group macro_free_simps)
  next
    case (g2 G1 G2 T)
    with hd assms one show ?thesis
      by (simp add: VA_ISEMPTY_GNU_two_groups macro_free_simps)
  next
    case (g3 G1 G2 G3 R)
    with hd assms one show ?thesis
      by (simp add: VA_ISEMPTY_GNU_three_groups macro_free_simps)
  qed
next
  case (more S M')
  then have hd: "hd (slots M) = S" by (simp add: slots_simps)
  from more(2) show ?thesis
  proof (cases rule: group_cases)
    case g0
    with hd assms more show ?thesis
      by (simp add: VA_ISEMPTY_GNU_no_group_more macro_free_simps)
  next
    case (g1 G1 T)
    with hd assms more show ?thesis
      by (simp add: VA_ISEMPTY_GNU_one_group_more macro_free_simps)
  next
    case (g2 G1 G2 T)
    with hd assms more show ?thesis
      by (simp add: VA_ISEMPTY_GNU_two_groups_more macro_free_simps)
  next
    case (g3 G1 G2 G3 R)
    with hd assms more show ?thesis
      by (simp add: VA_ISEMPTY_GNU_three_groups_more macro_free_simps)
  qed
qed

lemma VA_ISEMPTY_GNU_value:
  assumes mf: "macro_free (table_of GNU) L" and bal: "balanced L"
  shows "VA_ISEMPTY_of GNU (20 + n)
    (L) =
    (if L = [] \<or> taken_for_empty GNU L then Inr one else Inr zero)"
  using bal
proof (cases rule: balanced_cases)
  case one
  show ?thesis
  proof (cases "L = []")
    case True
    then show ?thesis using mf by (simp add: VA_ISEMPTY_GNU_empty)
  next
    case False
    then show ?thesis
      using mf one mf by (simp add: VA_ISEMPTY_GNU_one taken_for_empty_def second_sentinel_simps)
  qed
next
  case (more S M)
  then have tk: "taken_for_empty GNU L = three_groups (hd (slots M))"
    by (simp add: taken_for_empty_def second_sentinel_simps)
  have ne: "L \<noteq> []" using more by simp
  show ?thesis
    unfolding tk using ne mf more mf by (simp add: VA_ISEMPTY_GNU_second macro_free_simps)
qed

lemma VA_ISEMPTY_C99_empty:
  "VA_ISEMPTY_of C99 (20 + n)
    ([]) =
    Inr one"
  unfolding VA_ISEMPTY_of_def run_def invoke_def nm_VA_ISEMPTY_def[symmetric]
  by (simp add: sym_rules lookup_c99 miss_c99 spelling_def zero_def one_def)

lemma VA_ISEMPTY_C99_one_plain:
  assumes "macro_free (table_of C99) S" "argument S" "S \<noteq> []" "\<not> lparen_first S"
  shows "VA_ISEMPTY_of C99 (20 + n)
    (S) =
    Inr zero"
  unfolding VA_ISEMPTY_of_def run_def invoke_def nm_VA_ISEMPTY_def[symmetric]
  using assms
  by (simp add: sym_rules lookup_c99 miss_c99 spelling_def zero_def one_def)

lemma VA_ISEMPTY_C99_one_paren:
  assumes "macro_free (table_of C99) G" "balanced G" "macro_free (table_of C99) R" "argument R"
  shows "VA_ISEMPTY_of C99 (20 + n)
    (LParen # G @ RParen # R) =
    Inr zero"
  unfolding VA_ISEMPTY_of_def run_def invoke_def nm_VA_ISEMPTY_def[symmetric]
  using assms
  by (simp add: sym_rules lookup_c99 miss_c99 spelling_def zero_def one_def)

lemma VA_ISEMPTY_C99_more_plain:
  assumes "macro_free (table_of C99) S" "argument S" "S \<noteq> []" "\<not> lparen_first S"
    "macro_free (table_of C99) M" "balanced M"
  shows "VA_ISEMPTY_of C99 (20 + n)
    (S @ Comma # M) =
    Inr zero"
  unfolding VA_ISEMPTY_of_def run_def invoke_def nm_VA_ISEMPTY_def[symmetric]
  using assms
  by (simp add: sym_rules lookup_c99 miss_c99 spelling_def zero_def one_def)

lemma VA_ISEMPTY_C99_more_paren:
  assumes "macro_free (table_of C99) G" "balanced G" "macro_free (table_of C99) R" "argument R"
    "macro_free (table_of C99) M" "balanced M"
  shows "VA_ISEMPTY_of C99 (20 + n)
    (LParen # G @ RParen # R @ Comma # M) =
    Inr zero"
  unfolding VA_ISEMPTY_of_def run_def invoke_def nm_VA_ISEMPTY_def[symmetric]
  using assms
  by (simp add: sym_rules lookup_c99 miss_c99 spelling_def zero_def one_def)

lemma VA_ISEMPTY_C99_no_group:
  assumes "macro_free (table_of C99) T" "argument T" "\<not> lparen_first T"
  shows "VA_ISEMPTY_of C99 (20 + n)
    (Comma # T) =
    Inr zero"
  unfolding VA_ISEMPTY_of_def run_def invoke_def nm_VA_ISEMPTY_def[symmetric]
  using assms
  by (simp add: sym_rules lookup_c99 miss_c99 spelling_def zero_def one_def)

lemma VA_ISEMPTY_C99_one_group:
  assumes "macro_free (table_of C99) G1" "balanced G1" "macro_free (table_of C99) T" "argument T"
    "\<not> lparen_first T"
  shows "VA_ISEMPTY_of C99 (20 + n)
    (Comma # LParen # G1 @ RParen # T) =
    Inr zero"
  unfolding VA_ISEMPTY_of_def run_def invoke_def nm_VA_ISEMPTY_def[symmetric]
  using assms
  by (simp add: sym_rules lookup_c99 miss_c99 spelling_def zero_def one_def)

lemma VA_ISEMPTY_C99_two_groups:
  assumes "macro_free (table_of C99) G1" "balanced G1" "macro_free (table_of C99) G2" "balanced G2"
    "macro_free (table_of C99) T" "argument T" "\<not> lparen_first T"
  shows "VA_ISEMPTY_of C99 (20 + n)
    (Comma # LParen # G1 @ RParen # LParen # G2 @ RParen # T) =
    Inr zero"
  unfolding VA_ISEMPTY_of_def run_def invoke_def nm_VA_ISEMPTY_def[symmetric]
  using assms
  by (simp add: sym_rules lookup_c99 miss_c99 spelling_def zero_def one_def)

lemma VA_ISEMPTY_C99_three_groups:
  assumes "macro_free (table_of C99) G1" "balanced G1" "macro_free (table_of C99) G2" "balanced G2"
    "macro_free (table_of C99) G3" "balanced G3" "macro_free (table_of C99) R" "argument R"
  shows "VA_ISEMPTY_of C99 (20 + n)
    (Comma # LParen # G1 @ RParen # LParen # G2 @ RParen # LParen # G3 @ RParen # R) =
    Inr one"
  unfolding VA_ISEMPTY_of_def run_def invoke_def nm_VA_ISEMPTY_def[symmetric]
  using assms
  by (simp add: sym_rules lookup_c99 miss_c99 spelling_def zero_def one_def)

lemma VA_ISEMPTY_C99_no_group_more:
  assumes "macro_free (table_of C99) T" "argument T" "\<not> lparen_first T"
    "macro_free (table_of C99) M" "balanced M"
  shows "VA_ISEMPTY_of C99 (20 + n)
    (Comma # T @ Comma # M) =
    Inr zero"
  unfolding VA_ISEMPTY_of_def run_def invoke_def nm_VA_ISEMPTY_def[symmetric]
  using assms
  by (simp add: sym_rules lookup_c99 miss_c99 spelling_def zero_def one_def)

lemma VA_ISEMPTY_C99_one_group_more:
  assumes "macro_free (table_of C99) G1" "balanced G1" "macro_free (table_of C99) T" "argument T"
    "\<not> lparen_first T" "macro_free (table_of C99) M" "balanced M"
  shows "VA_ISEMPTY_of C99 (20 + n)
    (Comma # LParen # G1 @ RParen # T @ Comma # M) =
    Inr zero"
  unfolding VA_ISEMPTY_of_def run_def invoke_def nm_VA_ISEMPTY_def[symmetric]
  using assms
  by (simp add: sym_rules lookup_c99 miss_c99 spelling_def zero_def one_def)

lemma VA_ISEMPTY_C99_two_groups_more:
  assumes "macro_free (table_of C99) G1" "balanced G1" "macro_free (table_of C99) G2" "balanced G2"
    "macro_free (table_of C99) T" "argument T" "\<not> lparen_first T"
    "macro_free (table_of C99) M" "balanced M"
  shows "VA_ISEMPTY_of C99 (20 + n)
    (Comma # LParen # G1 @ RParen # LParen # G2 @ RParen # T @ Comma # M) =
    Inr zero"
  unfolding VA_ISEMPTY_of_def run_def invoke_def nm_VA_ISEMPTY_def[symmetric]
  using assms
  by (simp add: sym_rules lookup_c99 miss_c99 spelling_def zero_def one_def)

lemma VA_ISEMPTY_C99_three_groups_more:
  assumes "macro_free (table_of C99) G1" "balanced G1" "macro_free (table_of C99) G2" "balanced G2"
    "macro_free (table_of C99) G3" "balanced G3" "macro_free (table_of C99) R" "argument R"
    "macro_free (table_of C99) M" "balanced M"
  shows "VA_ISEMPTY_of C99 (20 + n)
    (Comma # LParen # G1 @ RParen # LParen # G2 @ RParen # LParen # G3 @ RParen # R @ Comma # M) =
    Inr one"
  unfolding VA_ISEMPTY_of_def run_def invoke_def nm_VA_ISEMPTY_def[symmetric]
  using assms
  by (simp add: sym_rules lookup_c99 miss_c99 spelling_def zero_def one_def)

lemma VA_ISEMPTY_C99_second:
  assumes "macro_free (table_of C99) M" "balanced M"
  shows "VA_ISEMPTY_of C99 (20 + n)
    (Comma # M) =
    (if three_groups (hd (slots M)) then Inr one else Inr zero)"
  using assms(2)
proof (cases rule: balanced_cases)
  case one
  then have hd: "hd (slots M) = M" by (simp add: slots_simps)
  from one show ?thesis
  proof (cases rule: group_cases)
    case g0
    with hd assms one show ?thesis
      by (simp add: VA_ISEMPTY_C99_no_group macro_free_simps)
  next
    case (g1 G1 T)
    with hd assms one show ?thesis
      by (simp add: VA_ISEMPTY_C99_one_group macro_free_simps)
  next
    case (g2 G1 G2 T)
    with hd assms one show ?thesis
      by (simp add: VA_ISEMPTY_C99_two_groups macro_free_simps)
  next
    case (g3 G1 G2 G3 R)
    with hd assms one show ?thesis
      by (simp add: VA_ISEMPTY_C99_three_groups macro_free_simps)
  qed
next
  case (more S M')
  then have hd: "hd (slots M) = S" by (simp add: slots_simps)
  from more(2) show ?thesis
  proof (cases rule: group_cases)
    case g0
    with hd assms more show ?thesis
      by (simp add: VA_ISEMPTY_C99_no_group_more macro_free_simps)
  next
    case (g1 G1 T)
    with hd assms more show ?thesis
      by (simp add: VA_ISEMPTY_C99_one_group_more macro_free_simps)
  next
    case (g2 G1 G2 T)
    with hd assms more show ?thesis
      by (simp add: VA_ISEMPTY_C99_two_groups_more macro_free_simps)
  next
    case (g3 G1 G2 G3 R)
    with hd assms more show ?thesis
      by (simp add: VA_ISEMPTY_C99_three_groups_more macro_free_simps)
  qed
qed

lemma VA_ISEMPTY_C99_value:
  assumes mf: "macro_free (table_of C99) L" and bal: "balanced L"
  shows "VA_ISEMPTY_of C99 (20 + n)
    (L) =
    (if L = [] \<or> taken_for_empty C99 L then Inr one else Inr zero)"
  using bal
proof (cases rule: balanced_cases)
  case one
  then have tk: "taken_for_empty C99 L = False"
    by (simp add: taken_for_empty_def second_sentinel_simps)
  show ?thesis
  proof (cases "L = []")
    case True
    then show ?thesis using mf by (simp add: VA_ISEMPTY_C99_empty)
  next
    case False
    show ?thesis
    proof (cases "lparen_first L")
      case no: False
      with False show ?thesis
        unfolding tk using mf one mf by (simp add: VA_ISEMPTY_C99_one_plain)
    next
      case True
      from argument_group[OF one True] obtain G R where
        "L = LParen # G @ RParen # R" "balanced G" "argument R" by blast
      then show ?thesis
        unfolding tk using mf mf by (simp add: VA_ISEMPTY_C99_one_paren macro_free_simps)
    qed
  qed
next
  case (more S M)
  then have tk: "taken_for_empty C99 L = (three_groups (hd (slots M)) \<and> S = [])"
    by (simp add: taken_for_empty_def second_sentinel_simps slots_simps)
  have ne: "(L = []) = False" using more by simp
  show ?thesis
  proof (cases "S = []")
    case True
    with more have "L = Comma # M" by simp
    with True show ?thesis
      unfolding tk ne using mf more mf by (simp add: VA_ISEMPTY_C99_second macro_free_simps)
  next
    case False
    show ?thesis
    proof (cases "lparen_first S")
      case no: False
      with False show ?thesis
        unfolding tk ne using mf more mf by (simp add: VA_ISEMPTY_C99_more_plain macro_free_simps)
    next
      case True
      from argument_group[OF more(2) True] obtain G R where
        "S = LParen # G @ RParen # R" "balanced G" "argument R" by blast
      with False show ?thesis
        unfolding tk ne using mf more mf by (simp add: VA_ISEMPTY_C99_more_paren macro_free_simps)
    qed
  qed
qed

lemma VA_ISEMPTY_value:
  assumes "s \<noteq> MSVC" "macro_free (table_of s) L" "balanced L"
  shows "VA_ISEMPTY_of s (20 + n) (L) =
    Inr (if L = [] \<or> taken_for_empty s L then one else zero)"
  using assms
  by (cases s) (simp_all add: VA_ISEMPTY_Native_value VA_ISEMPTY_GNU_value VA_ISEMPTY_C99_value)

subsection \<open>\<^verbatim>\<open>VA_NOTEMPTY\<close>\<close>
































subsection \<open>\<^verbatim>\<open>VA_NOPT\<close>\<close>

lemma VA_NOPT_Native_empty:
  assumes "macro_free (table_of Native) X" "balanced X"
  shows "VA_NOPT_of Native (30 + n)
    ([]) X =
    Inr X"
  unfolding VA_NOPT_of_def run_def invoke_def nm_VA_NOPT_def[symmetric]
  using assms
  by (simp add: sym_rules lookup_native miss_native spelling_def)

lemma VA_NOPT_Native_nonempty:
  assumes "macro_free (table_of Native) X" "balanced X" "macro_free (table_of Native) L" "balanced L"
    "L \<noteq> []"
  shows "VA_NOPT_of Native (30 + n)
    (L) X =
    Inr []"
  unfolding VA_NOPT_of_def run_def invoke_def nm_VA_NOPT_def[symmetric]
  using assms
  by (simp add: sym_rules lookup_native miss_native spelling_def)

lemma VA_NOPT_Native_value:
  assumes mf: "macro_free (table_of Native) L" and bal: "balanced L" and x0: "macro_free (table_of Native) X" and x1: "balanced X"
  shows "VA_NOPT_of Native (30 + n)
    (L) X =
    (if L = [] \<or> taken_for_empty Native L then Inr X else Inr [])"
proof (cases "L = []")
  case True
  then show ?thesis using x0 x1 by (simp add: VA_NOPT_Native_empty)
next
  case False
  then show ?thesis using mf bal x0 x1 by (simp add: VA_NOPT_Native_nonempty taken_for_empty_def)
qed

lemma VA_NOPT_GNU_empty:
  assumes "macro_free (table_of GNU) X" "balanced X"
  shows "VA_NOPT_of GNU (30 + n)
    ([]) X =
    Inr X"
  unfolding VA_NOPT_of_def run_def invoke_def nm_VA_NOPT_def[symmetric]
  using assms
  by (simp add: sym_rules lookup_gnu miss_gnu spelling_def)

lemma VA_NOPT_GNU_one:
  assumes "macro_free (table_of GNU) X" "balanced X" "macro_free (table_of GNU) S" "argument S"
    "S \<noteq> []"
  shows "VA_NOPT_of GNU (30 + n)
    (S) X =
    Inr []"
  unfolding VA_NOPT_of_def run_def invoke_def nm_VA_NOPT_def[symmetric]
  using assms
  by (simp add: sym_rules lookup_gnu miss_gnu spelling_def)

lemma VA_NOPT_GNU_no_group:
  assumes "macro_free (table_of GNU) X" "balanced X" "macro_free (table_of GNU) S" "argument S"
    "macro_free (table_of GNU) T" "argument T" "\<not> lparen_first T"
  shows "VA_NOPT_of GNU (30 + n)
    (S @ Comma # T) X =
    Inr []"
  unfolding VA_NOPT_of_def run_def invoke_def nm_VA_NOPT_def[symmetric]
  using assms
  by (simp add: sym_rules lookup_gnu miss_gnu spelling_def)

lemma VA_NOPT_GNU_one_group:
  assumes "macro_free (table_of GNU) X" "balanced X" "macro_free (table_of GNU) S" "argument S"
    "macro_free (table_of GNU) G1" "balanced G1" "macro_free (table_of GNU) T" "argument T"
    "\<not> lparen_first T"
  shows "VA_NOPT_of GNU (30 + n)
    (S @ Comma # LParen # G1 @ RParen # T) X =
    Inr []"
  unfolding VA_NOPT_of_def run_def invoke_def nm_VA_NOPT_def[symmetric]
  using assms
  by (simp add: sym_rules lookup_gnu miss_gnu spelling_def)

lemma VA_NOPT_GNU_two_groups:
  assumes "macro_free (table_of GNU) X" "balanced X" "macro_free (table_of GNU) S" "argument S"
    "macro_free (table_of GNU) G1" "balanced G1" "macro_free (table_of GNU) G2" "balanced G2"
    "macro_free (table_of GNU) T" "argument T" "\<not> lparen_first T"
  shows "VA_NOPT_of GNU (30 + n)
    (S @ Comma # LParen # G1 @ RParen # LParen # G2 @ RParen # T) X =
    Inr []"
  unfolding VA_NOPT_of_def run_def invoke_def nm_VA_NOPT_def[symmetric]
  using assms
  by (simp add: sym_rules lookup_gnu miss_gnu spelling_def)

lemma VA_NOPT_GNU_three_groups:
  assumes "macro_free (table_of GNU) X" "balanced X" "macro_free (table_of GNU) S" "argument S"
    "macro_free (table_of GNU) G1" "balanced G1" "macro_free (table_of GNU) G2" "balanced G2"
    "macro_free (table_of GNU) G3" "balanced G3" "macro_free (table_of GNU) R" "argument R"
  shows "VA_NOPT_of GNU (30 + n)
    (S @ Comma # LParen # G1 @ RParen # LParen # G2 @ RParen # LParen # G3 @ RParen # R) X =
    Inr X"
  unfolding VA_NOPT_of_def run_def invoke_def nm_VA_NOPT_def[symmetric]
  using assms
  by (simp add: sym_rules lookup_gnu miss_gnu spelling_def)

lemma VA_NOPT_GNU_no_group_more:
  assumes "macro_free (table_of GNU) X" "balanced X" "macro_free (table_of GNU) S" "argument S"
    "macro_free (table_of GNU) T" "argument T" "\<not> lparen_first T"
    "macro_free (table_of GNU) M" "balanced M"
  shows "VA_NOPT_of GNU (30 + n)
    (S @ Comma # T @ Comma # M) X =
    Inr []"
  unfolding VA_NOPT_of_def run_def invoke_def nm_VA_NOPT_def[symmetric]
  using assms
  by (simp add: sym_rules lookup_gnu miss_gnu spelling_def)

lemma VA_NOPT_GNU_one_group_more:
  assumes "macro_free (table_of GNU) X" "balanced X" "macro_free (table_of GNU) S" "argument S"
    "macro_free (table_of GNU) G1" "balanced G1" "macro_free (table_of GNU) T" "argument T"
    "\<not> lparen_first T" "macro_free (table_of GNU) M" "balanced M"
  shows "VA_NOPT_of GNU (30 + n)
    (S @ Comma # LParen # G1 @ RParen # T @ Comma # M) X =
    Inr []"
  unfolding VA_NOPT_of_def run_def invoke_def nm_VA_NOPT_def[symmetric]
  using assms
  by (simp add: sym_rules lookup_gnu miss_gnu spelling_def)

lemma VA_NOPT_GNU_two_groups_more:
  assumes "macro_free (table_of GNU) X" "balanced X" "macro_free (table_of GNU) S" "argument S"
    "macro_free (table_of GNU) G1" "balanced G1" "macro_free (table_of GNU) G2" "balanced G2"
    "macro_free (table_of GNU) T" "argument T" "\<not> lparen_first T"
    "macro_free (table_of GNU) M" "balanced M"
  shows "VA_NOPT_of GNU (30 + n)
    (S @ Comma # LParen # G1 @ RParen # LParen # G2 @ RParen # T @ Comma # M) X =
    Inr []"
  unfolding VA_NOPT_of_def run_def invoke_def nm_VA_NOPT_def[symmetric]
  using assms
  by (simp add: sym_rules lookup_gnu miss_gnu spelling_def)

lemma VA_NOPT_GNU_three_groups_more:
  assumes "macro_free (table_of GNU) X" "balanced X" "macro_free (table_of GNU) S" "argument S"
    "macro_free (table_of GNU) G1" "balanced G1" "macro_free (table_of GNU) G2" "balanced G2"
    "macro_free (table_of GNU) G3" "balanced G3" "macro_free (table_of GNU) R" "argument R"
    "macro_free (table_of GNU) M" "balanced M"
  shows "VA_NOPT_of GNU (30 + n)
    (S @ Comma # LParen # G1 @ RParen # LParen # G2 @ RParen # LParen # G3 @ RParen # R @ Comma # M) X =
    Inr X"
  unfolding VA_NOPT_of_def run_def invoke_def nm_VA_NOPT_def[symmetric]
  using assms
  by (simp add: sym_rules lookup_gnu miss_gnu spelling_def)

lemma VA_NOPT_GNU_second:
  assumes "macro_free (table_of GNU) X" "balanced X" "macro_free (table_of GNU) S" "argument S"
    "macro_free (table_of GNU) M" "balanced M"
  shows "VA_NOPT_of GNU (30 + n)
    (S @ Comma # M) X =
    (if three_groups (hd (slots M)) then Inr X else Inr [])"
  using assms(6)
proof (cases rule: balanced_cases)
  case one
  then have hd: "hd (slots M) = M" by (simp add: slots_simps)
  from one show ?thesis
  proof (cases rule: group_cases)
    case g0
    with hd assms one show ?thesis
      by (simp add: VA_NOPT_GNU_no_group macro_free_simps)
  next
    case (g1 G1 T)
    with hd assms one show ?thesis
      by (simp add: VA_NOPT_GNU_one_group macro_free_simps)
  next
    case (g2 G1 G2 T)
    with hd assms one show ?thesis
      by (simp add: VA_NOPT_GNU_two_groups macro_free_simps)
  next
    case (g3 G1 G2 G3 R)
    with hd assms one show ?thesis
      by (simp add: VA_NOPT_GNU_three_groups macro_free_simps)
  qed
next
  case (more S M')
  then have hd: "hd (slots M) = S" by (simp add: slots_simps)
  from more(2) show ?thesis
  proof (cases rule: group_cases)
    case g0
    with hd assms more show ?thesis
      by (simp add: VA_NOPT_GNU_no_group_more macro_free_simps)
  next
    case (g1 G1 T)
    with hd assms more show ?thesis
      by (simp add: VA_NOPT_GNU_one_group_more macro_free_simps)
  next
    case (g2 G1 G2 T)
    with hd assms more show ?thesis
      by (simp add: VA_NOPT_GNU_two_groups_more macro_free_simps)
  next
    case (g3 G1 G2 G3 R)
    with hd assms more show ?thesis
      by (simp add: VA_NOPT_GNU_three_groups_more macro_free_simps)
  qed
qed

lemma VA_NOPT_GNU_value:
  assumes mf: "macro_free (table_of GNU) L" and bal: "balanced L" and x0: "macro_free (table_of GNU) X" and x1: "balanced X"
  shows "VA_NOPT_of GNU (30 + n)
    (L) X =
    (if L = [] \<or> taken_for_empty GNU L then Inr X else Inr [])"
  using bal
proof (cases rule: balanced_cases)
  case one
  show ?thesis
  proof (cases "L = []")
    case True
    then show ?thesis using x0 x1 by (simp add: VA_NOPT_GNU_empty)
  next
    case False
    then show ?thesis
      using mf one x0 x1 by (simp add: VA_NOPT_GNU_one taken_for_empty_def second_sentinel_simps)
  qed
next
  case (more S M)
  then have tk: "taken_for_empty GNU L = three_groups (hd (slots M))"
    by (simp add: taken_for_empty_def second_sentinel_simps)
  have ne: "L \<noteq> []" using more by simp
  show ?thesis
    unfolding tk using ne mf more x0 x1 by (simp add: VA_NOPT_GNU_second macro_free_simps)
qed

lemma VA_NOPT_C99_empty:
  assumes "macro_free (table_of C99) X" "balanced X"
  shows "VA_NOPT_of C99 (30 + n)
    ([]) X =
    Inr X"
  unfolding VA_NOPT_of_def run_def invoke_def nm_VA_NOPT_def[symmetric]
  using assms
  by (simp add: sym_rules lookup_c99 miss_c99 spelling_def)

lemma VA_NOPT_C99_one_plain:
  assumes "macro_free (table_of C99) X" "balanced X" "macro_free (table_of C99) S" "argument S"
    "S \<noteq> []" "\<not> lparen_first S"
  shows "VA_NOPT_of C99 (30 + n)
    (S) X =
    Inr []"
  unfolding VA_NOPT_of_def run_def invoke_def nm_VA_NOPT_def[symmetric]
  using assms
  by (simp add: sym_rules lookup_c99 miss_c99 spelling_def)

lemma VA_NOPT_C99_one_paren:
  assumes "macro_free (table_of C99) X" "balanced X" "macro_free (table_of C99) G" "balanced G"
    "macro_free (table_of C99) R" "argument R"
  shows "VA_NOPT_of C99 (30 + n)
    (LParen # G @ RParen # R) X =
    Inr []"
  unfolding VA_NOPT_of_def run_def invoke_def nm_VA_NOPT_def[symmetric]
  using assms
  by (simp add: sym_rules lookup_c99 miss_c99 spelling_def)

lemma VA_NOPT_C99_more_plain:
  assumes "macro_free (table_of C99) X" "balanced X" "macro_free (table_of C99) S" "argument S"
    "S \<noteq> []" "\<not> lparen_first S" "macro_free (table_of C99) M" "balanced M"
  shows "VA_NOPT_of C99 (30 + n)
    (S @ Comma # M) X =
    Inr []"
  unfolding VA_NOPT_of_def run_def invoke_def nm_VA_NOPT_def[symmetric]
  using assms
  by (simp add: sym_rules lookup_c99 miss_c99 spelling_def)

lemma VA_NOPT_C99_more_paren:
  assumes "macro_free (table_of C99) X" "balanced X" "macro_free (table_of C99) G" "balanced G"
    "macro_free (table_of C99) R" "argument R" "macro_free (table_of C99) M" "balanced M"
  shows "VA_NOPT_of C99 (30 + n)
    (LParen # G @ RParen # R @ Comma # M) X =
    Inr []"
  unfolding VA_NOPT_of_def run_def invoke_def nm_VA_NOPT_def[symmetric]
  using assms
  by (simp add: sym_rules lookup_c99 miss_c99 spelling_def)

lemma VA_NOPT_C99_no_group:
  assumes "macro_free (table_of C99) X" "balanced X" "macro_free (table_of C99) T" "argument T"
    "\<not> lparen_first T"
  shows "VA_NOPT_of C99 (30 + n)
    (Comma # T) X =
    Inr []"
  unfolding VA_NOPT_of_def run_def invoke_def nm_VA_NOPT_def[symmetric]
  using assms
  by (simp add: sym_rules lookup_c99 miss_c99 spelling_def)

lemma VA_NOPT_C99_one_group:
  assumes "macro_free (table_of C99) X" "balanced X" "macro_free (table_of C99) G1" "balanced G1"
    "macro_free (table_of C99) T" "argument T" "\<not> lparen_first T"
  shows "VA_NOPT_of C99 (30 + n)
    (Comma # LParen # G1 @ RParen # T) X =
    Inr []"
  unfolding VA_NOPT_of_def run_def invoke_def nm_VA_NOPT_def[symmetric]
  using assms
  by (simp add: sym_rules lookup_c99 miss_c99 spelling_def)

lemma VA_NOPT_C99_two_groups:
  assumes "macro_free (table_of C99) X" "balanced X" "macro_free (table_of C99) G1" "balanced G1"
    "macro_free (table_of C99) G2" "balanced G2" "macro_free (table_of C99) T" "argument T"
    "\<not> lparen_first T"
  shows "VA_NOPT_of C99 (30 + n)
    (Comma # LParen # G1 @ RParen # LParen # G2 @ RParen # T) X =
    Inr []"
  unfolding VA_NOPT_of_def run_def invoke_def nm_VA_NOPT_def[symmetric]
  using assms
  by (simp add: sym_rules lookup_c99 miss_c99 spelling_def)

lemma VA_NOPT_C99_three_groups:
  assumes "macro_free (table_of C99) X" "balanced X" "macro_free (table_of C99) G1" "balanced G1"
    "macro_free (table_of C99) G2" "balanced G2" "macro_free (table_of C99) G3" "balanced G3"
    "macro_free (table_of C99) R" "argument R"
  shows "VA_NOPT_of C99 (30 + n)
    (Comma # LParen # G1 @ RParen # LParen # G2 @ RParen # LParen # G3 @ RParen # R) X =
    Inr X"
  unfolding VA_NOPT_of_def run_def invoke_def nm_VA_NOPT_def[symmetric]
  using assms
  by (simp add: sym_rules lookup_c99 miss_c99 spelling_def)

lemma VA_NOPT_C99_no_group_more:
  assumes "macro_free (table_of C99) X" "balanced X" "macro_free (table_of C99) T" "argument T"
    "\<not> lparen_first T" "macro_free (table_of C99) M" "balanced M"
  shows "VA_NOPT_of C99 (30 + n)
    (Comma # T @ Comma # M) X =
    Inr []"
  unfolding VA_NOPT_of_def run_def invoke_def nm_VA_NOPT_def[symmetric]
  using assms
  by (simp add: sym_rules lookup_c99 miss_c99 spelling_def)

lemma VA_NOPT_C99_one_group_more:
  assumes "macro_free (table_of C99) X" "balanced X" "macro_free (table_of C99) G1" "balanced G1"
    "macro_free (table_of C99) T" "argument T" "\<not> lparen_first T"
    "macro_free (table_of C99) M" "balanced M"
  shows "VA_NOPT_of C99 (30 + n)
    (Comma # LParen # G1 @ RParen # T @ Comma # M) X =
    Inr []"
  unfolding VA_NOPT_of_def run_def invoke_def nm_VA_NOPT_def[symmetric]
  using assms
  by (simp add: sym_rules lookup_c99 miss_c99 spelling_def)

lemma VA_NOPT_C99_two_groups_more:
  assumes "macro_free (table_of C99) X" "balanced X" "macro_free (table_of C99) G1" "balanced G1"
    "macro_free (table_of C99) G2" "balanced G2" "macro_free (table_of C99) T" "argument T"
    "\<not> lparen_first T" "macro_free (table_of C99) M" "balanced M"
  shows "VA_NOPT_of C99 (30 + n)
    (Comma # LParen # G1 @ RParen # LParen # G2 @ RParen # T @ Comma # M) X =
    Inr []"
  unfolding VA_NOPT_of_def run_def invoke_def nm_VA_NOPT_def[symmetric]
  using assms
  by (simp add: sym_rules lookup_c99 miss_c99 spelling_def)

lemma VA_NOPT_C99_three_groups_more:
  assumes "macro_free (table_of C99) X" "balanced X" "macro_free (table_of C99) G1" "balanced G1"
    "macro_free (table_of C99) G2" "balanced G2" "macro_free (table_of C99) G3" "balanced G3"
    "macro_free (table_of C99) R" "argument R" "macro_free (table_of C99) M" "balanced M"
  shows "VA_NOPT_of C99 (30 + n)
    (Comma # LParen # G1 @ RParen # LParen # G2 @ RParen # LParen # G3 @ RParen # R @ Comma # M) X =
    Inr X"
  unfolding VA_NOPT_of_def run_def invoke_def nm_VA_NOPT_def[symmetric]
  using assms
  by (simp add: sym_rules lookup_c99 miss_c99 spelling_def)

lemma VA_NOPT_C99_second:
  assumes "macro_free (table_of C99) X" "balanced X" "macro_free (table_of C99) M" "balanced M"
  shows "VA_NOPT_of C99 (30 + n)
    (Comma # M) X =
    (if three_groups (hd (slots M)) then Inr X else Inr [])"
  using assms(4)
proof (cases rule: balanced_cases)
  case one
  then have hd: "hd (slots M) = M" by (simp add: slots_simps)
  from one show ?thesis
  proof (cases rule: group_cases)
    case g0
    with hd assms one show ?thesis
      by (simp add: VA_NOPT_C99_no_group macro_free_simps)
  next
    case (g1 G1 T)
    with hd assms one show ?thesis
      by (simp add: VA_NOPT_C99_one_group macro_free_simps)
  next
    case (g2 G1 G2 T)
    with hd assms one show ?thesis
      by (simp add: VA_NOPT_C99_two_groups macro_free_simps)
  next
    case (g3 G1 G2 G3 R)
    with hd assms one show ?thesis
      by (simp add: VA_NOPT_C99_three_groups macro_free_simps)
  qed
next
  case (more S M')
  then have hd: "hd (slots M) = S" by (simp add: slots_simps)
  from more(2) show ?thesis
  proof (cases rule: group_cases)
    case g0
    with hd assms more show ?thesis
      by (simp add: VA_NOPT_C99_no_group_more macro_free_simps)
  next
    case (g1 G1 T)
    with hd assms more show ?thesis
      by (simp add: VA_NOPT_C99_one_group_more macro_free_simps)
  next
    case (g2 G1 G2 T)
    with hd assms more show ?thesis
      by (simp add: VA_NOPT_C99_two_groups_more macro_free_simps)
  next
    case (g3 G1 G2 G3 R)
    with hd assms more show ?thesis
      by (simp add: VA_NOPT_C99_three_groups_more macro_free_simps)
  qed
qed

lemma VA_NOPT_C99_value:
  assumes mf: "macro_free (table_of C99) L" and bal: "balanced L" and x0: "macro_free (table_of C99) X" and x1: "balanced X"
  shows "VA_NOPT_of C99 (30 + n)
    (L) X =
    (if L = [] \<or> taken_for_empty C99 L then Inr X else Inr [])"
  using bal
proof (cases rule: balanced_cases)
  case one
  then have tk: "taken_for_empty C99 L = False"
    by (simp add: taken_for_empty_def second_sentinel_simps)
  show ?thesis
  proof (cases "L = []")
    case True
    then show ?thesis using x0 x1 by (simp add: VA_NOPT_C99_empty)
  next
    case False
    show ?thesis
    proof (cases "lparen_first L")
      case no: False
      with False show ?thesis
        unfolding tk using mf one x0 x1 by (simp add: VA_NOPT_C99_one_plain)
    next
      case True
      from argument_group[OF one True] obtain G R where
        "L = LParen # G @ RParen # R" "balanced G" "argument R" by blast
      then show ?thesis
        unfolding tk using mf x0 x1 by (simp add: VA_NOPT_C99_one_paren macro_free_simps)
    qed
  qed
next
  case (more S M)
  then have tk: "taken_for_empty C99 L = (three_groups (hd (slots M)) \<and> S = [])"
    by (simp add: taken_for_empty_def second_sentinel_simps slots_simps)
  have ne: "(L = []) = False" using more by simp
  show ?thesis
  proof (cases "S = []")
    case True
    with more have "L = Comma # M" by simp
    with True show ?thesis
      unfolding tk ne using mf more x0 x1 by (simp add: VA_NOPT_C99_second macro_free_simps)
  next
    case False
    show ?thesis
    proof (cases "lparen_first S")
      case no: False
      with False show ?thesis
        unfolding tk ne using mf more x0 x1 by (simp add: VA_NOPT_C99_more_plain macro_free_simps)
    next
      case True
      from argument_group[OF more(2) True] obtain G R where
        "S = LParen # G @ RParen # R" "balanced G" "argument R" by blast
      with False show ?thesis
        unfolding tk ne using mf more x0 x1 by (simp add: VA_NOPT_C99_more_paren macro_free_simps)
    qed
  qed
qed

lemma VA_NOPT_value:
  assumes "s \<noteq> MSVC" "macro_free (table_of s) L" "balanced L" "macro_free (table_of s) X" "balanced X"
  shows "VA_NOPT_of s (30 + n) (L) X =
    Inr (if L = [] \<or> taken_for_empty s L then X else [])"
  using assms
  by (cases s) (simp_all add: VA_NOPT_Native_value VA_NOPT_GNU_value VA_NOPT_C99_value)

section \<open>The portable classifier\<close>

lemma VA_ISEMPTY_VA_OPT_H:
  "VA_ISEMPTY_of C99 20 [Ident ''VA_OPT_H''] = Inr one"
  unfolding VA_ISEMPTY_of_def run_def invoke_def nm_VA_ISEMPTY_def[symmetric]
    nm_VA_OPT_H_def[symmetric]
  by (simp add: eval_rules lookup_c99 miss_c99 spelling_def one_def)

text \<open>
  C1, as the spec states it, fails: a list is classified after its macros are expanded,
  so a list of tokens that expand to nothing is empty for \<^verbatim>\<open>VA_ISEMPTY\<close>. The header's
  own include guard is such a token (\<^verbatim>\<open>#define VA_OPT_H\<close>): \<^verbatim>\<open>VA_ISEMPTY(VA_OPT_H)\<close> is
  \<open>1\<close> under the portable strategy, and \<^verbatim>\<open>VA_OPT_H\<close> is not a macro with two or more
  parameters.
\<close>

theorem VA_ISEMPTY_C99_one_token_empty:
  "VA_ISEMPTY_of C99 20 [Ident ''VA_OPT_H''] = Inr one \<and> [Ident ''VA_OPT_H''] \<noteq> []"
  using VA_ISEMPTY_VA_OPT_H by simp

lemma self_test_single_C99:
  "list_all (\<lambda>(e, L). VA_ISEMPTY_of C99 (20 + n) L = Inr [digit (e = 1)]) SINGLE_TEST_CASES"
  unfolding VA_ISEMPTY_of_def run_def invoke_def SINGLE_TEST_CASES_def
    nm_VA_ISEMPTY_def[symmetric] nm_EATER0_def[symmetric] nm_EATER1_def[symmetric]
    nm_EATER2_def[symmetric] nm_EATER3_def[symmetric] nm_EATER4_def[symmetric]
    nm_MAC0_def[symmetric] nm_MAC1_def[symmetric] nm_MACV_def[symmetric]
    nm_MACMANYPLUS_def[symmetric] nm_NTRNLVA_TRIGGER_PARENTHESIS_'_def[symmetric]
  by (simp add: eval_rules lookup_c99 miss_c99 spelling_def digit_def)

lemma self_test_variadic_C99:
  "list_all (\<lambda>(e, L). VA_ISEMPTY_of C99 (20 + n) L = Inr [digit (e = 1)])
     VARIADIC_TEST_CASES"
  unfolding VA_ISEMPTY_of_def run_def invoke_def VARIADIC_TEST_CASES_def
    nm_VA_ISEMPTY_def[symmetric]
  by (simp add: eval_rules lookup_c99 miss_c99 spelling_def digit_def)

text \<open>
  C1, amended: for every list \<open>L\<close> of tokens with matched parentheses and no macro name in it,
  the portable \<^verbatim>\<open>VA_ISEMPTY(L)\<close> is \<open>1\<close> if \<open>L\<close> has no token and \<open>0\<close> otherwise. One
  kind of list is left out, neither promised nor denied: an empty first argument followed
  by an argument that begins with three parenthesised groups (\<open>taken_for_empty\<close>), where
  the sentinel check of C9 decides. For a list with macro names in it the expansion of
  the names decides; for the lists of the header's self-test, the names of its helper
  macros among them, \<^verbatim>\<open>VA_ISEMPTY\<close> is what the self-test expects.
\<close>

theorem VA_ISEMPTY_C99_iff_no_token:
  assumes "list_all lexical L" and "macro_free (table_of C99) L" and "balanced L"
    and "\<not> taken_for_empty C99 L"
  shows "VA_ISEMPTY_of C99 (20 + n) L = Inr (if L = [] then one else zero) \<and>
    list_all (\<lambda>(e, L). VA_ISEMPTY_of C99 (20 + n) L = Inr [digit (e = 1)])
      (SINGLE_TEST_CASES @ VARIADIC_TEST_CASES)"
  using assms VA_ISEMPTY_value[of C99 L n] self_test_single_C99[of n]
    self_test_variadic_C99[of n]
  by simp

theorem VA_ISEMPTY_C99_iff_no_token_witness:
  "list_all lexical [Ident ''a'', Comma, LParen, Ident ''void'', RParen] \<and>
   macro_free (table_of C99) [Ident ''a'', Comma, LParen, Ident ''void'', RParen] \<and>
   balanced [Ident ''a'', Comma, LParen, Ident ''void'', RParen] \<and>
   \<not> taken_for_empty C99 [Ident ''a'', Comma, LParen, Ident ''void'', RParen] \<and>
   VA_ISEMPTY_of C99 20 [Ident ''a'', Comma, LParen, Ident ''void'', RParen] = Inr zero \<and>
   VA_ISEMPTY_of C99 20 [] = Inr one"
  using VA_ISEMPTY_C99_iff_no_token[of "[Ident ''a'', Comma, LParen, Ident ''void'', RParen]" 0]
    VA_ISEMPTY_C99_iff_no_token[of "[]" 0]
  by (simp add: macro_free_def balanced_def taken_for_empty_def second_sentinel_def slots_def
      plain_def three_groups_def after_group_def nest_def miss_c99 ident_chars_def)

section \<open>The decision table of the portable strategy\<close>

lemma ISEMPTY_BASE_I_0011:
  "run C99 8 ''NTRNLVA_ISEMPTY_BASE_I''
     [Number ''0'', Comma, Number ''0'', Comma, Number ''1'', Comma, Number ''1''] = Inr zero"
  unfolding run_def invoke_def nm_NTRNLVA_ISEMPTY_BASE_I_def[symmetric]
  by (simp add: eval_rules lookup_c99 miss_c99 spelling_def zero_def)

text \<open>
  C2, as the spec states it, fails: the results \<open>(0, 0, 1, 1)\<close> of the four probes are
  pasted to \<^verbatim>\<open>NTRNLVA_IS_EMPTY_CASE_0011\<close>, which is not a macro, and the reduction gives
  \<open>0\<close>. (It is the pattern of \<^verbatim>\<open>EATER1\<close>, a macro name whose invocation leaves a comma,
  which the self-test expects to be non-empty.)
\<close>

theorem ISEMPTY_BASE_I_0011_not_empty:
  "run C99 8 ''NTRNLVA_ISEMPTY_BASE_I''
     [digit False, Comma, digit False, Comma, digit True, Comma, digit True] \<noteq> Inr one"
  using ISEMPTY_BASE_I_0011 by (simp add: digit_def zero_def one_def)

text \<open>
  C2, amended: \<^verbatim>\<open>NTRNLVA_ISEMPTY_BASE_I\<close> maps the combination \<open>(0, 0, 0, 1)\<close> of the
  four probe results to \<open>1\<close>, and each of the other fifteen combinations to \<open>0\<close>; the one
  macro the pasted key can name is \<^verbatim>\<open>NTRNLVA_IS_EMPTY_CASE_0001\<close>.
\<close>

theorem ISEMPTY_BASE_I_table:
  "run C99 (8 + n) ''NTRNLVA_ISEMPTY_BASE_I''
     [digit p1, Comma, digit p2, Comma, digit p3, Comma, digit p4] =
   Inr (if \<not> p1 \<and> \<not> p2 \<and> \<not> p3 \<and> p4 then one else zero)"
  unfolding run_def invoke_def nm_NTRNLVA_ISEMPTY_BASE_I_def[symmetric]
  by (cases p1; cases p2; cases p3; cases p4)
     (simp_all add: eval_rules lookup_c99 miss_c99 spelling_def zero_def one_def digit_def)

section \<open>Selection on emptiness\<close>

lemma VA_NOPT_VA_OPT_H:
  "VA_NOPT_of C99 30 [Ident ''VA_OPT_H''] [Ident ''a'', Comma, Ident ''b'']
     = Inr [Ident ''a'', Comma, Ident ''b'']"
  unfolding VA_NOPT_of_def run_def invoke_def nm_VA_NOPT_def[symmetric]
    nm_VA_OPT_H_def[symmetric]
  by (simp add: eval_rules lookup_c99 miss_c99 spelling_def)

text \<open>
  C3, as the spec states it, fails: the guard list is classified after its macros are
  expanded. \<^verbatim>\<open>VA_NOPT((VA_OPT_H), a, b)\<close> has a guard list of one token and emits
  \<^verbatim>\<open>a, b\<close>, not nothing, since \<^verbatim>\<open>VA_OPT_H\<close> expands to nothing.
\<close>

theorem VA_NOPT_one_token_guard_emits:
  "VA_NOPT_of C99 30 [Ident ''VA_OPT_H''] [Ident ''a'', Comma, Ident ''b''] \<noteq> Inr [] \<and>
   [Ident ''VA_OPT_H''] \<noteq> []"
  using VA_NOPT_VA_OPT_H by simp

text \<open>
  C3, amended: for a guard list \<open>L\<close> and a payload \<open>X\<close>, both with matched parentheses and
  no macro name in them, \<^verbatim>\<open>VA_NOPT((L), X)\<close> is \<open>X\<close>, commas included, when \<open>L\<close> has no
  token, and nothing when it has one; under the native, the GNU and the portable strategy.
  The guard lists the sentinel check mistakes (\<open>taken_for_empty\<close>, see C5 and C9) are left
  out, neither promised nor denied.
\<close>

theorem VA_NOPT_emits:
  assumes "s \<noteq> MSVC" and "list_all lexical L" and "macro_free (table_of s) L"
    and "balanced L" and "list_all lexical X" and "macro_free (table_of s) X"
    and "balanced X" and "\<not> taken_for_empty s L"
  shows "VA_NOPT_of s (30 + n) L X = Inr (if L = [] then X else [])"
  using assms VA_NOPT_value[of s L X n] by simp

theorem VA_NOPT_emits_witness:
  "GNU \<noteq> MSVC \<and> list_all lexical [Ident ''a'', Comma, Ident ''b''] \<and>
   macro_free (table_of GNU) [] \<and> balanced [] \<and>
   macro_free (table_of GNU) [Ident ''a'', Comma, Ident ''b''] \<and>
   balanced [Ident ''a'', Comma, Ident ''b''] \<and> \<not> taken_for_empty GNU [] \<and>
   \<not> taken_for_empty GNU [Ident ''a'', Comma, Ident ''b''] \<and>
   VA_NOPT_of GNU 30 [] [Ident ''a'', Comma, Ident ''b''] = Inr [Ident ''a'', Comma, Ident ''b''] \<and>
   VA_NOPT_of GNU 30 [Ident ''a'', Comma, Ident ''b''] [Ident ''a'', Comma, Ident ''b''] = Inr []"
  using VA_NOPT_emits[of GNU "[]" "[Ident ''a'', Comma, Ident ''b'']" 0]
    VA_NOPT_emits[of GNU "[Ident ''a'', Comma, Ident ''b'']" "[Ident ''a'', Comma, Ident ''b'']" 0]
  by (simp add: macro_free_def balanced_def taken_for_empty_def second_sentinel_def slots_def
      plain_def three_groups_def after_group_def nest_def miss_gnu ident_chars_def)

section \<open>The complement\<close>







section \<open>The strategies compared\<close>

lemma VA_ISEMPTY_casts_GNU:
  "VA_ISEMPTY_of GNU (20 + n)
     [Ident ''a'', Comma, LParen, Ident ''int'', RParen, LParen, Ident ''long'', RParen,
      LParen, Ident ''x'', RParen] = Inr one"
  unfolding VA_ISEMPTY_of_def run_def invoke_def nm_VA_ISEMPTY_def[symmetric]
  by (simp add: eval_rules lookup_gnu miss_gnu spelling_def one_def)

lemma VA_ISEMPTY_casts_C99:
  "VA_ISEMPTY_of C99 (20 + n)
     [Ident ''a'', Comma, LParen, Ident ''int'', RParen, LParen, Ident ''long'', RParen,
      LParen, Ident ''x'', RParen] = Inr zero"
  unfolding VA_ISEMPTY_of_def run_def invoke_def nm_VA_ISEMPTY_def[symmetric]
  by (simp add: eval_rules lookup_c99 miss_c99 spelling_def zero_def)

lemma VA_ISEMPTY_casts_Native:
  "VA_ISEMPTY_of Native (20 + n)
     [Ident ''a'', Comma, LParen, Ident ''int'', RParen, LParen, Ident ''long'', RParen,
      LParen, Ident ''x'', RParen] = Inr zero"
  unfolding VA_ISEMPTY_of_def run_def invoke_def nm_VA_ISEMPTY_def[symmetric]
  by (simp add: eval_rules lookup_native miss_native spelling_def zero_def)

text \<open>
  C5 does not hold of the code: \<^verbatim>\<open>VA_ISEMPTY(a, (int)(long)(x))\<close> is accepted by every
  strategy, and is \<open>0\<close> under the portable and the native strategy but \<open>1\<close> under the GNU
  strategy. There the third argument of \<^verbatim>\<open>NTRNLVA_ISEMPTY_I(, a, (int)(long)(x), 0, ()()())\<close>
  is the caller's second argument, and \<^verbatim>\<open>NTRNLVA_CHECK_SENTINEL\<close> takes its three
  parenthesised groups for the sentinel. The portable strategy asks first whether the first
  argument is empty (\<^verbatim>\<open>NTRNLVA_AND\<close>), the GNU strategy does not.
\<close>

theorem VA_ISEMPTY_strategies_disagree:
  "VA_ISEMPTY_of GNU (20 + n)
     [Ident ''a'', Comma, LParen, Ident ''int'', RParen, LParen, Ident ''long'', RParen,
      LParen, Ident ''x'', RParen] = Inr one \<and>
   VA_ISEMPTY_of C99 (20 + n)
     [Ident ''a'', Comma, LParen, Ident ''int'', RParen, LParen, Ident ''long'', RParen,
      LParen, Ident ''x'', RParen] = Inr zero \<and>
   VA_ISEMPTY_of Native (20 + n)
     [Ident ''a'', Comma, LParen, Ident ''int'', RParen, LParen, Ident ''long'', RParen,
      LParen, Ident ''x'', RParen] = Inr zero"
  by (simp only: VA_ISEMPTY_casts_GNU VA_ISEMPTY_casts_C99 VA_ISEMPTY_casts_Native simp_thms)

section \<open>Arguments that are macro names\<close>

lemma zero_argument_not_invoked:
  assumes "user_name s m" "s = Native \<or> s = GNU"
  shows "VA_ISEMPTY_with [(m, FunctionLike ps v body)] s (20 + n) [Ident m] = Inr zero"
  unfolding VA_ISEMPTY_with_def invoke_def nm_VA_ISEMPTY_def[symmetric]
  using assms(2) user_name_rules[OF assms(1)]
  by (cases s) (simp_all add: user_rules)

lemma zero_argument_C99_one:
  assumes "user_name C99 m" "macro_free (table_of C99) B" "argument B" "Ident m \<notin> set B"
    "Punct ''##'' \<notin> set B" "Ident ''__VA_OPT__'' \<notin> set B"
  shows "VA_ISEMPTY_with [(m, FunctionLike [] False
      (B))] C99 (20 + n) [Ident m] =
    Inr zero"
  unfolding VA_ISEMPTY_with_def invoke_def nm_VA_ISEMPTY_def[symmetric]
  using assms user_name_rules[OF assms(1)]
  by (simp add: user_rules body_rules)

lemma zero_argument_C99_two:
  assumes "user_name C99 m" "macro_free (table_of C99) S1" "argument S1" "Ident m \<notin> set S1"
    "Punct ''##'' \<notin> set S1" "Ident ''__VA_OPT__'' \<notin> set S1"
    "macro_free (table_of C99) S2" "argument S2" "Ident m \<notin> set S2"
    "Punct ''##'' \<notin> set S2" "Ident ''__VA_OPT__'' \<notin> set S2"
  shows "VA_ISEMPTY_with [(m, FunctionLike [] False
      (S1 @ Comma # S2))] C99 (20 + n) [Ident m] =
    Inr zero"
  unfolding VA_ISEMPTY_with_def invoke_def nm_VA_ISEMPTY_def[symmetric]
  using assms user_name_rules[OF assms(1)]
  by (simp add: user_rules body_rules)

lemma zero_argument_C99_no_group:
  assumes "user_name C99 m" "macro_free (table_of C99) S1" "argument S1" "Ident m \<notin> set S1"
    "Punct ''##'' \<notin> set S1" "Ident ''__VA_OPT__'' \<notin> set S1"
    "macro_free (table_of C99) S2" "argument S2" "Ident m \<notin> set S2"
    "Punct ''##'' \<notin> set S2" "Ident ''__VA_OPT__'' \<notin> set S2"
    "macro_free (table_of C99) T" "argument T" "\<not> lparen_first T" "Ident m \<notin> set T"
    "Punct ''##'' \<notin> set T" "Ident ''__VA_OPT__'' \<notin> set T"
  shows "VA_ISEMPTY_with [(m, FunctionLike [] False
      (S1 @ Comma # S2 @ Comma # T))] C99 (20 + n) [Ident m] =
    Inr zero"
  unfolding VA_ISEMPTY_with_def invoke_def nm_VA_ISEMPTY_def[symmetric]
  using assms user_name_rules[OF assms(1)]
  by (simp add: user_rules body_rules)

lemma zero_argument_C99_one_group:
  assumes "user_name C99 m" "macro_free (table_of C99) S1" "argument S1" "Ident m \<notin> set S1"
    "Punct ''##'' \<notin> set S1" "Ident ''__VA_OPT__'' \<notin> set S1"
    "macro_free (table_of C99) S2" "argument S2" "Ident m \<notin> set S2"
    "Punct ''##'' \<notin> set S2" "Ident ''__VA_OPT__'' \<notin> set S2"
    "macro_free (table_of C99) G1" "balanced G1" "Ident m \<notin> set G1"
    "Punct ''##'' \<notin> set G1" "Ident ''__VA_OPT__'' \<notin> set G1"
    "macro_free (table_of C99) T" "argument T" "\<not> lparen_first T" "Ident m \<notin> set T"
    "Punct ''##'' \<notin> set T" "Ident ''__VA_OPT__'' \<notin> set T"
  shows "VA_ISEMPTY_with [(m, FunctionLike [] False
      (S1 @ Comma # S2 @ Comma # LParen # G1 @ RParen # T))] C99 (20 + n) [Ident m] =
    Inr zero"
  unfolding VA_ISEMPTY_with_def invoke_def nm_VA_ISEMPTY_def[symmetric]
  using assms user_name_rules[OF assms(1)]
  by (simp add: user_rules body_rules)

lemma zero_argument_C99_two_groups:
  assumes "user_name C99 m" "macro_free (table_of C99) S1" "argument S1" "Ident m \<notin> set S1"
    "Punct ''##'' \<notin> set S1" "Ident ''__VA_OPT__'' \<notin> set S1"
    "macro_free (table_of C99) S2" "argument S2" "Ident m \<notin> set S2"
    "Punct ''##'' \<notin> set S2" "Ident ''__VA_OPT__'' \<notin> set S2"
    "macro_free (table_of C99) G1" "balanced G1" "Ident m \<notin> set G1"
    "Punct ''##'' \<notin> set G1" "Ident ''__VA_OPT__'' \<notin> set G1"
    "macro_free (table_of C99) G2" "balanced G2" "Ident m \<notin> set G2"
    "Punct ''##'' \<notin> set G2" "Ident ''__VA_OPT__'' \<notin> set G2"
    "macro_free (table_of C99) T" "argument T" "\<not> lparen_first T" "Ident m \<notin> set T"
    "Punct ''##'' \<notin> set T" "Ident ''__VA_OPT__'' \<notin> set T"
  shows "VA_ISEMPTY_with [(m, FunctionLike [] False
      (S1 @ Comma # S2 @ Comma # LParen # G1 @ RParen # LParen # G2 @ RParen # T))] C99 (20 + n) [Ident m] =
    Inr zero"
  unfolding VA_ISEMPTY_with_def invoke_def nm_VA_ISEMPTY_def[symmetric]
  using assms user_name_rules[OF assms(1)]
  by (simp add: user_rules body_rules)

lemma zero_argument_C99_three_groups:
  assumes "user_name C99 m" "macro_free (table_of C99) S1" "argument S1" "Ident m \<notin> set S1"
    "Punct ''##'' \<notin> set S1" "Ident ''__VA_OPT__'' \<notin> set S1"
    "macro_free (table_of C99) S2" "argument S2" "Ident m \<notin> set S2"
    "Punct ''##'' \<notin> set S2" "Ident ''__VA_OPT__'' \<notin> set S2"
    "macro_free (table_of C99) G1" "balanced G1" "Ident m \<notin> set G1"
    "Punct ''##'' \<notin> set G1" "Ident ''__VA_OPT__'' \<notin> set G1"
    "macro_free (table_of C99) G2" "balanced G2" "Ident m \<notin> set G2"
    "Punct ''##'' \<notin> set G2" "Ident ''__VA_OPT__'' \<notin> set G2"
    "macro_free (table_of C99) G3" "balanced G3" "Ident m \<notin> set G3"
    "Punct ''##'' \<notin> set G3" "Ident ''__VA_OPT__'' \<notin> set G3"
    "macro_free (table_of C99) R" "argument R" "Ident m \<notin> set R"
    "Punct ''##'' \<notin> set R" "Ident ''__VA_OPT__'' \<notin> set R"
  shows "VA_ISEMPTY_with [(m, FunctionLike [] False
      (S1 @ Comma # S2 @ Comma # LParen # G1 @ RParen # LParen # G2 @ RParen # LParen # G3 @ RParen # R))] C99 (20 + n) [Ident m] =
    Inr zero"
  unfolding VA_ISEMPTY_with_def invoke_def nm_VA_ISEMPTY_def[symmetric]
  using assms user_name_rules[OF assms(1)]
  by (simp add: user_rules body_rules)

lemma zero_argument_C99_no_group_more:
  assumes "user_name C99 m" "macro_free (table_of C99) S1" "argument S1" "Ident m \<notin> set S1"
    "Punct ''##'' \<notin> set S1" "Ident ''__VA_OPT__'' \<notin> set S1"
    "macro_free (table_of C99) S2" "argument S2" "Ident m \<notin> set S2"
    "Punct ''##'' \<notin> set S2" "Ident ''__VA_OPT__'' \<notin> set S2"
    "macro_free (table_of C99) T" "argument T" "\<not> lparen_first T" "Ident m \<notin> set T"
    "Punct ''##'' \<notin> set T" "Ident ''__VA_OPT__'' \<notin> set T"
    "macro_free (table_of C99) M" "balanced M" "Ident m \<notin> set M"
    "Punct ''##'' \<notin> set M" "Ident ''__VA_OPT__'' \<notin> set M"
  shows "VA_ISEMPTY_with [(m, FunctionLike [] False
      (S1 @ Comma # S2 @ Comma # T @ Comma # M))] C99 (20 + n) [Ident m] =
    Inr zero"
  unfolding VA_ISEMPTY_with_def invoke_def nm_VA_ISEMPTY_def[symmetric]
  using assms user_name_rules[OF assms(1)]
  by (simp add: user_rules body_rules)

lemma zero_argument_C99_one_group_more:
  assumes "user_name C99 m" "macro_free (table_of C99) S1" "argument S1" "Ident m \<notin> set S1"
    "Punct ''##'' \<notin> set S1" "Ident ''__VA_OPT__'' \<notin> set S1"
    "macro_free (table_of C99) S2" "argument S2" "Ident m \<notin> set S2"
    "Punct ''##'' \<notin> set S2" "Ident ''__VA_OPT__'' \<notin> set S2"
    "macro_free (table_of C99) G1" "balanced G1" "Ident m \<notin> set G1"
    "Punct ''##'' \<notin> set G1" "Ident ''__VA_OPT__'' \<notin> set G1"
    "macro_free (table_of C99) T" "argument T" "\<not> lparen_first T" "Ident m \<notin> set T"
    "Punct ''##'' \<notin> set T" "Ident ''__VA_OPT__'' \<notin> set T"
    "macro_free (table_of C99) M" "balanced M" "Ident m \<notin> set M"
    "Punct ''##'' \<notin> set M" "Ident ''__VA_OPT__'' \<notin> set M"
  shows "VA_ISEMPTY_with [(m, FunctionLike [] False
      (S1 @ Comma # S2 @ Comma # LParen # G1 @ RParen # T @ Comma # M))] C99 (20 + n) [Ident m] =
    Inr zero"
  unfolding VA_ISEMPTY_with_def invoke_def nm_VA_ISEMPTY_def[symmetric]
  using assms user_name_rules[OF assms(1)]
  by (simp add: user_rules body_rules)

lemma zero_argument_C99_two_groups_more:
  assumes "user_name C99 m" "macro_free (table_of C99) S1" "argument S1" "Ident m \<notin> set S1"
    "Punct ''##'' \<notin> set S1" "Ident ''__VA_OPT__'' \<notin> set S1"
    "macro_free (table_of C99) S2" "argument S2" "Ident m \<notin> set S2"
    "Punct ''##'' \<notin> set S2" "Ident ''__VA_OPT__'' \<notin> set S2"
    "macro_free (table_of C99) G1" "balanced G1" "Ident m \<notin> set G1"
    "Punct ''##'' \<notin> set G1" "Ident ''__VA_OPT__'' \<notin> set G1"
    "macro_free (table_of C99) G2" "balanced G2" "Ident m \<notin> set G2"
    "Punct ''##'' \<notin> set G2" "Ident ''__VA_OPT__'' \<notin> set G2"
    "macro_free (table_of C99) T" "argument T" "\<not> lparen_first T" "Ident m \<notin> set T"
    "Punct ''##'' \<notin> set T" "Ident ''__VA_OPT__'' \<notin> set T"
    "macro_free (table_of C99) M" "balanced M" "Ident m \<notin> set M"
    "Punct ''##'' \<notin> set M" "Ident ''__VA_OPT__'' \<notin> set M"
  shows "VA_ISEMPTY_with [(m, FunctionLike [] False
      (S1 @ Comma # S2 @ Comma # LParen # G1 @ RParen # LParen # G2 @ RParen # T @ Comma # M))] C99 (20 + n) [Ident m] =
    Inr zero"
  unfolding VA_ISEMPTY_with_def invoke_def nm_VA_ISEMPTY_def[symmetric]
  using assms user_name_rules[OF assms(1)]
  by (simp add: user_rules body_rules)

lemma zero_argument_C99_three_groups_more:
  assumes "user_name C99 m" "macro_free (table_of C99) S1" "argument S1" "Ident m \<notin> set S1"
    "Punct ''##'' \<notin> set S1" "Ident ''__VA_OPT__'' \<notin> set S1"
    "macro_free (table_of C99) S2" "argument S2" "Ident m \<notin> set S2"
    "Punct ''##'' \<notin> set S2" "Ident ''__VA_OPT__'' \<notin> set S2"
    "macro_free (table_of C99) G1" "balanced G1" "Ident m \<notin> set G1"
    "Punct ''##'' \<notin> set G1" "Ident ''__VA_OPT__'' \<notin> set G1"
    "macro_free (table_of C99) G2" "balanced G2" "Ident m \<notin> set G2"
    "Punct ''##'' \<notin> set G2" "Ident ''__VA_OPT__'' \<notin> set G2"
    "macro_free (table_of C99) G3" "balanced G3" "Ident m \<notin> set G3"
    "Punct ''##'' \<notin> set G3" "Ident ''__VA_OPT__'' \<notin> set G3"
    "macro_free (table_of C99) R" "argument R" "Ident m \<notin> set R"
    "Punct ''##'' \<notin> set R" "Ident ''__VA_OPT__'' \<notin> set R"
    "macro_free (table_of C99) M" "balanced M" "Ident m \<notin> set M"
    "Punct ''##'' \<notin> set M" "Ident ''__VA_OPT__'' \<notin> set M"
  shows "VA_ISEMPTY_with [(m, FunctionLike [] False
      (S1 @ Comma # S2 @ Comma # LParen # G1 @ RParen # LParen # G2 @ RParen # LParen # G3 @ RParen # R @ Comma # M))] C99 (20 + n) [Ident m] =
    Inr zero"
  unfolding VA_ISEMPTY_with_def invoke_def nm_VA_ISEMPTY_def[symmetric]
  using assms user_name_rules[OF assms(1)]
  by (simp add: user_rules body_rules)

lemma zero_argument_C99_second:
  assumes "user_name C99 m" "macro_free (table_of C99) S1" "argument S1" "Ident m \<notin> set S1"
    "Punct ''##'' \<notin> set S1" "Ident ''__VA_OPT__'' \<notin> set S1"
    "macro_free (table_of C99) S2" "argument S2" "Ident m \<notin> set S2"
    "Punct ''##'' \<notin> set S2" "Ident ''__VA_OPT__'' \<notin> set S2"
    "macro_free (table_of C99) M" "balanced M" "Ident m \<notin> set M"
    "Punct ''##'' \<notin> set M" "Ident ''__VA_OPT__'' \<notin> set M"
  shows "VA_ISEMPTY_with [(m, FunctionLike [] False
      (S1 @ Comma # S2 @ Comma # M))] C99 (20 + n) [Ident m] =
    (if three_groups (hd (slots M)) then Inr zero else Inr zero)"
  using assms(13)
proof (cases rule: balanced_cases)
  case one
  then have hd: "hd (slots M) = M" by (simp add: slots_simps)
  from one show ?thesis
  proof (cases rule: group_cases)
    case g0
    with hd assms one show ?thesis
      by (simp add: zero_argument_C99_no_group macro_free_simps)
  next
    case (g1 G1 T)
    with hd assms one show ?thesis
      by (simp add: zero_argument_C99_one_group macro_free_simps)
  next
    case (g2 G1 G2 T)
    with hd assms one show ?thesis
      by (simp add: zero_argument_C99_two_groups macro_free_simps)
  next
    case (g3 G1 G2 G3 R)
    with hd assms one show ?thesis
      by (simp add: zero_argument_C99_three_groups macro_free_simps)
  qed
next
  case (more S M')
  then have hd: "hd (slots M) = S" by (simp add: slots_simps)
  from more(2) show ?thesis
  proof (cases rule: group_cases)
    case g0
    with hd assms more show ?thesis
      by (simp add: zero_argument_C99_no_group_more macro_free_simps)
  next
    case (g1 G1 T)
    with hd assms more show ?thesis
      by (simp add: zero_argument_C99_one_group_more macro_free_simps)
  next
    case (g2 G1 G2 T)
    with hd assms more show ?thesis
      by (simp add: zero_argument_C99_two_groups_more macro_free_simps)
  next
    case (g3 G1 G2 G3 R)
    with hd assms more show ?thesis
      by (simp add: zero_argument_C99_three_groups_more macro_free_simps)
  qed
qed

lemma zero_argument_C99:
  assumes "user_name C99 m" "macro_free (table_of C99) B" "Ident m \<notin> set B"
    "Punct ''##'' \<notin> set B" "Ident ''__VA_OPT__'' \<notin> set B" "balanced B"
  shows "VA_ISEMPTY_with [(m, FunctionLike [] False B)] C99 (20 + n) [Ident m] = Inr zero"
  using assms(6)
proof (cases rule: balanced_cases)
  case one
  with assms show ?thesis by (simp add: zero_argument_C99_one)
next
  case first: (more S1 M1)
  from first(3) show ?thesis
  proof (cases rule: balanced_cases)
    case one
    with assms first show ?thesis by (simp add: zero_argument_C99_two macro_free_simps)
  next
    case (more S2 M2)
    with assms first show ?thesis by (simp add: zero_argument_C99_second macro_free_simps)
  qed
qed

text \<open>
  C6: let the translation unit define a macro \<open>m\<close> that takes no argument,
  \<^verbatim>\<open>#define m() body\<close>, under any name the header leaves free and with any replacement
  list that has matched parentheses and no macro name, \<^verbatim>\<open>#\<close> or \<^verbatim>\<open>##\<close> in it:
  \<^verbatim>\<open>()\<close>, a comma, \<^verbatim>\<open>(),\<close> and every other list of parentheses and commas are such
  lists. Then \<^verbatim>\<open>VA_ISEMPTY(m)\<close> is \<open>0\<close> under the native, the GNU and the portable
  strategy: the argument is the name, a token, although two of the portable strategy's
  probes invoke \<^verbatim>\<open>m ()\<close> and see its parentheses and commas. (Under the standard's expansion
  the MSVC implementation classifies no argument list at all, see C8.)
\<close>

theorem VA_ISEMPTY_zero_argument_macro:
  assumes "user_name s m" and "s \<noteq> MSVC" and "plain_macro [] False body"
    and "macro_free (table_with [(m, FunctionLike [] False body)] s) body"
    and "balanced body"
  shows "VA_ISEMPTY_with [(m, FunctionLike [] False body)] s (20 + n) [Ident m] = Inr zero"
proof (cases "s = C99")
  case True
  from assms(3,4) True have "macro_free (table_of C99) body" "Ident m \<notin> set body"
    "Punct ''##'' \<notin> set body" "Ident ''__VA_OPT__'' \<notin> set body"
    by (simp_all add: plain_macro_def macro_free_user va_opt_def)
  with assms(1,5) True show ?thesis by (simp add: zero_argument_C99)
next
  case False
  with assms(2) have "s = Native \<or> s = GNU" by (cases s) simp_all
  with assms(1) show ?thesis by (rule zero_argument_not_invoked)
qed

theorem VA_ISEMPTY_zero_argument_macro_witness:
  "user_name C99 ''e'' \<and> C99 \<noteq> MSVC \<and> plain_macro [] False [Comma] \<and>
   plain_macro [] False [LParen, RParen] \<and>
   macro_free (table_with [(''e'', FunctionLike [] False [Comma])] C99) [Comma] \<and>
   balanced [Comma] \<and> balanced [LParen, RParen] \<and>
   VA_ISEMPTY_with [(''e'', FunctionLike [] False [Comma])] C99 20 [Ident ''e''] = Inr zero \<and>
   VA_ISEMPTY_with [(''e'', FunctionLike [] False [LParen, RParen])] C99 20 [Ident ''e'']
     = Inr zero"
  using VA_ISEMPTY_zero_argument_macro[of C99 "''e''" "[Comma]" 0]
    VA_ISEMPTY_zero_argument_macro[of C99 "''e''" "[LParen, RParen]" 0]
  by (simp add: user_name_def miss_c99 ident_chars_def plain_macro_def macro_free_def
      balanced_def nest_def va_args_def va_opt_def)

section \<open>Tokens that cannot be pasted\<close>

lemma VA_ISEMPTY_EATER0_literal:
  "VA_ISEMPTY_of C99 20 [Ident ''EATER0'', LParen, StrLit ''unpastable'', RParen] = Inr one"
  unfolding VA_ISEMPTY_of_def run_def invoke_def nm_VA_ISEMPTY_def[symmetric]
    nm_EATER0_def[symmetric]
  by (simp add: eval_rules lookup_c99 miss_c99 spelling_def one_def)

text \<open>
  C7, as the spec states it, fails for a list that holds a string literal among macro
  invocations: the list is classified after expansion, and \<^verbatim>\<open>EATER0("unpastable")\<close>
  expands to nothing, so \<^verbatim>\<open>VA_ISEMPTY(EATER0("unpastable"))\<close> is \<open>1\<close>.
\<close>

theorem VA_ISEMPTY_literal_swallowed:
  "StrLit ''unpastable'' \<in> set [Ident ''EATER0'', LParen, StrLit ''unpastable'', RParen] \<and>
   VA_ISEMPTY_of C99 20 [Ident ''EATER0'', LParen, StrLit ''unpastable'', RParen] \<noteq> Inr zero"
  using VA_ISEMPTY_EATER0_literal by (simp add: zero_def one_def)

text \<open>
  C7, amended: for every token list \<open>L\<close> with matched parentheses and no macro name in it
  that holds a string literal, whatever its text and wherever it stands, \<^verbatim>\<open>VA_ISEMPTY(L)\<close>
  expands without error under the native, the GNU and the portable strategy: the result
  is a value, never the diagnostic of a rejected paste, since \<^verbatim>\<open>##\<close> only joins names of
  the header with the \<open>0\<close> or \<open>1\<close> of a probe. The value is \<open>0\<close>, the lists that the sentinel
  check mistakes (\<open>taken_for_empty\<close>, see C5 and C9) left out.
\<close>

theorem VA_ISEMPTY_unpastable:
  assumes "s \<noteq> MSVC" and "list_all lexical L" and "macro_free (table_of s) L"
    and "balanced L" and "StrLit str \<in> set L"
  shows "VA_ISEMPTY_of s (20 + n) L \<noteq> Inl InvalidPaste \<and>
         (\<not> taken_for_empty s L \<longrightarrow> VA_ISEMPTY_of s (20 + n) L = Inr zero)"
proof -
  from assms(5) have "L \<noteq> []" by auto
  then show ?thesis using VA_ISEMPTY_value[OF assms(1,3,4), of n] by simp
qed

theorem VA_ISEMPTY_unpastable_witness:
  "Native \<noteq> MSVC \<and> list_all lexical [StrLit ''unpastable''] \<and>
   macro_free (table_of Native) [StrLit ''unpastable''] \<and>
   balanced [StrLit ''unpastable''] \<and> StrLit ''unpastable'' \<in> set [StrLit ''unpastable''] \<and>
   \<not> taken_for_empty C99 [StrLit ''unpastable''] \<and>
   VA_ISEMPTY_of Native 20 [StrLit ''unpastable''] = Inr zero \<and>
   VA_ISEMPTY_of C99 20 [StrLit ''unpastable''] = Inr zero"
  using VA_ISEMPTY_unpastable[of Native "[StrLit ''unpastable'']" "''unpastable''" 0]
    VA_ISEMPTY_unpastable[of C99 "[StrLit ''unpastable'']" "''unpastable''" 0]
  by (simp add: macro_free_def balanced_def taken_for_empty_def second_sentinel_def slots_def
      plain_def nest_def ident_chars_def)

section \<open>The documented limitation of the portable strategy\<close>














section \<open>The sentinel\<close>









section \<open>The comma probe\<close>

lemma HAS_COMMA_two:
  "run C99 (12 + n) ''NTRNLVA_HAS_COMMA'' [Ident ''a'', Comma, Ident ''b''] = Inr one"
  unfolding run_def invoke_def nm_NTRNLVA_HAS_COMMA_def[symmetric]
  by (simp add: eval_rules lookup_c99 miss_c99 spelling_def one_def)

lemma HAS_COMMA_three:
  "run C99 (12 + n) ''NTRNLVA_HAS_COMMA'' [Ident ''a'', Comma, Ident ''b'', Comma, Ident ''c'']
     = Inr zero"
  unfolding run_def invoke_def nm_NTRNLVA_HAS_COMMA_def[symmetric]
  by (simp add: eval_rules lookup_c99 miss_c99 spelling_def zero_def)

lemma HAS_COMMA_MACMANYPLUS:
  "run C99 (12 + n) ''NTRNLVA_HAS_COMMA'' [Ident ''MACMANYPLUS'', LParen, RParen] = Inr zero"
  unfolding run_def invoke_def nm_NTRNLVA_HAS_COMMA_def[symmetric]
    nm_MACMANYPLUS_def[symmetric]
  by (simp add: eval_rules lookup_c99 miss_c99 spelling_def zero_def)

text \<open>
  C10 does not hold of the code: \<^verbatim>\<open>NTRNLVA_HAS_COMMA(a, b)\<close> is \<open>1\<close>, but
  \<^verbatim>\<open>NTRNLVA_HAS_COMMA(a, b, c)\<close> is \<open>0\<close>. The third argument of
  \<^verbatim>\<open>NTRNLVA_SEL3_I(a, b, c, ()()(), 0)\<close> is \<open>c\<close>, not the sentinel: the sentinel is in the
  third place only when the list has exactly two arguments. The header's self-test
  reaches such a list: for \<^verbatim>\<open>X(0, MACMANYPLUS)\<close> the third probe is
  \<^verbatim>\<open>NTRNLVA_HAS_COMMA(MACMANYPLUS ())\<close>, a list of nineteen \<^verbatim>\<open>+\<close> with eighteen commas,
  and it is \<open>0\<close>.
\<close>

theorem HAS_COMMA_three_arguments:
  "run C99 (12 + n) ''NTRNLVA_HAS_COMMA'' [Ident ''a'', Comma, Ident ''b''] = Inr one \<and>
   run C99 (12 + n) ''NTRNLVA_HAS_COMMA'' [Ident ''a'', Comma, Ident ''b'', Comma, Ident ''c'']
     = Inr zero \<and>
   run C99 (12 + n) ''NTRNLVA_HAS_COMMA'' [Ident ''MACMANYPLUS'', LParen, RParen] = Inr zero"
  by (simp only: HAS_COMMA_two HAS_COMMA_three HAS_COMMA_MACMANYPLUS simp_thms)

end
